theory Spec2Isabelle
  imports Complex_Main "HOL-Library.AList"
begin

chapter \<open>The model of \<^verbatim>\<open>doped/plotting.py\<close>\<close>

section \<open>Shared Python vocabulary\<close>

text \<open>
  The numeric core of \<^verbatim>\<open>doped/plotting.py\<close> is embedded function by function: the y-axis
  range, the legend formatter and the builder of the formation-energy lines. Every
  exception the code can raise is a value of \<open>py_error\<close>, and a function that can raise
  returns \<open>py_error + 'a\<close> with \<open>Inl\<close> for the exception. Python strings are lists of
  Unicode code points, since the legend formatter builds characters with \<^verbatim>\<open>chr\<close>, whose
  range is not that of a byte; \<open>py\<close> turns an ASCII literal into such a list.

  A Python float is an IEEE double and not a real number. The builder of the lines only
  stores, sorts and compares the energies it is given, so there a finite float is the real
  number it stands for. The y-axis range computes with floats, in the arithmetic of IEEE
  doubles, which is written out below.
\<close>

datatype py_error =
  KeyError | IndexError | ValueError | UnboundLocalError | ZeroDivisionError
  | AttributeError | TypeError

type_synonym pystr = "nat list"

definition py :: "string \<Rightarrow> pystr" where
  "py s = map of_char s"

text \<open>\<^verbatim>\<open>max(xs)\<close> and \<^verbatim>\<open>min(xs)\<close> of a sequence: \<^verbatim>\<open>ValueError\<close> on the empty one.\<close>

definition py_max :: "'a::linorder list \<Rightarrow> py_error + 'a" where
  "py_max xs = (case xs of [] \<Rightarrow> Inl ValueError | x # ys \<Rightarrow> Inr (fold max ys x))"

definition py_min :: "'a::linorder list \<Rightarrow> py_error + 'a" where
  "py_min xs = (case xs of [] \<Rightarrow> Inl ValueError | x # ys \<Rightarrow> Inr (fold min ys x))"

text \<open>
  The same two functions on values whose comparison is a parameter: \<^verbatim>\<open>max\<close> keeps the
  first item and replaces it by every later item that is \<^verbatim>\<open>>\<close> the one kept, \<^verbatim>\<open>min\<close> by
  every later item that is \<^verbatim>\<open><\<close> the one kept.
\<close>

definition py_max_by :: "('a \<Rightarrow> 'a \<Rightarrow> bool) \<Rightarrow> 'a list \<Rightarrow> py_error + 'a" where
  "py_max_by gt xs =
     (case xs of
        [] \<Rightarrow> Inl ValueError
      | x # ys \<Rightarrow> Inr (fold (\<lambda>item kept. if gt item kept then item else kept) ys x))"

definition py_min_by :: "('a \<Rightarrow> 'a \<Rightarrow> bool) \<Rightarrow> 'a list \<Rightarrow> py_error + 'a" where
  "py_min_by lt xs =
     (case xs of
        [] \<Rightarrow> Inl ValueError
      | x # ys \<Rightarrow> Inr (fold (\<lambda>item kept. if lt item kept then item else kept) ys x))"

text \<open>
  \<^verbatim>\<open>s.rsplit(c, 1)[0]\<close>: the part of \<open>s\<close> before the last occurrence of the character \<open>c\<close>,
  and all of \<open>s\<close> when \<open>c\<close> does not occur.
\<close>

definition rsplit1_head :: "nat \<Rightarrow> pystr \<Rightarrow> pystr" where
  "rsplit1_head c s = (if c \<in> set s then rev (tl (dropWhile (\<lambda>x. x \<noteq> c) (rev s))) else s)"

text \<open>\<^verbatim>\<open>str(i)\<close> of an integer, as an f-string writes it: decimal digits, \<^verbatim>\<open>-\<close> in front.\<close>

fun str_nat :: "nat \<Rightarrow> pystr" where
  "str_nat n = (if n < 10 then [48 + n] else str_nat (n div 10) @ [48 + n mod 10])"

declare str_nat.simps [simp del]

definition str_int :: "int \<Rightarrow> pystr" where
  "str_int i = (if i < 0 then 45 # str_nat (nat (- i)) else str_nat (nat i))"

text \<open>
  \<^verbatim>\<open>d[k]\<close> on a dictionary raises \<^verbatim>\<open>KeyError\<close> on a missing key. A dictionary that is iterated
  is an association list in insertion order, whose keys are distinct. Reading a local
  variable that no statement has assigned yet raises \<^verbatim>\<open>UnboundLocalError\<close>; such a
  variable is an option, \<open>None\<close> while unassigned.
\<close>

definition lookup :: "('k \<times> 'v) list \<Rightarrow> 'k \<Rightarrow> py_error + 'v" where
  "lookup d k = (case map_of d k of None \<Rightarrow> Inl KeyError | Some v \<Rightarrow> Inr v)"

definition read_var :: "'a option \<Rightarrow> py_error + 'a" where
  "read_var v = (case v of None \<Rightarrow> Inl UnboundLocalError | Some x \<Rightarrow> Inr x)"

section \<open>The y-axis range: \<^verbatim>\<open>_get_ylim_from_y_range_vals\<close>\<close>

text \<open>
  \<^verbatim>\<open>
  def _get_ylim_from_y_range_vals(y_range_vals, ymin=0, auto_labels=False):
      window = max(y_range_vals) - min(y_range_vals)
      spacer = 0.1 * window
      ylim = (ymin, max(y_range_vals) + spacer)
      if auto_labels:
          ylim = (ymin, max(y_range_vals) * 1.17) if spacer / ylim[1] < 0.145 else ylim
      return ylim
  \<close>
  The values are floats. Their comparisons \<^verbatim>\<open><\<close> and \<^verbatim>\<open>>\<close>, their subtraction, addition,
  multiplication and division, and the floats that the literals \<^verbatim>\<open>0.1\<close>, \<^verbatim>\<open>0.145\<close> and
  \<^verbatim>\<open>1.17\<close> denote are the fields of a record of operations on a type \<open>'f\<close> of values, so
  that the function is written once for every arithmetic; \<open>binary64\<close> below is the
  arithmetic of Python's floats. The division returns its quotient or the exception it
  raises.
\<close>

record 'f float_ops =
  f_lt :: "'f \<Rightarrow> 'f \<Rightarrow> bool"
  f_gt :: "'f \<Rightarrow> 'f \<Rightarrow> bool"
  f_sub :: "'f \<Rightarrow> 'f \<Rightarrow> 'f"
  f_add :: "'f \<Rightarrow> 'f \<Rightarrow> 'f"
  f_mul :: "'f \<Rightarrow> 'f \<Rightarrow> 'f"
  f_div :: "'f \<Rightarrow> 'f \<Rightarrow> py_error + 'f"
  lit_0_1 :: 'f
  lit_0_145 :: 'f
  lit_1_17 :: 'f

definition get_ylim_from_y_range_vals ::
  "'f float_ops \<Rightarrow> 'f list \<Rightarrow> 'f \<Rightarrow> bool \<Rightarrow> py_error + ('f \<times> 'f)" where
  "get_ylim_from_y_range_vals ops y_range_vals ymin auto_labels =
     (case py_max_by (f_gt ops) y_range_vals of
        Inl e \<Rightarrow> Inl e
      | Inr mx \<Rightarrow>
         (case py_min_by (f_lt ops) y_range_vals of
            Inl e \<Rightarrow> Inl e
          | Inr mn \<Rightarrow>
             (let window = f_sub ops mx mn;
                  spacer = f_mul ops (lit_0_1 ops) window;
                  ylim = (ymin, f_add ops mx spacer)
              in if auto_labels
                 then (case f_div ops spacer (snd ylim) of
                         Inl e \<Rightarrow> Inl e
                       | Inr ratio \<Rightarrow>
                           Inr (if f_lt ops ratio (lit_0_145 ops)
                                then (ymin, f_mul ops mx (lit_1_17 ops))
                                else ylim))
                 else Inr ylim)))"

subsection \<open>The arithmetic of Python's floats\<close>

text \<open>
  A Python float is an IEEE 754 double: a finite number \<open>m * 2 ^ q\<close> with \<open>\<bar>m\<bar> < 2 ^ 53\<close> and
  \<open>- 1074 \<le> q \<le> 971\<close>, one of the two infinities, or not a number. A finite double is the
  real number it stands for. The two zeros of the format are one value here: they are equal
  in Python, a division by either of them raises, and every other operation gives equal
  results on them.

  An operation on finite doubles returns the real result rounded to the nearest double,
  to the one with the even \<open>m\<close> when two are equally near, and an infinity when the rounded
  result is \<open>2 ^ 1024\<close> or more in size. \<open>floor_log2 n r\<close> is the exponent of the power of two
  at or below \<open>r\<close>, found in at most \<open>n\<close> steps; \<open>round_pos\<close> rounds a positive number in units
  of \<open>2 ^ q\<close>, where \<open>q\<close> is that exponent less 52, and \<open>- 1074\<close> below the smallest normal
  double.
\<close>

datatype b64 = Finite real | PosInf | NegInf | NaN

definition pow2 :: "int \<Rightarrow> real" where
  "pow2 k = (if 0 \<le> k then 2 ^ nat k else 1 / 2 ^ nat (- k))"

fun floor_log2 :: "nat \<Rightarrow> real \<Rightarrow> int" where
  "floor_log2 0 r = 0"
| "floor_log2 (Suc n) r =
     (if 2 \<le> r then floor_log2 n (r / 2) + 1
      else if r < 1 then floor_log2 n (2 * r) - 1
      else 0)"

definition round_even :: "real \<Rightarrow> int" where
  "round_even v =
     (let n = \<lfloor>v\<rfloor>; d = v - of_int n
      in if 1 / 2 < d \<or> (d = 1 / 2 \<and> odd n) then n + 1 else n)"

definition round_pos :: "real \<Rightarrow> b64" where
  "round_pos r =
     (if pow2 1024 \<le> r then PosInf
      else let q = (if r < pow2 (- 1022) then - 1074 else floor_log2 1100 r - 52);
               res = of_int (round_even (r / pow2 q)) * pow2 q
           in if pow2 1024 \<le> res then PosInf else Finite res)"

fun b_neg :: "b64 \<Rightarrow> b64" where
  "b_neg (Finite x) = Finite (- x)"
| "b_neg PosInf = NegInf"
| "b_neg NegInf = PosInf"
| "b_neg NaN = NaN"

definition round_real :: "real \<Rightarrow> b64" where
  "round_real r =
     (if r = 0 then Finite 0
      else if 0 < r then round_pos r
      else b_neg (round_pos (- r)))"

text \<open>
  The four operations and the comparison. Only the division raises, and only on a zero
  divisor, whatever the dividend is.
\<close>

fun b_add :: "b64 \<Rightarrow> b64 \<Rightarrow> b64" where
  "b_add (Finite x) (Finite y) = round_real (x + y)"
| "b_add NaN _ = NaN"
| "b_add _ NaN = NaN"
| "b_add PosInf NegInf = NaN"
| "b_add NegInf PosInf = NaN"
| "b_add PosInf _ = PosInf"
| "b_add _ PosInf = PosInf"
| "b_add NegInf _ = NegInf"
| "b_add _ NegInf = NegInf"

definition b_sub :: "b64 \<Rightarrow> b64 \<Rightarrow> b64" where
  "b_sub x y = b_add x (b_neg y)"

fun b_mul :: "b64 \<Rightarrow> b64 \<Rightarrow> b64" where
  "b_mul (Finite x) (Finite y) = round_real (x * y)"
| "b_mul NaN _ = NaN"
| "b_mul _ NaN = NaN"
| "b_mul (Finite x) i = (if x = 0 then NaN else if 0 < x then i else b_neg i)"
| "b_mul i (Finite y) = (if y = 0 then NaN else if 0 < y then i else b_neg i)"
| "b_mul PosInf i = i"
| "b_mul NegInf i = b_neg i"

fun b_div :: "b64 \<Rightarrow> b64 \<Rightarrow> py_error + b64" where
  "b_div x (Finite y) =
     (if y = 0 then Inl ZeroDivisionError
      else case x of
             Finite x' \<Rightarrow> Inr (round_real (x' / y))
           | NaN \<Rightarrow> Inr NaN
           | i \<Rightarrow> Inr (if 0 < y then i else b_neg i))"
| "b_div NaN _ = Inr NaN"
| "b_div _ NaN = Inr NaN"
| "b_div (Finite x) _ = Inr (Finite 0)"
| "b_div _ _ = Inr NaN"

fun b_lt :: "b64 \<Rightarrow> b64 \<Rightarrow> bool" where
  "b_lt (Finite x) (Finite y) = (x < y)"
| "b_lt NaN _ = False"
| "b_lt _ NaN = False"
| "b_lt NegInf NegInf = False"
| "b_lt NegInf _ = True"
| "b_lt _ NegInf = False"
| "b_lt PosInf _ = False"
| "b_lt _ PosInf = True"

definition b_gt :: "b64 \<Rightarrow> b64 \<Rightarrow> bool" where
  "b_gt x y = b_lt y x"

text \<open>The float that the decimal literal with the value \<open>a / b\<close> denotes: the nearest double.\<close>

definition float_literal :: "int \<Rightarrow> int \<Rightarrow> b64" where
  "float_literal a b = round_real (of_int a / of_int b)"

definition binary64 :: "b64 float_ops" where
  "binary64 = \<lparr>f_lt = b_lt, f_gt = b_gt, f_sub = b_sub, f_add = b_add, f_mul = b_mul,
     f_div = b_div, lit_0_1 = float_literal 1 10, lit_0_145 = float_literal 145 1000,
     lit_1_17 = float_literal 117 100\<rparr>"

section \<open>The legend formatter: \<^verbatim>\<open>_get_legends_txt\<close>\<close>

text \<open>
  \<^verbatim>\<open>
  def _get_legends_txt(for_legend, all_entries=False):
      legends_txt = []
      for defect_entry_name in for_legend:
          try:
              defect_name = _format_defect_name(
                  defect_species=defect_entry_name, include_site_num_in_name=False)
              if not all_entries:
                  defect_name = f"{defect_name.rsplit('^', 1)[0]}$"
          except Exception:
              defect_name = defect_entry_name
          if defect_name in legends_txt:
              defect_name = _format_defect_name(
                  defect_species=defect_entry_name, include_site_num_in_name=True)
              if not all_entries:
                  defect_name = f"{defect_name.rsplit('^', 1)[0]}$"
          if defect_name in legends_txt:
              i = 1
              while defect_name in legends_txt:
                  i += 1
                  defect_name = f"{defect_name[:-3]}{chr(96 + i)}{defect_name[-3:]}"
          legends_txt.append(defect_name)
      return legends_txt
  \<close>
  \<^verbatim>\<open>_format_defect_name\<close> belongs to another package; it is a parameter \<open>fmt\<close>. A call of
  it raises an exception, or returns the formatted name, or returns \<^verbatim>\<open>None\<close>: so a label
  is a string or \<^verbatim>\<open>None\<close>, an option. The option \<^verbatim>\<open>all_entries\<close> is \<^verbatim>\<open>False\<close>, \<^verbatim>\<open>True\<close> or the
  string \<^verbatim>\<open>"faded"\<close>, which is true as a condition.
\<close>

datatype all_entries_opt = AE_False | AE_True | AE_Faded

fun truthy :: "all_entries_opt \<Rightarrow> bool" where
  "truthy AE_False = False"
| "truthy AE_True = True"
| "truthy AE_Faded = True"

type_synonym label = "pystr option"

type_synonym formatter = "pystr \<Rightarrow> bool \<Rightarrow> py_error + label"

text \<open>
  The f-string \<^verbatim>\<open>f"{defect_name.rsplit('^', 1)[0]}$"\<close>; 94 is \<^verbatim>\<open>^\<close> and 36 is \<^verbatim>\<open>$\<close>. On
  \<^verbatim>\<open>None\<close> the method \<^verbatim>\<open>rsplit\<close> does not exist and the attribute access raises
  \<^verbatim>\<open>AttributeError\<close>.
\<close>

definition exclude_charge :: "pystr \<Rightarrow> pystr" where
  "exclude_charge defect_name = rsplit1_head 94 defect_name @ [36]"

definition exclude_charge_of :: "label \<Rightarrow> py_error + label" where
  "exclude_charge_of defect_name =
     (case defect_name of
        None \<Rightarrow> Inl AttributeError
      | Some s \<Rightarrow> Inr (Some (exclude_charge s)))"

text \<open>
  The \<^verbatim>\<open>try\<close> block with its handler: an exception of the formatter or of the f-string
  gives the raw name.
\<close>

definition first_attempt :: "formatter \<Rightarrow> all_entries_opt \<Rightarrow> pystr \<Rightarrow> label" where
  "first_attempt fmt all_entries defect_entry_name =
     (case fmt defect_entry_name False of
        Inl e \<Rightarrow> Some defect_entry_name
      | Inr defect_name \<Rightarrow>
          if \<not> truthy all_entries
          then (case exclude_charge_of defect_name of
                  Inl e \<Rightarrow> Some defect_entry_name
                | Inr defect_name' \<Rightarrow> defect_name')
          else defect_name)"

text \<open>
  The second call, with the site number, stands outside the \<^verbatim>\<open>try\<close> block: its
  exceptions, and those of the f-string after it, leave the function.
\<close>

definition site_retry :: "formatter \<Rightarrow> all_entries_opt \<Rightarrow> pystr \<Rightarrow> py_error + label" where
  "site_retry fmt all_entries defect_entry_name =
     (case fmt defect_entry_name True of
        Inl e \<Rightarrow> Inl e
      | Inr defect_name \<Rightarrow>
          if \<not> truthy all_entries then exclude_charge_of defect_name else Inr defect_name)"

text \<open>\<^verbatim>\<open>chr(n)\<close> raises \<^verbatim>\<open>ValueError\<close> outside \<^verbatim>\<open>range(0x110000)\<close>.\<close>

definition py_chr :: "nat \<Rightarrow> py_error + nat" where
  "py_chr n = (if n < 1114112 then Inr n else Inl ValueError)"

text \<open>
  \<^verbatim>\<open>f"{defect_name[:-3]}{c}{defect_name[-3:]}"\<close>: on a name shorter than three characters
  the first slice is empty and the second is the whole name, as truncating subtraction gives.
\<close>

definition insert_suffix :: "nat \<Rightarrow> pystr \<Rightarrow> pystr" where
  "insert_suffix c defect_name =
     take (length defect_name - 3) defect_name @ [c] @ drop (length defect_name - 3) defect_name"

lemma length_insert_suffix: "length (insert_suffix c s) = Suc (length s)"
  by (simp add: insert_suffix_def)

text \<open>
  The \<^verbatim>\<open>while\<close> loop. The f-string slices the name first, and \<^verbatim>\<open>None\<close> cannot be sliced:
  \<^verbatim>\<open>TypeError\<close>. Each round makes a string one character longer, and a string that is in
  the list is no longer than the strings of the list together, so the loop ends.
\<close>

fun label_length :: "label \<Rightarrow> nat" where
  "label_length None = 0"
| "label_length (Some s) = length s"

function suffix_loop :: "label list \<Rightarrow> nat \<Rightarrow> label \<Rightarrow> py_error + label" where
  "suffix_loop legends_txt i defect_name =
     (if defect_name \<in> set legends_txt
      then (case defect_name of
              None \<Rightarrow> Inl TypeError
            | Some s \<Rightarrow>
               (case py_chr (96 + (i + 1)) of
                  Inl e \<Rightarrow> Inl e
                | Inr c \<Rightarrow> suffix_loop legends_txt (i + 1) (Some (insert_suffix c s))))
      else Inr defect_name)"
  by pat_completeness auto
termination
proof (relation "measure (\<lambda>(legends_txt, i, defect_name).
          Suc (sum_list (map label_length legends_txt)) - label_length defect_name)")
  show "wf (measure (\<lambda>(legends_txt, i, defect_name).
          Suc (sum_list (map label_length legends_txt)) - label_length defect_name))"
    by simp
next
  fix legends_txt :: "label list" and i :: nat and defect_name :: label and s :: pystr
    and c :: nat
  assume "defect_name \<in> set legends_txt" and "defect_name = Some s"
  then have "Some s \<in> set legends_txt" by simp
  then have "label_length (Some s) \<in> set (map label_length legends_txt)"
    by force
  then have "label_length (Some s) \<le> sum_list (map label_length legends_txt)"
    by (simp add: member_le_sum_list)
  then show "((legends_txt, i + 1, Some (insert_suffix c s)), legends_txt, i, defect_name)
      \<in> measure (\<lambda>(legends_txt, i, defect_name).
          Suc (sum_list (map label_length legends_txt)) - label_length defect_name)"
    using \<open>defect_name = Some s\<close> by (simp add: length_insert_suffix)
qed

declare suffix_loop.simps [simp del]

text \<open>The body of the \<^verbatim>\<open>for\<close> loop: the label of one name, given the labels so far.\<close>

definition legend_step :: "formatter \<Rightarrow> all_entries_opt \<Rightarrow> label list \<Rightarrow> pystr \<Rightarrow> py_error + label" where
  "legend_step fmt all_entries legends_txt defect_entry_name =
     (let defect_name = first_attempt fmt all_entries defect_entry_name
      in case (if defect_name \<in> set legends_txt
               then site_retry fmt all_entries defect_entry_name
               else Inr defect_name) of
           Inl e \<Rightarrow> Inl e
         | Inr defect_name \<Rightarrow>
            (if defect_name \<in> set legends_txt
             then suffix_loop legends_txt 1 defect_name
             else Inr defect_name))"

fun legends_loop :: "formatter \<Rightarrow> all_entries_opt \<Rightarrow> label list \<Rightarrow> pystr list \<Rightarrow> py_error + label list" where
  "legends_loop fmt all_entries legends_txt [] = Inr legends_txt"
| "legends_loop fmt all_entries legends_txt (defect_entry_name # rest) =
     (case legend_step fmt all_entries legends_txt defect_entry_name of
        Inl e \<Rightarrow> Inl e
      | Inr defect_name \<Rightarrow> legends_loop fmt all_entries (legends_txt @ [defect_name]) rest)"

definition get_legends_txt :: "formatter \<Rightarrow> pystr list \<Rightarrow> all_entries_opt \<Rightarrow> py_error + label list" where
  "get_legends_txt fmt for_legend all_entries = legends_loop fmt all_entries [] for_legend"

section \<open>The formation-energy lines: \<^verbatim>\<open>_get_formation_energy_lines\<close>\<close>

subsection \<open>The diagram\<close>

text \<open>
  The function reads a \<^verbatim>\<open>DefectPhaseDiagram\<close> of another module: its entries (each with
  a name and an integer charge state; whatever else an entry holds is the record's
  extension), its transition-level map (per species, a dictionary from a Fermi-level
  breakpoint to the charge states tied there), its stable entries per species, its band
  gap, and its method \<^verbatim>\<open>_formation_energy(entry, chemical_potentials, fermi_level)\<close>, taken
  as a total function. Both dictionaries of the transition-level map are iterated, so they
  are association lists in insertion order.
\<close>

record defect_entry =
  name :: pystr
  charge_state :: int

record ('m, 'cp) defect_phase_diagram =
  entries :: "'m defect_entry_scheme list"
  transition_level_map :: "(pystr \<times> (real \<times> int list) list) list"
  stable_entries :: "(pystr \<times> 'm defect_entry_scheme list) list"
  band_gap :: real
  formation_energy :: "'m defect_entry_scheme \<Rightarrow> 'cp \<Rightarrow> real \<Rightarrow> real"

type_synonym polyline = "real list \<times> real list"

definition lower_cap :: real where "lower_cap = - 100"
definition upper_cap :: real where "upper_cap = 100"


text \<open>The key \<^verbatim>\<open>f"{defect_entry.name}_{defect_entry.charge_state}"\<close>.\<close>

definition entry_key :: "'m defect_entry_scheme \<Rightarrow> pystr" where
  "entry_key defect_entry = name defect_entry @ py ''_'' @ str_int (charge_state defect_entry)"


subsection \<open>The line of every entry\<close>

text \<open>
  \<^verbatim>\<open>
  lower_cap, upper_cap = -100, 100
  for defect_entry in defect_phase_diagram.entries:
      defect_entry_name = f"{defect_entry.name}_{defect_entry.charge_state}"
      all_lines_xy[defect_entry_name] = [[], []]
      for x_extrem in [lower_cap, upper_cap]:
          all_lines_xy[defect_entry_name][0].append(x_extrem)
          all_lines_xy[defect_entry_name][1].append(
              defect_phase_diagram._formation_energy(
                  defect_entry, chemical_potentials=dft_chempots, fermi_level=x_extrem))
          all_entries_y_range_vals.extend(
              defect_phase_diagram._formation_energy(
                  defect_entry, chemical_potentials=dft_chempots, fermi_level=x_window)
              for x_window in xlim)
  \<close>
  The \<^verbatim>\<open>extend\<close> stands inside the loop over the two caps, so it runs twice per entry.
  Assigning to a key that the dictionary already has replaces the value and keeps the
  key's place, which is \<open>AList.update\<close>.
\<close>

definition all_states_entry ::
  "('m, 'cp) defect_phase_diagram \<Rightarrow> 'cp \<Rightarrow> real \<times> real \<Rightarrow> 'm defect_entry_scheme
     \<Rightarrow> real list \<Rightarrow> polyline \<times> real list" where
  "all_states_entry dpd dft_chempots xlim defect_entry all_entries_y_range_vals =
     fold (\<lambda>x_extrem (line, vals).
             ((fst line @ [x_extrem],
               snd line @ [formation_energy dpd defect_entry dft_chempots x_extrem]),
              vals @ map (formation_energy dpd defect_entry dft_chempots) [fst xlim, snd xlim]))
          [lower_cap, upper_cap] (([], []), all_entries_y_range_vals)"

fun all_states_loop ::
  "('m, 'cp) defect_phase_diagram \<Rightarrow> 'cp \<Rightarrow> real \<times> real \<Rightarrow> 'm defect_entry_scheme list
     \<Rightarrow> (pystr \<times> polyline) list \<times> real list \<Rightarrow> (pystr \<times> polyline) list \<times> real list" where
  "all_states_loop dpd dft_chempots xlim [] acc = acc"
| "all_states_loop dpd dft_chempots xlim (defect_entry # rest) (all_lines_xy, vals) =
     (let (line, vals') = all_states_entry dpd dft_chempots xlim defect_entry vals
      in all_states_loop dpd dft_chempots xlim rest
           (AList.update (entry_key defect_entry) line all_lines_xy, vals'))"


subsection \<open>The envelope of one species\<close>

text \<open>
  The variables \<^verbatim>\<open>form_en\<close>, \<^verbatim>\<open>fe_left\<close> and \<^verbatim>\<open>fe_right\<close> are assigned only inside an
  \<^verbatim>\<open>if\<close> under a loop and are read after it, so they live in the state of the whole
  function, unassigned at first, together with the results built up so far. The field
  \<open>warned\<close> records the species a warning was issued for.
\<close>

record env_state =
  xy :: "(pystr \<times> polyline) list"
  y_range_vals :: "real list"
  form_en :: "real option"
  fe_left :: "real option"
  fe_right :: "real option"
  ymin :: real
  warned :: "pystr list"


text \<open>
  \<^verbatim>\<open>
  org_x = sorted(def_tl.keys())
  first_charge = max(def_tl[org_x[0]])
  for defect_entry in defect_phase_diagram.stable_entries[def_name]:
      if defect_entry.charge_state == first_charge:
          form_en = defect_phase_diagram._formation_energy(
              defect_entry, chemical_potentials=dft_chempots, fermi_level=lower_cap)
          fe_left = defect_phase_diagram._formation_energy(
              defect_entry, chemical_potentials=dft_chempots, fermi_level=xlim[0])
  xy[def_name][0].append(lower_cap)
  xy[def_name][1].append(form_en)
  y_range_vals.append(fe_left)
  \<close>
\<close>

definition lower_bound ::
  "('m, 'cp) defect_phase_diagram \<Rightarrow> 'cp \<Rightarrow> real \<times> real \<Rightarrow> pystr \<Rightarrow> (real \<times> int list) list
     \<Rightarrow> real list \<Rightarrow> env_state \<Rightarrow> py_error + (polyline \<times> env_state)" where
  "lower_bound dpd dft_chempots xlim def_name def_tl org_x st =
     (case org_x of
        [] \<Rightarrow> Inl IndexError
      | x0 # _ \<Rightarrow>
     (case lookup def_tl x0 of
        Inl e \<Rightarrow> Inl e
      | Inr ties \<Rightarrow>
     (case py_max ties of
        Inl e \<Rightarrow> Inl e
      | Inr first_charge \<Rightarrow>
     (case lookup (stable_entries dpd) def_name of
        Inl e \<Rightarrow> Inl e
      | Inr ents \<Rightarrow>
     (let st1 = fold (\<lambda>defect_entry s.
                   if charge_state defect_entry = first_charge
                   then s\<lparr>form_en := Some (formation_energy dpd defect_entry dft_chempots lower_cap),
                          fe_left := Some (formation_energy dpd defect_entry dft_chempots (fst xlim))\<rparr>
                   else s) ents st
      in case read_var (form_en st1) of
           Inl e \<Rightarrow> Inl e
         | Inr v \<Rightarrow>
        (case read_var (fe_left st1) of
           Inl e \<Rightarrow> Inl e
         | Inr w \<Rightarrow>
             Inr (([lower_cap], [v]), st1\<lparr>y_range_vals := y_range_vals st1 @ [w]\<rparr>)))))))"


text \<open>
  \<^verbatim>\<open>
  for fl in org_x:
      charge = max(def_tl[fl])
      for defect_entry in defect_phase_diagram.stable_entries[def_name]:
          if defect_entry.charge_state == charge:
              form_en = defect_phase_diagram._formation_energy(
                  defect_entry, chemical_potentials=dft_chempots, fermi_level=fl)
      xy[def_name][0].append(fl)
      xy[def_name][1].append(form_en)
      y_range_vals.append(form_en)
  \<close>
\<close>

fun breakpoints_loop ::
  "('m, 'cp) defect_phase_diagram \<Rightarrow> 'cp \<Rightarrow> pystr \<Rightarrow> (real \<times> int list) list
     \<Rightarrow> real list \<Rightarrow> polyline \<times> env_state \<Rightarrow> py_error + (polyline \<times> env_state)" where
  "breakpoints_loop dpd dft_chempots def_name def_tl [] acc = Inr acc"
| "breakpoints_loop dpd dft_chempots def_name def_tl (fl # rest) (line, st) =
     (case lookup def_tl fl of
        Inl e \<Rightarrow> Inl e
      | Inr ties \<Rightarrow>
     (case py_max ties of
        Inl e \<Rightarrow> Inl e
      | Inr charge \<Rightarrow>
     (case lookup (stable_entries dpd) def_name of
        Inl e \<Rightarrow> Inl e
      | Inr ents \<Rightarrow>
     (let st1 = fold (\<lambda>defect_entry s.
                   if charge_state defect_entry = charge
                   then s\<lparr>form_en := Some (formation_energy dpd defect_entry dft_chempots fl)\<rparr>
                   else s) ents st
      in case read_var (form_en st1) of
           Inl e \<Rightarrow> Inl e
         | Inr v \<Rightarrow>
             breakpoints_loop dpd dft_chempots def_name def_tl rest
               ((fst line @ [fl], snd line @ [v]),
                st1\<lparr>y_range_vals := y_range_vals st1 @ [v]\<rparr>)))))"


text \<open>
  \<^verbatim>\<open>
  last_charge = min(def_tl[org_x[-1]])
  for defect_entry in defect_phase_diagram.stable_entries[def_name]:
      if defect_entry.charge_state == last_charge:
          form_en = defect_phase_diagram._formation_energy(
              defect_entry, chemical_potentials=dft_chempots, fermi_level=upper_cap)
          fe_right = defect_phase_diagram._formation_energy(
              defect_entry, chemical_potentials=dft_chempots, fermi_level=xlim[1])
  xy[def_name][0].append(upper_cap)
  xy[def_name][1].append(form_en)
  y_range_vals.append(fe_right)
  \<close>
\<close>

definition upper_bound ::
  "('m, 'cp) defect_phase_diagram \<Rightarrow> 'cp \<Rightarrow> real \<times> real \<Rightarrow> pystr \<Rightarrow> (real \<times> int list) list
     \<Rightarrow> real list \<Rightarrow> polyline \<times> env_state \<Rightarrow> py_error + (polyline \<times> env_state)" where
  "upper_bound dpd dft_chempots xlim def_name def_tl org_x acc =
     (case acc of (line, st) \<Rightarrow>
     (if org_x = [] then Inl IndexError else
     (case lookup def_tl (last org_x) of
        Inl e \<Rightarrow> Inl e
      | Inr ties \<Rightarrow>
     (case py_min ties of
        Inl e \<Rightarrow> Inl e
      | Inr last_charge \<Rightarrow>
     (case lookup (stable_entries dpd) def_name of
        Inl e \<Rightarrow> Inl e
      | Inr ents \<Rightarrow>
     (let st1 = fold (\<lambda>defect_entry s.
                   if charge_state defect_entry = last_charge
                   then s\<lparr>form_en := Some (formation_energy dpd defect_entry dft_chempots upper_cap),
                          fe_right := Some (formation_energy dpd defect_entry dft_chempots (snd xlim))\<rparr>
                   else s) ents st
      in case read_var (form_en st1) of
           Inl e \<Rightarrow> Inl e
         | Inr v \<Rightarrow>
        (case read_var (fe_right st1) of
           Inl e \<Rightarrow> Inl e
         | Inr w \<Rightarrow>
             Inr ((fst line @ [upper_cap], snd line @ [v]),
                  st1\<lparr>y_range_vals := y_range_vals st1 @ [w]\<rparr>))))))))"

definition envelope ::
  "('m, 'cp) defect_phase_diagram \<Rightarrow> 'cp \<Rightarrow> real \<times> real \<Rightarrow> pystr \<Rightarrow> (real \<times> int list) list
     \<Rightarrow> env_state \<Rightarrow> py_error + (polyline \<times> env_state)" where
  "envelope dpd dft_chempots xlim def_name def_tl st =
     (let org_x = sort (map fst def_tl)
      in case lower_bound dpd dft_chempots xlim def_name def_tl org_x st of
           Inl e \<Rightarrow> Inl e
         | Inr acc \<Rightarrow>
        (case breakpoints_loop dpd dft_chempots def_name def_tl org_x acc of
           Inl e \<Rightarrow> Inl e
         | Inr acc' \<Rightarrow> upper_bound dpd dft_chempots xlim def_name def_tl org_x acc'))"


text \<open>
  The species without a transition level; 64 is \<^verbatim>\<open>@\<close>.
  \<^verbatim>\<open>
  xy[def_name] = all_lines_xy[def_name.rsplit("@", 1)[0]]
  defect_entry = defect_phase_diagram.stable_entries[def_name][0]
  y_range_vals.extend(
      defect_phase_diagram._formation_energy(
          defect_entry, chemical_potentials=dft_chempots, fermi_level=x_window)
      for x_window in xlim)
  \<close>
\<close>

definition single_state ::
  "('m, 'cp) defect_phase_diagram \<Rightarrow> 'cp \<Rightarrow> real \<times> real \<Rightarrow> (pystr \<times> polyline) list \<Rightarrow> pystr
     \<Rightarrow> env_state \<Rightarrow> py_error + (polyline \<times> env_state)" where
  "single_state dpd dft_chempots xlim all_lines_xy def_name st =
     (case lookup all_lines_xy (rsplit1_head 64 def_name) of
        Inl e \<Rightarrow> Inl e
      | Inr line \<Rightarrow>
     (case lookup (stable_entries dpd) def_name of
        Inl e \<Rightarrow> Inl e
      | Inr ents \<Rightarrow>
     (case ents of
        [] \<Rightarrow> Inl IndexError
      | defect_entry # _ \<Rightarrow>
          Inr (line, st\<lparr>y_range_vals := y_range_vals st
                 @ map (formation_energy dpd defect_entry dft_chempots) [fst xlim, snd xlim]\<rparr>))))"


subsection \<open>The check inside the gap\<close>

text \<open>
  \<^verbatim>\<open>
  def _get_in_gap_yvals(x_coords, y_coords, x_range):
      relevant_x = np.linspace(x_range[0], x_range[1], 100)
      return np.interp(relevant_x, x_coords, y_coords)

  yvals = _get_in_gap_yvals(xy[def_name][0], xy[def_name][1], (0, defect_phase_diagram.band_gap))
  if all(y < 0 for y in yvals):
      warnings.warn(...)
      ymin = min(ymin, *yvals)
  \<close>
  \<^verbatim>\<open>np.linspace\<close> is written out over the reals. \<^verbatim>\<open>np.interp\<close> works point by point; its
  value at one abscissa is the parameter \<open>interp\<close>.
\<close>

definition linspace :: "real \<Rightarrow> real \<Rightarrow> nat \<Rightarrow> real list" where
  "linspace start stop num = map (\<lambda>j. start + real j * ((stop - start) / real (num - 1))) [0..<num]"

definition get_in_gap_yvals ::
  "(real \<Rightarrow> real list \<Rightarrow> real list \<Rightarrow> real) \<Rightarrow> real list \<Rightarrow> real list \<Rightarrow> real \<times> real \<Rightarrow> real list" where
  "get_in_gap_yvals interp x_coords y_coords x_range =
     (let relevant_x = linspace (fst x_range) (snd x_range) 100
      in map (\<lambda>x. interp x x_coords y_coords) relevant_x)"

definition in_gap_check ::
  "(real \<Rightarrow> real list \<Rightarrow> real list \<Rightarrow> real) \<Rightarrow> ('m, 'cp) defect_phase_diagram \<Rightarrow> pystr
     \<Rightarrow> env_state \<Rightarrow> py_error + env_state" where
  "in_gap_check interp dpd def_name st =
     (case lookup (xy st) def_name of
        Inl e \<Rightarrow> Inl e
      | Inr line \<Rightarrow>
         (let yvals = get_in_gap_yvals interp (fst line) (snd line) (0, band_gap dpd)
          in Inr (if list_all (\<lambda>y. y < 0) yvals
                  then st\<lparr>warned := warned st @ [rsplit1_head 64 def_name],
                          ymin := fold min yvals (ymin st)\<rparr>
                  else st)))"


subsection \<open>The loop over the species and the function\<close>

text \<open>
  \<^verbatim>\<open>
  for def_name, def_tl in defect_phase_diagram.transition_level_map.items():
      xy[def_name] = [[], []]
      if def_tl:
          ...
      else:
          ...
      yvals = ...
  return (xy, y_range_vals), (all_lines_xy, all_entries_y_range_vals), ymin
  \<close>
  The code enters the key \<^verbatim>\<open>def_name\<close> into \<^verbatim>\<open>xy\<close> first and appends to its two lists in
  place; the model builds the two lists and stores them under the key once they are
  complete, which gives the same dictionary whenever the function returns. The result of
  the model is the returned tuple paired with the list of species warned about.
\<close>

definition species_step ::
  "(real \<Rightarrow> real list \<Rightarrow> real list \<Rightarrow> real) \<Rightarrow> ('m, 'cp) defect_phase_diagram \<Rightarrow> 'cp \<Rightarrow> real \<times> real
     \<Rightarrow> (pystr \<times> polyline) list \<Rightarrow> pystr \<times> (real \<times> int list) list
     \<Rightarrow> env_state \<Rightarrow> py_error + env_state" where
  "species_step interp dpd dft_chempots xlim all_lines_xy item st =
     (case item of (def_name, def_tl) \<Rightarrow>
       (case (if def_tl \<noteq> []
              then envelope dpd dft_chempots xlim def_name def_tl st
              else single_state dpd dft_chempots xlim all_lines_xy def_name st) of
          Inl e \<Rightarrow> Inl e
        | Inr (line, st') \<Rightarrow>
            in_gap_check interp dpd def_name (st'\<lparr>xy := AList.update def_name line (xy st')\<rparr>)))"

fun species_loop ::
  "(real \<Rightarrow> real list \<Rightarrow> real list \<Rightarrow> real) \<Rightarrow> ('m, 'cp) defect_phase_diagram \<Rightarrow> 'cp \<Rightarrow> real \<times> real
     \<Rightarrow> (pystr \<times> polyline) list \<Rightarrow> (pystr \<times> (real \<times> int list) list) list
     \<Rightarrow> env_state \<Rightarrow> py_error + env_state" where
  "species_loop interp dpd dft_chempots xlim all_lines_xy [] st = Inr st"
| "species_loop interp dpd dft_chempots xlim all_lines_xy (item # rest) st =
     (case species_step interp dpd dft_chempots xlim all_lines_xy item st of
        Inl e \<Rightarrow> Inl e
      | Inr st' \<Rightarrow> species_loop interp dpd dft_chempots xlim all_lines_xy rest st')"

definition initial_state :: env_state where
  "initial_state = \<lparr>xy = [], y_range_vals = [], form_en = None, fe_left = None,
     fe_right = None, ymin = 0, warned = []\<rparr>"

definition get_formation_energy_lines ::
  "(real \<Rightarrow> real list \<Rightarrow> real list \<Rightarrow> real) \<Rightarrow> ('m, 'cp) defect_phase_diagram \<Rightarrow> 'cp \<Rightarrow> real \<times> real
     \<Rightarrow> py_error + ((((pystr \<times> polyline) list \<times> real list)
                     \<times> ((pystr \<times> polyline) list \<times> real list) \<times> real) \<times> pystr list)" where
  "get_formation_energy_lines interp dpd dft_chempots xlim =
     (case all_states_loop dpd dft_chempots xlim (entries dpd) ([], []) of
        (all_lines_xy, all_entries_y_range_vals) \<Rightarrow>
     (case species_loop interp dpd dft_chempots xlim all_lines_xy (transition_level_map dpd)
             initial_state of
        Inl e \<Rightarrow> Inl e
      | Inr st \<Rightarrow>
          Inr (((xy st, y_range_vals st), (all_lines_xy, all_entries_y_range_vals), ymin st),
               warned st)))"

section \<open>Vocabulary of the statements\<close>

text \<open>
  The definitions of this section are not code of the module: they name what the
  properties below speak about.
\<close>

text \<open>The two-point line of one entry, and its energies at the two edges of the window.\<close>

definition all_state_line :: "('m, 'cp) defect_phase_diagram \<Rightarrow> 'cp \<Rightarrow> 'm defect_entry_scheme \<Rightarrow> polyline" where
  "all_state_line dpd dft_chempots defect_entry =
     ([lower_cap, upper_cap],
      [formation_energy dpd defect_entry dft_chempots lower_cap,
       formation_energy dpd defect_entry dft_chempots upper_cap])"

definition window_energies ::
  "('m, 'cp) defect_phase_diagram \<Rightarrow> 'cp \<Rightarrow> real \<times> real \<Rightarrow> 'm defect_entry_scheme \<Rightarrow> real list" where
  "window_energies dpd dft_chempots xlim defect_entry =
     [formation_energy dpd defect_entry dft_chempots (fst xlim),
      formation_energy dpd defect_entry dft_chempots (snd xlim)]"

text \<open>
  The entry a scan of the stable entries ends with for a charge: the last one of that
  charge, since every match overwrites the one before. \<open>pick\<close> is the value of
  \<^verbatim>\<open>form_en\<close> after such a scan at the Fermi level \<open>fermi\<close>, when it held \<open>prev\<close> before.
\<close>

definition selected_entry :: "int \<Rightarrow> 'm defect_entry_scheme list \<Rightarrow> 'm defect_entry_scheme option" where
  "selected_entry charge ents = find (\<lambda>e. charge_state e = charge) (rev ents)"

definition pick ::
  "('m, 'cp) defect_phase_diagram \<Rightarrow> 'cp \<Rightarrow> 'm defect_entry_scheme list \<Rightarrow> int \<Rightarrow> real \<Rightarrow> real \<Rightarrow> real" where
  "pick dpd dft_chempots ents charge fermi prev =
     (case selected_entry charge ents of
        None \<Rightarrow> prev
      | Some e \<Rightarrow> formation_energy dpd e dft_chempots fermi)"

text \<open>The branch of the species loop that builds the line of one species.\<close>

definition species_line ::
  "('m, 'cp) defect_phase_diagram \<Rightarrow> 'cp \<Rightarrow> real \<times> real \<Rightarrow> (pystr \<times> polyline) list
     \<Rightarrow> pystr \<times> (real \<times> int list) list \<Rightarrow> env_state \<Rightarrow> py_error + (polyline \<times> env_state)" where
  "species_line dpd cp xlim all_lines_xy item st =
     (if snd item \<noteq> []
      then envelope dpd cp xlim (fst item) (snd item) st
      else single_state dpd cp xlim all_lines_xy (fst item) st)"

text \<open>
  The precondition of the builder on one species. The species has stable entries. With
  transition levels: no tie set is empty, the largest charge of every tie set is the charge
  of a stable entry, and so is the smallest charge of the tie set at the last breakpoint.
  Without: the list of stable entries is not empty, and the species name up to its last
  \<^verbatim>\<open>@\<close> is the key of an entry.
\<close>

definition species_ok :: "('m, 'cp) defect_phase_diagram \<Rightarrow> pystr \<times> (real \<times> int list) list \<Rightarrow> bool" where
  "species_ok dpd item =
     (case item of (def_name, def_tl) \<Rightarrow>
       (case map_of (stable_entries dpd) def_name of
          None \<Rightarrow> False
        | Some ents \<Rightarrow>
            if def_tl \<noteq> []
            then list_all (\<lambda>(fl, ties). ties \<noteq> []
                     \<and> Max (set ties) \<in> set (map charge_state ents)) def_tl
               \<and> (case map_of def_tl (last (sort (map fst def_tl))) of
                     None \<Rightarrow> False
                   | Some ties \<Rightarrow> Min (set ties) \<in> set (map charge_state ents))
            else ents \<noteq> []
               \<and> rsplit1_head 64 def_name \<in> set (map entry_key (entries dpd))))"

section \<open>Sample inputs\<close>

text \<open>
  Concrete inputs for the closed statements below. \<open>sample_formatter\<close> has the two values
  of the other package's formatter that these statements use. The name \<^verbatim>\<open>Int_Te_3\<close>, a
  tellurium interstitial of charge +3, is formatted as \<^verbatim>\<open>Te$_i^{+3}$\<close>, with and without
  the site number. On the name \<^verbatim>\<open>vac_1_Cd\<close>, which carries no charge, the formatter raises
  \<^verbatim>\<open>ValueError\<close>. No statement below uses its value on another name; it is \<^verbatim>\<open>None\<close> here.
\<close>

definition sample_formatter :: formatter where
  "sample_formatter defect_species include_site_num_in_name =
     (if defect_species = py ''Int_Te_3'' then Inr (Some (py ''Te$_i^{+3}$''))
      else if defect_species = py ''vac_1_Cd'' then Inl ValueError
      else Inr None)"

text \<open>
  Entries that carry an energy at Fermi level zero; their formation energy is that energy
  plus charge times Fermi level, with no chemical potentials.
\<close>

record computed_entry = defect_entry +
  raw_energy :: real

definition sample_energy :: "computed_entry \<Rightarrow> unit \<Rightarrow> real \<Rightarrow> real" where
  "sample_energy e cp fermi_level = raw_energy e + real_of_int (charge_state e) * fermi_level"

text \<open>Linear interpolation between sample points of increasing abscissa, constant outside.\<close>

fun interp_points :: "real \<Rightarrow> (real \<times> real) list \<Rightarrow> real" where
  "interp_points x [] = 0"
| "interp_points x [(x0, y0)] = y0"
| "interp_points x ((x0, y0) # (x1, y1) # ps) =
     (if x \<le> x0 then y0
      else if x < x1 then y0 + (x - x0) * ((y1 - y0) / (x1 - x0))
      else interp_points x ((x1, y1) # ps))"

definition linear_interp :: "real \<Rightarrow> real list \<Rightarrow> real list \<Rightarrow> real" where
  "linear_interp x xp fp = interp_points x (zip xp fp)"

definition vac_plus :: computed_entry where
  "vac_plus = \<lparr>name = py ''vac_1_Cd'', charge_state = 1, raw_energy = 0.5\<rparr>"

definition vac_minus :: computed_entry where
  "vac_minus = \<lparr>name = py ''vac_1_Cd'', charge_state = - 1, raw_energy = 2.5\<rparr>"

definition int_te :: computed_entry where
  "int_te = \<lparr>name = py ''Int_Te_3'', charge_state = 0, raw_energy = 3\<rparr>"

text \<open>
  One species with the charge states +1 and -1 and a transition level at 1 eV, one species
  with a single charge state, a band gap of 2 eV.
\<close>

definition sample_dpd :: "(\<lparr>raw_energy :: real\<rparr>, unit) defect_phase_diagram" where
  "sample_dpd = \<lparr>entries = [vac_plus, vac_minus, int_te],
     transition_level_map = [(py ''vac_1_Cd_1@0'', [(1, [1, - 1])]), (py ''Int_Te_3_0@1'', [])],
     stable_entries = [(py ''vac_1_Cd_1@0'', [vac_plus, vac_minus]), (py ''Int_Te_3_0@1'', [int_te])],
     band_gap = 2,
     formation_energy = sample_energy\<rparr>"

text \<open>Two charge states whose lines cross at 150 eV, beyond the upper cap.\<close>

definition far_plus :: computed_entry where
  "far_plus = \<lparr>name = py ''vac_1_Cd'', charge_state = 1, raw_energy = 0\<rparr>"

definition far_minus :: computed_entry where
  "far_minus = \<lparr>name = py ''vac_1_Cd'', charge_state = - 1, raw_energy = 300\<rparr>"

definition far_dpd :: "(\<lparr>raw_energy :: real\<rparr>, unit) defect_phase_diagram" where
  "far_dpd = \<lparr>entries = [far_plus, far_minus],
     transition_level_map = [(py ''vac_1_Cd_1@0'', [(150, [1, - 1])])],
     stable_entries = [(py ''vac_1_Cd_1@0'', [far_plus, far_minus])],
     band_gap = 2,
     formation_energy = sample_energy\<rparr>"

text \<open>The first diagram again, with the state +1 missing from the stable entries.\<close>

definition unmatched_dpd :: "(\<lparr>raw_energy :: real\<rparr>, unit) defect_phase_diagram" where
  "unmatched_dpd = \<lparr>entries = [vac_plus, vac_minus],
     transition_level_map = [(py ''vac_1_Cd_1@0'', [(1, [1, - 1])])],
     stable_entries = [(py ''vac_1_Cd_1@0'', [vac_minus])],
     band_gap = 2,
     formation_energy = sample_energy\<rparr>"

text \<open>And with the state -1 missing from them.\<close>

definition no_minus_dpd :: "(\<lparr>raw_energy :: real\<rparr>, unit) defect_phase_diagram" where
  "no_minus_dpd = \<lparr>entries = [vac_plus, vac_minus],
     transition_level_map = [(py ''vac_1_Cd_1@0'', [(1, [1, - 1])])],
     stable_entries = [(py ''vac_1_Cd_1@0'', [vac_plus])],
     band_gap = 2,
     formation_energy = sample_energy\<rparr>"

text \<open>
  Two species whose tie sets name the charge +1, which no stable entry has: the first has
  the states +2 and 0 and the transition levels (+2/+1) at 1 eV and (+1/0) at 2 eV, the
  second has the state 0 and a transition level (+1/0) at 1 eV.
\<close>

definition vac_two :: computed_entry where
  "vac_two = \<lparr>name = py ''vac_1_Cd'', charge_state = 2, raw_energy = 0\<rparr>"

definition vac_zero :: computed_entry where
  "vac_zero = \<lparr>name = py ''vac_1_Cd'', charge_state = 0, raw_energy = 3\<rparr>"

definition int_zero :: computed_entry where
  "int_zero = \<lparr>name = py ''Int_Te_3'', charge_state = 0, raw_energy = 4\<rparr>"

definition stale_dpd :: "(\<lparr>raw_energy :: real\<rparr>, unit) defect_phase_diagram" where
  "stale_dpd = \<lparr>entries = [vac_two, vac_zero, int_zero],
     transition_level_map =
       [(py ''vac_1_Cd_2@0'', [(1, [2, 1]), (2, [1, 0])]), (py ''Int_Te_3_0@1'', [(1, [1, 0])])],
     stable_entries =
       [(py ''vac_1_Cd_2@0'', [vac_two, vac_zero]), (py ''Int_Te_3_0@1'', [int_zero])],
     band_gap = 2,
     formation_energy = sample_energy\<rparr>"

text \<open>
  Two entries of one name and one charge, with the energies 3 eV and 5 eV, and one species
  without a transition level, whose stable entry is the first of the two.
\<close>

definition int_te_again :: computed_entry where
  "int_te_again = \<lparr>name = py ''Int_Te_3'', charge_state = 0, raw_energy = 5\<rparr>"

definition dup_dpd :: "(\<lparr>raw_energy :: real\<rparr>, unit) defect_phase_diagram" where
  "dup_dpd = \<lparr>entries = [int_te, int_te_again],
     transition_level_map = [(py ''Int_Te_3_0@0'', [])],
     stable_entries = [(py ''Int_Te_3_0@0'', [int_te])],
     band_gap = 2,
     formation_energy = sample_energy\<rparr>"

text \<open>
  A species without a transition level first, then the species of \<open>unmatched_dpd\<close>, whose
  state +1 is missing from the stable entries.
\<close>

definition gap_dpd :: "(\<lparr>raw_energy :: real\<rparr>, unit) defect_phase_diagram" where
  "gap_dpd = \<lparr>entries = [int_te, vac_plus, vac_minus],
     transition_level_map = [(py ''Int_Te_3_0@0'', []), (py ''vac_1_Cd_1@1'', [(1, [1, - 1])])],
     stable_entries = [(py ''Int_Te_3_0@0'', [int_te]), (py ''vac_1_Cd_1@1'', [vac_minus])],
     band_gap = 2,
     formation_energy = sample_energy\<rparr>"

text \<open>
  The diagram \<open>stale_dpd\<close> with a species without a transition level between its two
  species.
\<close>

definition int_cd :: computed_entry where
  "int_cd = \<lparr>name = py ''Int_Cd_1'', charge_state = 0, raw_energy = 6\<rparr>"

definition between_dpd :: "(\<lparr>raw_energy :: real\<rparr>, unit) defect_phase_diagram" where
  "between_dpd = \<lparr>entries = [vac_two, vac_zero, int_cd, int_zero],
     transition_level_map =
       [(py ''vac_1_Cd_2@0'', [(1, [2, 1]), (2, [1, 0])]), (py ''Int_Cd_1_0@1'', []),
        (py ''Int_Te_3_0@2'', [(1, [1, 0])])],
     stable_entries =
       [(py ''vac_1_Cd_2@0'', [vac_two, vac_zero]), (py ''Int_Cd_1_0@1'', [int_cd]),
        (py ''Int_Te_3_0@2'', [int_zero])],
     band_gap = 2,
     formation_energy = sample_energy\<rparr>"

chapter \<open>Properties\<close>

section \<open>Properties of the shared vocabulary\<close>

lemma fold_max_Max: "fold max ys (x::'a::linorder) = Max (set (x # ys))"
  by (rule Max.set_eq_fold [symmetric])

lemma fold_min_Min: "fold min ys (x::'a::linorder) = Min (set (x # ys))"
  by (rule Min.set_eq_fold [symmetric])

lemma py_max_nonempty: "xs \<noteq> [] \<Longrightarrow> py_max xs = Inr (Max (set xs))"
  by (cases xs) (simp_all add: py_max_def fold_max_Max del: set_simps)

lemma py_min_nonempty: "xs \<noteq> [] \<Longrightarrow> py_min xs = Inr (Min (set xs))"
  by (cases xs) (simp_all add: py_min_def fold_min_Min del: set_simps)

text \<open>
  \<^verbatim>\<open>max\<close> with a comparison that is a strict order, total on the items: the item kept is in
  the list and no item is greater.
\<close>

lemma fold_keep_extreme:
  assumes irrefl: "\<And>a. \<not> gt a a"
    and trans: "\<And>a b c. gt a b \<Longrightarrow> gt b c \<Longrightarrow> gt a c"
    and total: "\<And>a b. a \<in> S \<Longrightarrow> b \<in> S \<Longrightarrow> \<not> gt a b \<Longrightarrow> a = b \<or> gt b a"
  shows "set (x # ys) \<subseteq> S \<Longrightarrow>
     fold (\<lambda>item kept. if gt item kept then item else kept) ys x \<in> set (x # ys)
     \<and> (\<forall>v\<in>set (x # ys). \<not> gt v (fold (\<lambda>item kept. if gt item kept then item else kept) ys x))"
proof (induction ys arbitrary: x)
  case Nil
  then show ?case by (simp add: irrefl)
next
  case (Cons y ys)
  let ?f = "\<lambda>item kept. if gt item kept then item else kept"
  let ?x' = "if gt y x then y else x"
  let ?m = "fold ?f ys ?x'"
  from Cons.prems have xS: "x \<in> S" and yS: "y \<in> S" and sub: "set (?x' # ys) \<subseteq> S" by auto
  from Cons.IH [OF sub] have mem: "?m \<in> set (?x' # ys)"
    and top: "\<forall>v\<in>set (?x' # ys). \<not> gt v ?m" by blast+
  have fold: "fold ?f (y # ys) x = ?m" by simp
  from mem have mem': "?m \<in> set (x # y # ys)" by (auto split: if_splits)
  have nx': "\<not> gt ?x' ?m" using top by simp
  have nx: "\<not> gt x ?m"
  proof (cases "gt y x")
    case True
    with nx' have "\<not> gt y ?m" by simp
    with True trans show ?thesis by blast
  next
    case False
    with nx' show ?thesis by simp
  qed
  have ny: "\<not> gt y ?m"
  proof (cases "gt y x")
    case True
    with nx' show ?thesis by simp
  next
    case False
    from total [OF yS xS False] have "y = x \<or> gt x y" .
    with nx trans show ?thesis by blast
  qed
  from top have rest: "\<forall>v\<in>set ys. \<not> gt v ?m" by simp
  from mem' nx ny rest show ?case unfolding fold by simp
qed

section \<open>Properties of the float arithmetic\<close>

lemma pow2_power_int: "pow2 k = 2 powi k"
  by (simp add: pow2_def power_int_def power_one_over inverse_eq_divide)

lemma pow2_pos: "0 < pow2 k"
  by (simp add: pow2_power_int)

lemma pow2_add1: "pow2 (k + 1) = 2 * pow2 k"
  by (simp add: pow2_power_int power_int_add)

lemma pow2_diff1: "pow2 (k - 1) = pow2 k / 2"
  using pow2_add1 [of "k - 1"] by simp

text \<open>
  The exponent search: with \<open>n\<close> steps, the power of two found is at or below every \<open>r\<close>
  from \<open>2 ^ - n\<close> up to \<open>2 ^ (n + 1)\<close>, and the next power is above it. The 1100 steps that
  \<open>round_pos\<close> allows cover every number it looks the exponent up for.
\<close>

lemma floor_log2_bounds:
  "pow2 (- int n) \<le> r \<Longrightarrow> r < pow2 (int n + 1) \<Longrightarrow>
     pow2 (floor_log2 n r) \<le> r \<and> r < pow2 (floor_log2 n r + 1)"
proof (induction n arbitrary: r)
  case 0
  then show ?case by (simp add: pow2_def)
next
  case (Suc n)
  show ?case
  proof (cases "2 \<le> r")
    case True
    define e where "e = floor_log2 n (r / 2)"
    have "pow2 (- int n) \<le> 1"
      by (simp add: pow2_def field_simps)
    with True have lo: "pow2 (- int n) \<le> r / 2" by simp
    have "pow2 (int (Suc n) + 1) = 2 * pow2 (int n + 1)"
      using pow2_add1 [of "int n + 1"] by (simp add: add.commute)
    with Suc.prems(2) have hi: "r / 2 < pow2 (int n + 1)" by simp
    from Suc.IH [OF lo hi] have ih: "pow2 e \<le> r / 2" "r / 2 < pow2 (e + 1)"
      by (simp_all add: e_def)
    have val: "floor_log2 (Suc n) r = e + 1" using True by (simp add: e_def)
    have "pow2 (e + 1) \<le> r" using ih(1) pow2_add1 [of e] by simp
    moreover have "r < pow2 (e + 1 + 1)" using ih(2) pow2_add1 [of "e + 1"] by simp
    ultimately show ?thesis unfolding val by simp
  next
    case False
    show ?thesis
    proof (cases "r < 1")
      case True
      define e where "e = floor_log2 n (2 * r)"
      have "- int (Suc n) = - int n - 1" by simp
      then have "pow2 (- int (Suc n)) = pow2 (- int n) / 2"
        by (simp only: pow2_diff1)
      with Suc.prems(1) have lo: "pow2 (- int n) \<le> 2 * r" by simp
      have "1 \<le> pow2 (int n)"
        by (simp add: pow2_def)
      then have "2 \<le> pow2 (int n + 1)" by (simp add: pow2_add1)
      with True have hi: "2 * r < pow2 (int n + 1)" by simp
      from Suc.IH [OF lo hi] have ih: "pow2 e \<le> 2 * r" "2 * r < pow2 (e + 1)"
        by (simp_all add: e_def)
      have val: "floor_log2 (Suc n) r = e - 1" using True False by (simp add: e_def)
      have "pow2 (e - 1) \<le> r" using ih(1) pow2_diff1 [of e] by simp
      moreover have "r < pow2 (e - 1 + 1)" using ih(2) pow2_add1 [of e] by simp
      ultimately show ?thesis unfolding val by simp
    next
      case False
      with \<open>\<not> 2 \<le> r\<close> show ?thesis by (simp add: pow2_def)
    qed
  qed
qed

lemma floor_log2_fuel:
  assumes "pow2 (- 1022) \<le> r" and "r < pow2 1024"
  shows "pow2 (floor_log2 1100 r) \<le> r \<and> r < pow2 (floor_log2 1100 r + 1)"
proof -
  have "pow2 (- int 1100) \<le> pow2 (- 1022)" and "pow2 1024 \<le> pow2 (int 1100 + 1)"
    by (simp_all add: pow2_power_int power_int_increasing)
  with assms floor_log2_bounds [of 1100 r] show ?thesis by simp
qed

text \<open>Rounding to the nearest integer: at most one half away, and exact on an integer.\<close>

lemma round_even_nearest: "\<bar>of_int (round_even v) - v\<bar> \<le> 1 / 2"
  unfolding round_even_def Let_def by (auto simp: abs_if) linarith+

lemma round_even_exact: "round_even (of_int n) = n"
  by (simp add: round_even_def)

text \<open>The comparison is a strict order, total on the numbers and the infinities.\<close>

lemma b_lt_irrefl: "\<not> b_lt a a"
  by (cases a) simp_all

lemma b_lt_trans: "b_lt a b \<Longrightarrow> b_lt b c \<Longrightarrow> b_lt a c"
  by (cases a; cases b; cases c) simp_all

lemma b_lt_total: "a \<noteq> NaN \<Longrightarrow> b \<noteq> NaN \<Longrightarrow> \<not> b_lt a b \<Longrightarrow> a = b \<or> b_lt b a"
  by (cases a; cases b) auto

text \<open>The division raises on the divisor zero, and only there.\<close>

lemma b_div_zero: "b_div x (Finite 0) = Inl ZeroDivisionError"
  by simp

lemma b_div_nonzero: "y \<noteq> Finite 0 \<Longrightarrow> \<exists>ratio. b_div x y = Inr ratio"
  by (cases x; cases y) simp_all

text \<open>Evaluation on numerals.\<close>

lemma floor_log2_numeral:
  "floor_log2 (numeral k) r =
     (if 2 \<le> r then floor_log2 (pred_numeral k) (r / 2) + 1
      else if r < 1 then floor_log2 (pred_numeral k) (2 * r) - 1
      else 0)"
  by (simp add: numeral_eq_Suc)

lemmas float_eval = round_real_def round_pos_def round_even_def pow2_def float_literal_def
  floor_log2_numeral b_sub_def b_gt_def Let_def

lemmas ylim_eval = get_ylim_from_y_range_vals_def py_max_by_def py_min_by_def binary64_def

text \<open>
  Where the floats part from the real numbers. Rounding to even keeps \<open>1 + 2 ^ - 53\<close> at 1
  and takes \<open>(1 + 2 ^ - 52) + 2 ^ - 53\<close> up; the largest double added to itself is infinite;
  the three literals of the function are not the decimal numbers written. With the values
  -13.209 and 18.981 the ratio of the spacer to the upper limit is 0.145 over the real
  numbers and below the float 0.145 in floats, so the limit is widened. With -3.3 and -0.3
  the upper limit is zero over the real numbers, and \<open>2 ^ - 54\<close> in floats, so the division
  does not raise.
\<close>

lemma float_rounding_cases:
  "b_add (Finite 1) (Finite (1 / 2 ^ 53)) = Finite 1"
  "b_add (Finite (1 + 1 / 2 ^ 52)) (Finite (1 / 2 ^ 53)) = Finite (1 + 1 / 2 ^ 51)"
  "b_add (Finite ((2 ^ 53 - 1) * 2 ^ 971)) (Finite ((2 ^ 53 - 1) * 2 ^ 971)) = PosInf"
  "b_mul (Finite (1 / 2 ^ 1074)) (Finite (1 / 2)) = Finite 0"
  "float_literal 1 10 = Finite (3602879701896397 / 36028797018963968)"
  "float_literal 145 1000 = Finite (5224175567749775 / 36028797018963968)"
  "float_literal 117 100 = Finite (658651445502935 / 562949953421312)"
  by (simp_all add: float_eval)

lemma ylim_rounding_cases:
  "get_ylim_from_y_range_vals binary64 [float_literal (- 13209) 1000, float_literal 18981 1000]
     (Finite 0) True = Inr (Finite 0, float_literal 2220777 100000)"
  "get_ylim_from_y_range_vals binary64 [float_literal (- 33) 10, float_literal (- 3) 10]
     (Finite 0) True = Inr (Finite 0, Finite (1 / 2 ^ 54))"
  by (simp_all add: ylim_eval float_eval)

section \<open>Properties of the y-axis range\<close>

lemma py_max_by_floats:
  assumes "vs \<noteq> []"
  shows "\<exists>mx. py_max_by b_gt vs = Inr mx
         \<and> (NaN \<notin> set vs \<longrightarrow> mx \<in> set vs \<and> (\<forall>v\<in>set vs. \<not> b_gt v mx))"
proof -
  from assms obtain x ys where vs: "vs = x # ys" by (cases vs) auto
  let ?m = "fold (\<lambda>item kept. if b_gt item kept then item else kept) ys x"
  have "?m \<in> set (x # ys) \<and> (\<forall>v\<in>set (x # ys). \<not> b_gt v ?m)" if "NaN \<notin> set vs"
  proof (rule fold_keep_extreme [where S = "- {NaN}"])
    show "\<not> b_gt a a" for a by (simp add: b_gt_def b_lt_irrefl)
    show "b_gt a b \<Longrightarrow> b_gt b c \<Longrightarrow> b_gt a c" for a b c
      unfolding b_gt_def by (rule b_lt_trans)
    show "a \<in> - {NaN} \<Longrightarrow> b \<in> - {NaN} \<Longrightarrow> \<not> b_gt a b \<Longrightarrow> a = b \<or> b_gt b a" for a b
      unfolding b_gt_def using b_lt_total [of b a] by auto
    show "set (x # ys) \<subseteq> - {NaN}" using that vs by auto
  qed
  then show ?thesis by (simp add: py_max_by_def vs)
qed

lemma py_min_by_floats:
  assumes "vs \<noteq> []"
  shows "\<exists>mn. py_min_by b_lt vs = Inr mn
         \<and> (NaN \<notin> set vs \<longrightarrow> mn \<in> set vs \<and> (\<forall>v\<in>set vs. \<not> b_lt v mn))"
proof -
  from assms obtain x ys where vs: "vs = x # ys" by (cases vs) auto
  let ?m = "fold (\<lambda>item kept. if b_lt item kept then item else kept) ys x"
  have "?m \<in> set (x # ys) \<and> (\<forall>v\<in>set (x # ys). \<not> b_lt v ?m)" if "NaN \<notin> set vs"
  proof (rule fold_keep_extreme [where S = "- {NaN}"])
    show "\<not> b_lt a a" for a by (rule b_lt_irrefl)
    show "b_lt a b \<Longrightarrow> b_lt b c \<Longrightarrow> b_lt a c" for a b c by (rule b_lt_trans)
    show "a \<in> - {NaN} \<Longrightarrow> b \<in> - {NaN} \<Longrightarrow> \<not> b_lt a b \<Longrightarrow> a = b \<or> b_lt b a" for a b
      using b_lt_total [of a b] by auto
    show "set (x # ys) \<subseteq> - {NaN}" using that vs by auto
  qed
  then show ?thesis by (simp add: py_min_by_def vs)
qed

text \<open>
  C4, as the code has it, in the arithmetic of Python's floats. For a non-empty list of
  values, \<open>mx\<close> and \<open>mn\<close> are what \<^verbatim>\<open>max\<close> and \<^verbatim>\<open>min\<close> return: when no value is not a number,
  a value of the list that none is greater than, and one that none is less than. With
  \<open>spacer = 0.1 * (mx - mn)\<close> and \<open>base = mx + spacer\<close>: without automatic labels the function
  returns \<open>(lo, base)\<close>, with \<open>lo\<close> the floor it was given; with automatic labels it raises
  \<^verbatim>\<open>ZeroDivisionError\<close> when \<open>base\<close> is zero, and otherwise returns \<open>(lo, mx * 1.17)\<close> when
  \<open>spacer / base < 0.145\<close> and \<open>(lo, base)\<close> when not. The values \<open>[0.0, 2.0]\<close> without labels
  give \<open>(0.0, 2.2)\<close> and the values \<open>[0.0, 1.0]\<close> with labels give \<open>(0.0, 1.17)\<close>.
\<close>

theorem ylim_formula:
  assumes "vs \<noteq> []"
  shows "(\<exists>mx mn.
            py_max_by b_gt vs = Inr mx \<and> py_min_by b_lt vs = Inr mn
          \<and> (NaN \<notin> set vs \<longrightarrow> mx \<in> set vs \<and> (\<forall>v\<in>set vs. \<not> b_gt v mx)
                                \<and> mn \<in> set vs \<and> (\<forall>v\<in>set vs. \<not> b_lt v mn))
          \<and> (let spacer = b_mul (float_literal 1 10) (b_sub mx mn); base = b_add mx spacer
             in get_ylim_from_y_range_vals binary64 vs lo False = Inr (lo, base)
              \<and> (base = Finite 0
                   \<longrightarrow> get_ylim_from_y_range_vals binary64 vs lo True = Inl ZeroDivisionError)
              \<and> (base \<noteq> Finite 0
                   \<longrightarrow> (\<exists>ratio. b_div spacer base = Inr ratio
                          \<and> get_ylim_from_y_range_vals binary64 vs lo True
                              = Inr (lo, if b_lt ratio (float_literal 145 1000)
                                         then b_mul mx (float_literal 117 100) else base)))))
       \<and> get_ylim_from_y_range_vals binary64 [Finite 0, Finite 2] (Finite 0) False
           = Inr (Finite 0, float_literal 22 10)
       \<and> get_ylim_from_y_range_vals binary64 [Finite 0, Finite 1] (Finite 0) True
           = Inr (Finite 0, float_literal 117 100)"
proof -
  have ex1: "get_ylim_from_y_range_vals binary64 [Finite 0, Finite 2] (Finite 0) False
           = Inr (Finite 0, float_literal 22 10)"
    by (simp add: ylim_eval float_eval)
  have ex2: "get_ylim_from_y_range_vals binary64 [Finite 0, Finite 1] (Finite 0) True
           = Inr (Finite 0, float_literal 117 100)"
    by (simp add: ylim_eval float_eval)
  from py_max_by_floats [OF assms] obtain mx where
    mx: "py_max_by b_gt vs = Inr mx"
    and mx_top: "NaN \<notin> set vs \<longrightarrow> mx \<in> set vs \<and> (\<forall>v\<in>set vs. \<not> b_gt v mx)" by blast
  from py_min_by_floats [OF assms] obtain mn where
    mn: "py_min_by b_lt vs = Inr mn"
    and mn_bot: "NaN \<notin> set vs \<longrightarrow> mn \<in> set vs \<and> (\<forall>v\<in>set vs. \<not> b_lt v mn)" by blast
  define spacer where "spacer = b_mul (float_literal 1 10) (b_sub mx mn)"
  define base where "base = b_add mx spacer"
  have off: "get_ylim_from_y_range_vals binary64 vs lo False = Inr (lo, base)"
    by (simp add: get_ylim_from_y_range_vals_def binary64_def mx mn spacer_def base_def)
  have on: "get_ylim_from_y_range_vals binary64 vs lo True =
      (case b_div spacer base of
         Inl e \<Rightarrow> Inl e
       | Inr ratio \<Rightarrow> Inr (if b_lt ratio (float_literal 145 1000)
                            then (lo, b_mul mx (float_literal 117 100)) else (lo, base)))"
    by (simp add: get_ylim_from_y_range_vals_def binary64_def mx mn spacer_def base_def Let_def
        cong: sum.case_cong if_cong)
  have zero: "get_ylim_from_y_range_vals binary64 vs lo True = Inl ZeroDivisionError"
    if "base = Finite 0"
    using that by (simp add: on)
  have nonzero: "\<exists>ratio. b_div spacer base = Inr ratio
                          \<and> get_ylim_from_y_range_vals binary64 vs lo True
                              = Inr (lo, if b_lt ratio (float_literal 145 1000)
                                         then b_mul mx (float_literal 117 100) else base)"
    if "base \<noteq> Finite 0"
  proof -
    from b_div_nonzero [OF that] obtain ratio where "b_div spacer base = Inr ratio" ..
    then show ?thesis by (auto simp: on)
  qed
  from mx mn mx_top mn_bot off zero nonzero
  have "\<exists>mx mn.
            py_max_by b_gt vs = Inr mx \<and> py_min_by b_lt vs = Inr mn
          \<and> (NaN \<notin> set vs \<longrightarrow> mx \<in> set vs \<and> (\<forall>v\<in>set vs. \<not> b_gt v mx)
                                \<and> mn \<in> set vs \<and> (\<forall>v\<in>set vs. \<not> b_lt v mn))
          \<and> (let spacer = b_mul (float_literal 1 10) (b_sub mx mn); base = b_add mx spacer
             in get_ylim_from_y_range_vals binary64 vs lo False = Inr (lo, base)
              \<and> (base = Finite 0
                   \<longrightarrow> get_ylim_from_y_range_vals binary64 vs lo True = Inl ZeroDivisionError)
              \<and> (base \<noteq> Finite 0
                   \<longrightarrow> (\<exists>ratio. b_div spacer base = Inr ratio
                          \<and> get_ylim_from_y_range_vals binary64 vs lo True
                              = Inr (lo, if b_lt ratio (float_literal 145 1000)
                                         then b_mul mx (float_literal 117 100) else base))))"
    unfolding Let_def spacer_def base_def by blast
  with ex1 ex2 show ?thesis by blast
qed

theorem ylim_formula_witness:
  "get_ylim_from_y_range_vals binary64 [Finite (- 2), Finite (- 1)] (Finite 0) False
     = Inr (Finite 0, float_literal (- 9) 10)
   \<and> get_ylim_from_y_range_vals binary64 [Finite (- 2), Finite (- 1)] (Finite 0) True
     = Inr (Finite 0, float_literal (- 117) 100)"
proof -
  have ne: "[Finite (- 2), Finite (- 1)] \<noteq> []" by simp
  from ylim_formula [OF ne, of "Finite 0"] obtain mx mn where
    mx: "py_max_by b_gt [Finite (- 2), Finite (- 1)] = Inr mx"
    and mn: "py_min_by b_lt [Finite (- 2), Finite (- 1)] = Inr mn"
    and f: "let spacer = b_mul (float_literal 1 10) (b_sub mx mn); base = b_add mx spacer
             in get_ylim_from_y_range_vals binary64 [Finite (- 2), Finite (- 1)] (Finite 0) False
                  = Inr (Finite 0, base)
              \<and> (base = Finite 0
                   \<longrightarrow> get_ylim_from_y_range_vals binary64 [Finite (- 2), Finite (- 1)] (Finite 0) True
                         = Inl ZeroDivisionError)
              \<and> (base \<noteq> Finite 0
                   \<longrightarrow> (\<exists>ratio. b_div spacer base = Inr ratio
                          \<and> get_ylim_from_y_range_vals binary64 [Finite (- 2), Finite (- 1)] (Finite 0) True
                              = Inr (Finite 0, if b_lt ratio (float_literal 145 1000)
                                         then b_mul mx (float_literal 117 100) else base)))"
    by blast
  from mx have mx': "mx = Finite (- 1)" by (simp add: py_max_by_def b_gt_def)
  from mn have mn': "mn = Finite (- 2)" by (simp add: py_min_by_def)
  from f show ?thesis unfolding mx' mn' by (simp add: float_eval)
qed

text \<open>
  The claim C4 read for every non-empty list: with automatic labels and an upper limit of
  zero the division raises, so nothing is returned. The single value \<open>0.0\<close> is such a list.
\<close>

theorem ylim_zero_division_counterexample:
  "get_ylim_from_y_range_vals binary64 [Finite 0] (Finite 0) True = Inl ZeroDivisionError"
  by (simp add: ylim_eval float_eval)

text \<open>
  C5, as the code has it: on the empty list the first call of \<^verbatim>\<open>max\<close> raises
  \<^verbatim>\<open>ValueError\<close>, whatever the floor and the label flag are, and in every arithmetic of the
  values, since no operation is reached.
\<close>

theorem ylim_empty_raises:
  "get_ylim_from_y_range_vals ops [] lo labels = Inl ValueError"
  by (simp add: get_ylim_from_y_range_vals_def py_max_by_def)

text \<open>The claim C5 says that no exception is raised on the empty list.\<close>

theorem ylim_empty_counterexample:
  "get_ylim_from_y_range_vals binary64 [] (Finite 0) False \<noteq> Inr (Finite 0, Finite 0)
   \<and> get_ylim_from_y_range_vals binary64 [] (Finite 0) False = Inl ValueError"
  by (simp add: get_ylim_from_y_range_vals_def py_max_by_def)

section \<open>Properties of the legend formatter\<close>

subsection \<open>The suffix loop\<close>

lemma suffix_loop_fresh: "defect_name \<notin> set legends_txt \<Longrightarrow> suffix_loop legends_txt i defect_name = Inr defect_name"
  by (simp add: suffix_loop.simps)

lemma suffix_loop_round:
  assumes "Some s \<in> set legends_txt" and "j = i + 1" and "c = 96 + j" and "c < 1114112"
  shows "suffix_loop legends_txt i (Some s) = suffix_loop legends_txt j (Some (insert_suffix c s))"
  using assms by (subst suffix_loop.simps) (simp add: py_chr_def)

lemma insert_suffix_neq: "insert_suffix c s \<noteq> s"
proof
  assume "insert_suffix c s = s"
  then have "length (insert_suffix c s) = length s" by simp
  then show False by (simp add: length_insert_suffix)
qed

lemma insert_suffix_twice_neq:
  "insert_suffix c (insert_suffix d s) \<noteq> s"
proof
  assume "insert_suffix c (insert_suffix d s) = s"
  then have "length (insert_suffix c (insert_suffix d s)) = length s" by simp
  then show False by (simp add: length_insert_suffix)
qed

text \<open>
  The label of a name whose first label \<open>l\<close> and whose label with the site number are both
  taken: one round of the loop when \<open>l\<close> alone is in the list, two rounds when \<open>l\<close> with the
  letter of the first round is in the list as well.
\<close>

lemma suffix_loop_once:
  "suffix_loop [Some l] 1 (Some l) = Inr (Some (insert_suffix 98 l))"
proof -
  have "suffix_loop [Some l] 1 (Some l) = suffix_loop [Some l] 2 (Some (insert_suffix 98 l))"
    by (rule suffix_loop_round) simp_all
  also have "\<dots> = Inr (Some (insert_suffix 98 l))"
    by (rule suffix_loop_fresh) (simp add: insert_suffix_neq)
  finally show ?thesis .
qed

lemma suffix_loop_twice:
  "suffix_loop [Some l, Some (insert_suffix 98 l)] 1 (Some l)
     = Inr (Some (insert_suffix 99 (insert_suffix 98 l)))"
proof -
  let ?ls = "[Some l, Some (insert_suffix 98 l)]"
  have "suffix_loop ?ls 1 (Some l) = suffix_loop ?ls 2 (Some (insert_suffix 98 l))"
    by (rule suffix_loop_round) simp_all
  also have "\<dots> = suffix_loop ?ls 3 (Some (insert_suffix 99 (insert_suffix 98 l)))"
    by (rule suffix_loop_round) simp_all
  also have "\<dots> = Inr (Some (insert_suffix 99 (insert_suffix 98 l)))"
    by (rule suffix_loop_fresh) (simp add: insert_suffix_neq insert_suffix_twice_neq)
  finally show ?thesis .
qed

lemma legend_step_taken:
  assumes "first_attempt fmt ae n = Some l" and "site_retry fmt ae n = Inr (Some l)"
    and "Some l \<in> set legends_txt"
  shows "legend_step fmt ae legends_txt n = suffix_loop legends_txt 1 (Some l)"
  using assms by (simp add: legend_step_def)

lemma legend_step_free:
  assumes "first_attempt fmt ae n = lab" and "lab \<notin> set legends_txt"
  shows "legend_step fmt ae legends_txt n = Inr lab"
  using assms by (simp add: legend_step_def)

subsection \<open>The letters of the suffix\<close>

text \<open>
  C6 has the letters \<^verbatim>\<open>a\<close>, \<^verbatim>\<open>b\<close>, \<^verbatim>\<open>c\<close>, one letter in a label, as the comment of the loop
  has. What the code does: the counter starts at 1 and is incremented before \<^verbatim>\<open>chr(96 + i)\<close>
  is taken, and every round inserts its letter into the label of the round before. For a
  name that the formatter gives the same string \<open>s\<close> with and without the site number,
  and with \<open>l\<close> the label made of \<open>s\<close> (\<open>s\<close> itself, or \<open>s\<close> without its charge): the name
  twice gives \<open>l\<close> and \<open>l\<close> with \<^verbatim>\<open>b\<close> (98) inserted before its last three characters; the
  name three times gives as third label the second with \<^verbatim>\<open>c\<close> (99) inserted into it, which
  holds both letters. The letter \<^verbatim>\<open>a\<close> never appears.
\<close>

theorem legends_suffix_letters:
  "fmt n False = Inr (Some s) \<and> fmt n True = Inr (Some s)
   \<longrightarrow> (let l = (if truthy ae then s else exclude_charge s)
        in get_legends_txt fmt [n, n] ae = Inr [Some l, Some (insert_suffix 98 l)]
         \<and> get_legends_txt fmt [n, n, n] ae
             = Inr [Some l, Some (insert_suffix 98 l),
                    Some (insert_suffix 99 (insert_suffix 98 l))])"
proof
  assume a: "fmt n False = Inr (Some s) \<and> fmt n True = Inr (Some s)"
  define l where "l = (if truthy ae then s else exclude_charge s)"
  have fa: "first_attempt fmt ae n = Some l"
    using a by (simp add: first_attempt_def exclude_charge_of_def l_def)
  have sr: "site_retry fmt ae n = Inr (Some l)"
    using a by (simp add: site_retry_def exclude_charge_of_def l_def)
  have s1: "legend_step fmt ae [] n = Inr (Some l)"
    by (rule legend_step_free [OF fa]) simp
  have "Some l \<in> set [Some l]" by simp
  from legend_step_taken [OF fa sr this]
  have s2: "legend_step fmt ae [Some l] n = Inr (Some (insert_suffix 98 l))"
    by (simp only: suffix_loop_once)
  have "Some l \<in> set [Some l, Some (insert_suffix 98 l)]" by simp
  from legend_step_taken [OF fa sr this]
  have s3: "legend_step fmt ae [Some l, Some (insert_suffix 98 l)] n
      = Inr (Some (insert_suffix 99 (insert_suffix 98 l)))"
    by (simp only: suffix_loop_twice)
  have "get_legends_txt fmt [n, n] ae = Inr [Some l, Some (insert_suffix 98 l)]"
    by (simp add: get_legends_txt_def s1 s2)
  moreover have "get_legends_txt fmt [n, n, n] ae
             = Inr [Some l, Some (insert_suffix 98 l),
                    Some (insert_suffix 99 (insert_suffix 98 l))]"
    by (simp add: get_legends_txt_def s1 s2 s3)
  ultimately show "let l = (if truthy ae then s else exclude_charge s)
        in get_legends_txt fmt [n, n] ae = Inr [Some l, Some (insert_suffix 98 l)]
         \<and> get_legends_txt fmt [n, n, n] ae
             = Inr [Some l, Some (insert_suffix 98 l),
                    Some (insert_suffix 99 (insert_suffix 98 l))]"
    unfolding l_def Let_def by simp
qed

theorem legends_suffix_letters_witness:
  "get_legends_txt sample_formatter [py ''Int_Te_3'', py ''Int_Te_3''] AE_False
     = Inr [Some (py ''Te$_i$''), Some (py ''Te$b_i$'')]
   \<and> get_legends_txt sample_formatter [py ''Int_Te_3'', py ''Int_Te_3'', py ''Int_Te_3''] AE_False
     = Inr [Some (py ''Te$_i$''), Some (py ''Te$b_i$''), Some (py ''Te$bc_i$'')]"
proof -
  have pre: "sample_formatter (py ''Int_Te_3'') False = Inr (Some (py ''Te$_i^{+3}$''))
      \<and> sample_formatter (py ''Int_Te_3'') True = Inr (Some (py ''Te$_i^{+3}$''))"
    by (simp add: sample_formatter_def)
  have l: "exclude_charge (py ''Te$_i^{+3}$'') = py ''Te$_i$''"
    by (simp add: exclude_charge_def rsplit1_head_def py_def)
  have b: "insert_suffix 98 (py ''Te$_i$'') = py ''Te$b_i$''"
    by (simp add: insert_suffix_def py_def)
  have c: "insert_suffix 99 (py ''Te$b_i$'') = py ''Te$bc_i$''"
    by (simp add: insert_suffix_def py_def)
  from legends_suffix_letters [of sample_formatter "py ''Int_Te_3''" "py ''Te$_i^{+3}$''" AE_False,
      THEN mp, OF pre]
  show ?thesis by (simp add: Let_def l b c)
qed

subsection \<open>A name that comes twice and cannot be formatted\<close>

text \<open>
  C7 has one label for every name of every list. The name \<^verbatim>\<open>vac_1_Cd\<close> twice, which the
  formatter raises on: the raw name is kept for the first occurrence, the second collides
  with it, the call with the site number raises outside the \<^verbatim>\<open>try\<close> block, and no list of
  labels is returned.
\<close>

theorem legends_repeated_name_no_labels:
  "get_legends_txt sample_formatter [py ''vac_1_Cd'', py ''vac_1_Cd''] AE_False = Inl ValueError"
  by (simp add: get_legends_txt_def legend_step_def first_attempt_def site_retry_def
      sample_formatter_def py_def)

subsection \<open>A failure of the formatter\<close>

text \<open>
  C8 says that a failure of the formatter never leaves the function. The first call is
  guarded and falls back to the raw name; the call with the site number is not guarded.
  When the formatter raises on a name in both calls and the name comes twice, the second
  occurrence collides with the raw name kept for the first, and the exception of the
  second call leaves the function.
\<close>

theorem legends_retry_propagates:
  "fmt n False = Inl e \<and> fmt n True = Inl e' \<longrightarrow> get_legends_txt fmt [n, n] ae = Inl e'"
  by (simp add: get_legends_txt_def legend_step_def first_attempt_def site_retry_def)

theorem legends_retry_propagates_witness:
  "get_legends_txt sample_formatter [py ''vac_1_Cd'', py ''vac_1_Cd''] AE_True = Inl ValueError"
proof -
  have "sample_formatter (py ''vac_1_Cd'') False = Inl ValueError \<and> sample_formatter (py ''vac_1_Cd'') True = Inl ValueError"
    by (simp add: sample_formatter_def py_def)
  with legends_retry_propagates [of sample_formatter "py ''vac_1_Cd''" ValueError ValueError AE_True]
  show ?thesis by blast
qed

section \<open>Properties of the formation-energy lines\<close>

subsection \<open>The line of every entry\<close>

lemma all_states_entry_eq:
  "all_states_entry dpd cp xlim e vals =
     (all_state_line dpd cp e, vals @ window_energies dpd cp xlim e @ window_energies dpd cp xlim e)"
  by (simp add: all_states_entry_def all_state_line_def window_energies_def)

lemma all_states_loop_eq:
  "all_states_loop dpd cp xlim es (al, vals) =
     (fold (\<lambda>e. AList.update (entry_key e) (all_state_line dpd cp e)) es al,
      vals @ concat (map (\<lambda>e. window_energies dpd cp xlim e @ window_energies dpd cp xlim e) es))"
  by (induction es arbitrary: al vals) (simp_all add: all_states_entry_eq)

lemma map_of_fold_update_other:
  "\<forall>e\<in>set es. k e \<noteq> x \<Longrightarrow>
     map_of (fold (\<lambda>e. AList.update (k e) (f e)) es al) x = map_of al x"
  by (induction es arbitrary: al) (auto simp: update_conv')

lemma map_of_fold_update_last:
  "\<forall>e'\<in>set post. k e' \<noteq> k e \<Longrightarrow>
     map_of (fold (\<lambda>e. AList.update (k e) (f e)) (pre @ e # post) al) (k e) = Some (f e)"
  by (simp add: map_of_fold_update_other update_conv')

lemma map_of_fold_update_dom:
  "map_of (fold (\<lambda>e. AList.update (k e) (f e)) es al) x = Some v \<Longrightarrow>
     map_of al x = Some v \<or> (\<exists>e\<in>set es. k e = x \<and> v = f e)"
proof (induction es arbitrary: al)
  case Nil
  then show ?case by simp
next
  case (Cons a es)
  from Cons.prems
  have "map_of (fold (\<lambda>e. AList.update (k e) (f e)) es (AList.update (k a) (f a) al)) x = Some v"
    by simp
  from Cons.IH [OF this] show ?case
    by (cases "k a = x") (auto simp: update_conv')
qed

lemma map_of_fold_update_some:
  "x \<in> k ` set es \<or> map_of al x \<noteq> None \<Longrightarrow>
     map_of (fold (\<lambda>e. AList.update (k e) (f e)) es al) x \<noteq> None"
proof (induction es arbitrary: al)
  case Nil
  then show ?case by simp
next
  case (Cons a es)
  from Cons.prems have "x \<in> k ` set es \<or> map_of (AList.update (k a) (f a) al) x \<noteq> None"
    by (auto simp: update_conv')
  from Cons.IH [OF this] show ?case by simp
qed


subsection \<open>The scans of the stable entries\<close>

text \<open>
  A scan leaves the variables as they were when no stable entry has the charge, and sets
  them from the last entry that has it otherwise.
\<close>

lemma fold_cond:
  assumes "\<And>e e' s. upd e (upd e' s) = upd e s"
  shows "fold (\<lambda>e s. if P e then upd e s else s) ents st =
           (case find P (rev ents) of None \<Rightarrow> st | Some e \<Rightarrow> upd e st)"
proof (induction ents rule: rev_induct)
  case Nil
  then show ?case by simp
next
  case (snoc x xs)
  then show ?case by (simp add: assms split: option.splits)
qed

lemma scan_lower:
  "fold (\<lambda>defect_entry s.
           if charge_state defect_entry = c
           then s\<lparr>form_en := Some (F defect_entry), fe_left := Some (G defect_entry)\<rparr>
           else s) ents st =
     (case selected_entry c ents of
        None \<Rightarrow> st
      | Some e \<Rightarrow> st\<lparr>form_en := Some (F e), fe_left := Some (G e)\<rparr>)"
  unfolding selected_entry_def
  by (rule fold_cond [where P = "\<lambda>e. charge_state e = c"
        and upd = "\<lambda>e s. s\<lparr>form_en := Some (F e), fe_left := Some (G e)\<rparr>"]) simp

lemma scan_mid:
  "fold (\<lambda>defect_entry s.
           if charge_state defect_entry = c
           then s\<lparr>form_en := Some (F defect_entry)\<rparr>
           else s) ents st =
     (case selected_entry c ents of
        None \<Rightarrow> st
      | Some e \<Rightarrow> st\<lparr>form_en := Some (F e)\<rparr>)"
  unfolding selected_entry_def
  by (rule fold_cond [where P = "\<lambda>e. charge_state e = c"
        and upd = "\<lambda>e s. s\<lparr>form_en := Some (F e)\<rparr>"]) simp

lemma scan_upper:
  "fold (\<lambda>defect_entry s.
           if charge_state defect_entry = c
           then s\<lparr>form_en := Some (F defect_entry), fe_right := Some (G defect_entry)\<rparr>
           else s) ents st =
     (case selected_entry c ents of
        None \<Rightarrow> st
      | Some e \<Rightarrow> st\<lparr>form_en := Some (F e), fe_right := Some (G e)\<rparr>)"
  unfolding selected_entry_def
  by (rule fold_cond [where P = "\<lambda>e. charge_state e = c"
        and upd = "\<lambda>e s. s\<lparr>form_en := Some (F e), fe_right := Some (G e)\<rparr>"]) simp

lemma selected_entry_None: "selected_entry c ents = None \<longleftrightarrow> (\<forall>e\<in>set ents. charge_state e \<noteq> c)"
  by (auto simp: selected_entry_def find_None_iff)

lemma find_Some_mem: "find P xs = Some x \<Longrightarrow> x \<in> set xs \<and> P x"
  by (induction xs) (auto split: if_splits)

lemma selected_entry_Some:
  "selected_entry c ents = Some e \<Longrightarrow> e \<in> set ents \<and> charge_state e = c"
  using find_Some_mem [of "\<lambda>e. charge_state e = c" "rev ents" e]
  by (simp add: selected_entry_def)

lemma selected_entry_exists:
  "\<exists>e\<in>set ents. charge_state e = c \<Longrightarrow> \<exists>e. selected_entry c ents = Some e"
  using selected_entry_None [of c ents] by (cases "selected_entry c ents") auto

lemma selected_entry_member:
  "c \<in> set (map charge_state ents) \<Longrightarrow> \<exists>e. selected_entry c ents = Some e"
  by (rule selected_entry_exists) auto

lemma pick_match: "selected_entry c ents = Some e \<Longrightarrow> pick dpd cp ents c x prev = formation_energy dpd e cp x"
  by (simp add: pick_def)

lemma pick_no_match: "\<forall>e\<in>set ents. charge_state e \<noteq> c \<Longrightarrow> pick dpd cp ents c x prev = prev"
  using selected_entry_None [of c ents] by (simp add: pick_def)


subsection \<open>The three phases of an envelope\<close>

lemma lookup_Inr: "lookup d k = Inr v \<longleftrightarrow> map_of d k = Some v"
  by (simp add: lookup_def split: option.splits)

lemma read_var_Inr: "read_var x = Inr v \<longleftrightarrow> x = Some v"
  by (simp add: read_var_def split: option.splits)

lemma py_max_Inr: "py_max xs = Inr m \<longleftrightarrow> xs \<noteq> [] \<and> m = Max (set xs)"
  by (cases xs) (auto simp: py_max_def Max.set_eq_fold [symmetric] simp del: set_simps)

lemma py_min_Inr: "py_min xs = Inr m \<longleftrightarrow> xs \<noteq> [] \<and> m = Min (set xs)"
  by (cases xs) (auto simp: py_min_def Min.set_eq_fold [symmetric] simp del: set_simps)

lemma form_en_same: "form_en st = v \<Longrightarrow> st\<lparr>form_en := v\<rparr> = st"
  by auto

lemma lower_bound_char:
  assumes "lower_bound dpd cp xlim def_name def_tl org_x st = Inr (line, st')"
  shows "\<exists>x0 r ties ents v w.
           org_x = x0 # r \<and> map_of def_tl x0 = Some ties \<and> ties \<noteq> []
         \<and> map_of (stable_entries dpd) def_name = Some ents
         \<and> line = ([lower_cap], [v]) \<and> form_en st' = Some v \<and> fe_left st' = Some w
         \<and> (case selected_entry (Max (set ties)) ents of
               None \<Rightarrow> form_en st = Some v \<and> fe_left st = Some w
             | Some e \<Rightarrow> v = formation_energy dpd e cp lower_cap
                        \<and> w = formation_energy dpd e cp (fst xlim))
         \<and> fe_right st' = fe_right st \<and> xy st' = xy st
         \<and> y_range_vals st' = y_range_vals st @ [w]
         \<and> ymin st' = ymin st \<and> warned st' = warned st"
  using assms
  by (auto simp: lower_bound_def lookup_Inr read_var_Inr py_max_Inr scan_lower Let_def
           split: list.splits sum.splits option.splits)

lemma upper_bound_char:
  assumes "upper_bound dpd cp xlim def_name def_tl org_x (line, st) = Inr (line', st')"
  shows "\<exists>ties ents v w.
           org_x \<noteq> [] \<and> map_of def_tl (last org_x) = Some ties \<and> ties \<noteq> []
         \<and> map_of (stable_entries dpd) def_name = Some ents
         \<and> line' = (fst line @ [upper_cap], snd line @ [v])
         \<and> form_en st' = Some v \<and> fe_right st' = Some w
         \<and> (case selected_entry (Min (set ties)) ents of
               None \<Rightarrow> form_en st = Some v \<and> fe_right st = Some w
             | Some e \<Rightarrow> v = formation_energy dpd e cp upper_cap
                        \<and> w = formation_energy dpd e cp (snd xlim))
         \<and> fe_left st' = fe_left st \<and> xy st' = xy st
         \<and> y_range_vals st' = y_range_vals st @ [w]
         \<and> ymin st' = ymin st \<and> warned st' = warned st"
  using assms
  by (auto simp: upper_bound_def lookup_Inr read_var_Inr py_min_Inr scan_upper Let_def
           split: if_splits sum.splits option.splits)

lemma breakpoints_step:
  assumes "breakpoints_loop dpd cp def_name def_tl (fl # rest) (line, st) = Inr acc"
  shows "\<exists>ties ents v.
           map_of def_tl fl = Some ties \<and> ties \<noteq> []
         \<and> map_of (stable_entries dpd) def_name = Some ents
         \<and> (case selected_entry (Max (set ties)) ents of
               None \<Rightarrow> form_en st = Some v
             | Some e \<Rightarrow> v = formation_energy dpd e cp fl)
         \<and> breakpoints_loop dpd cp def_name def_tl rest
               ((fst line @ [fl], snd line @ [v]),
                st\<lparr>form_en := Some v, y_range_vals := y_range_vals st @ [v]\<rparr>) = Inr acc"
  using assms
  by (auto simp: lookup_Inr read_var_Inr py_max_Inr scan_mid Let_def form_en_same
           split: sum.splits option.splits)

lemma breakpoints_loop_char:
  assumes "breakpoints_loop dpd cp def_name def_tl rest (line, st) = Inr (line', st')"
    and "snd line \<noteq> []" and "form_en st = Some (last (snd line))"
  shows "fst line' = fst line @ rest
       \<and> (\<exists>new. snd line' = snd line @ new \<and> length new = length rest
              \<and> y_range_vals st' = y_range_vals st @ new)
       \<and> form_en st' = Some (last (snd line'))
       \<and> fe_left st' = fe_left st \<and> fe_right st' = fe_right st \<and> xy st' = xy st
       \<and> ymin st' = ymin st \<and> warned st' = warned st
       \<and> (\<forall>i<length rest. \<exists>ties ents.
             map_of def_tl (rest ! i) = Some ties \<and> ties \<noteq> []
           \<and> map_of (stable_entries dpd) def_name = Some ents
           \<and> snd line' ! (length (snd line) + i)
               = pick dpd cp ents (Max (set ties)) (rest ! i)
                   (snd line' ! (length (snd line) + i - 1)))"
  using assms
proof (induction rest arbitrary: line st)
  case Nil
  then show ?case by simp
next
  case (Cons fl rest)
  from breakpoints_step [OF Cons.prems(1)] obtain ties ents v where
    ties: "map_of def_tl fl = Some ties" "ties \<noteq> []"
    and ents: "map_of (stable_entries dpd) def_name = Some ents"
    and v: "case selected_entry (Max (set ties)) ents of
               None \<Rightarrow> form_en st = Some v
             | Some e \<Rightarrow> v = formation_energy dpd e cp fl"
    and rec: "breakpoints_loop dpd cp def_name def_tl rest
               ((fst line @ [fl], snd line @ [v]),
                st\<lparr>form_en := Some v, y_range_vals := y_range_vals st @ [v]\<rparr>) = Inr (line', st')"
    by blast
  let ?line1 = "(fst line @ [fl], snd line @ [v])"
  let ?st1 = "st\<lparr>form_en := Some v, y_range_vals := y_range_vals st @ [v]\<rparr>"
  let ?n = "length (snd line)"
  have vpick: "v = pick dpd cp ents (Max (set ties)) fl (last (snd line))"
    using v Cons.prems(3) by (simp add: pick_def split: option.splits)
  have ne1: "snd ?line1 \<noteq> []" by simp
  have fe1: "form_en ?st1 = Some (last (snd ?line1))" by simp
  from Cons.IH [OF rec ne1 fe1] obtain new where
    x: "fst line' = fst ?line1 @ rest"
    and new: "snd line' = snd ?line1 @ new" "length new = length rest"
      "y_range_vals st' = y_range_vals ?st1 @ new"
    and fin: "form_en st' = Some (last (snd line'))"
    and frame: "fe_left st' = fe_left ?st1" "fe_right st' = fe_right ?st1" "xy st' = xy ?st1"
      "ymin st' = ymin ?st1" "warned st' = warned ?st1"
    and ih: "\<forall>i<length rest. \<exists>ties ents.
             map_of def_tl (rest ! i) = Some ties \<and> ties \<noteq> []
           \<and> map_of (stable_entries dpd) def_name = Some ents
           \<and> snd line' ! (length (snd ?line1) + i)
               = pick dpd cp ents (Max (set ties)) (rest ! i)
                   (snd line' ! (length (snd ?line1) + i - 1))"
    by blast
  have ys: "snd line' = snd line @ (v # new)" using new(1) by simp
  have at_n: "snd line' ! ?n = v" using ys by (simp add: nth_append)
  have before: "snd line' ! (?n - 1) = last (snd line)"
    using ys Cons.prems(2) by (simp add: nth_append last_conv_nth)
  have idx: "\<exists>ties ents.
             map_of def_tl ((fl # rest) ! i) = Some ties \<and> ties \<noteq> []
           \<and> map_of (stable_entries dpd) def_name = Some ents
           \<and> snd line' ! (?n + i)
               = pick dpd cp ents (Max (set ties)) ((fl # rest) ! i) (snd line' ! (?n + i - 1))"
    if "i < length (fl # rest)" for i
  proof (cases i)
    case 0
    with ties ents vpick at_n before show ?thesis by simp
  next
    case (Suc j)
    with that have "j < length rest" by simp
    with ih Suc show ?thesis by simp
  qed
  have "\<exists>new'. snd line' = snd line @ new' \<and> length new' = length (fl # rest)
              \<and> y_range_vals st' = y_range_vals st @ new'"
    using ys new(2,3) by (intro exI [of _ "v # new"]) simp
  with x fin frame idx show ?case by simp
qed

lemma sort_nonempty: "xs \<noteq> [] \<Longrightarrow> sort xs \<noteq> []"
  by (metis length_sort length_0_conv)


text \<open>
  What an envelope that was built looks like: the abscissae are the lower cap, the
  breakpoints in ascending order and the upper cap, and every ordinate is \<open>pick\<close> of the
  selected charge at its abscissa, with the ordinate before it as the value carried over.
\<close>

lemma envelope_char:
  assumes "envelope dpd cp xlim def_name def_tl st = Inr (line, st')"
  obtains (env) ents ties0 tiesk where
    "fst line = lower_cap # sort (map fst def_tl) @ [upper_cap]"
    "length (snd line) = length def_tl + 2"
    "xy st' = xy st"
    "form_en st' = Some (last (snd line))"
    "map_of (stable_entries dpd) def_name = Some ents"
    "map_of def_tl (hd (sort (map fst def_tl))) = Some ties0" "ties0 \<noteq> []"
    "map_of def_tl (last (sort (map fst def_tl))) = Some tiesk" "tiesk \<noteq> []"
    "\<And>v. form_en st = Some v \<Longrightarrow>
       snd line ! 0 = pick dpd cp ents (Max (set ties0)) lower_cap v"
    "form_en st = None \<Longrightarrow>
       \<exists>e. selected_entry (Max (set ties0)) ents = Some e
          \<and> snd line ! 0 = formation_energy dpd e cp lower_cap"
    "\<And>i. i < length def_tl \<Longrightarrow>
       \<exists>ties. map_of def_tl (sort (map fst def_tl) ! i) = Some ties \<and> ties \<noteq> []
          \<and> snd line ! (i + 1)
              = pick dpd cp ents (Max (set ties)) (sort (map fst def_tl) ! i) (snd line ! i)"
    "snd line ! (length def_tl + 1)
       = pick dpd cp ents (Min (set tiesk)) upper_cap (snd line ! length def_tl)"
proof -
  define org_x where "org_x = sort (map fst def_tl)"
  have lorg: "length org_x = length def_tl" by (simp add: org_x_def)
  obtain l1 s1 l2 s2 where
    lb: "lower_bound dpd cp xlim def_name def_tl org_x st = Inr (l1, s1)"
    and bl: "breakpoints_loop dpd cp def_name def_tl org_x (l1, s1) = Inr (l2, s2)"
    and ub: "upper_bound dpd cp xlim def_name def_tl org_x (l2, s2) = Inr (line, st')"
    using assms by (auto simp: envelope_def org_x_def Let_def split: sum.splits)
  from lower_bound_char [OF lb] obtain x0 r ties0 ents v0 w0 where
    ox: "org_x = x0 # r" and t0: "map_of def_tl x0 = Some ties0" "ties0 \<noteq> []"
    and ents: "map_of (stable_entries dpd) def_name = Some ents"
    and l1: "l1 = ([lower_cap], [v0])" and f1: "form_en s1 = Some v0"
    and sel0: "case selected_entry (Max (set ties0)) ents of
               None \<Rightarrow> form_en st = Some v0 \<and> fe_left st = Some w0
             | Some e \<Rightarrow> v0 = formation_energy dpd e cp lower_cap
                        \<and> w0 = formation_energy dpd e cp (fst xlim)"
    and xy1: "xy s1 = xy st"
    by blast
  have ne1: "snd l1 \<noteq> []" and fe1: "form_en s1 = Some (last (snd l1))"
    using l1 f1 by simp_all
  from breakpoints_loop_char [OF bl ne1 fe1] obtain new where
    x2: "fst l2 = fst l1 @ org_x"
    and y2: "snd l2 = snd l1 @ new" "length new = length org_x"
    and f2: "form_en s2 = Some (last (snd l2))"
    and xy2: "xy s2 = xy s1"
    and mid: "\<forall>i<length org_x. \<exists>ties ents.
             map_of def_tl (org_x ! i) = Some ties \<and> ties \<noteq> []
           \<and> map_of (stable_entries dpd) def_name = Some ents
           \<and> snd l2 ! (length (snd l1) + i)
               = pick dpd cp ents (Max (set ties)) (org_x ! i)
                   (snd l2 ! (length (snd l1) + i - 1))"
    by blast
  from upper_bound_char [OF ub] obtain tiesk ents' vk wk where
    tk: "map_of def_tl (last org_x) = Some tiesk" "tiesk \<noteq> []"
    and ents': "map_of (stable_entries dpd) def_name = Some ents'"
    and line: "line = (fst l2 @ [upper_cap], snd l2 @ [vk])"
    and selk: "case selected_entry (Min (set tiesk)) ents' of
               None \<Rightarrow> form_en s2 = Some vk \<and> fe_right s2 = Some wk
             | Some e \<Rightarrow> vk = formation_energy dpd e cp upper_cap
                        \<and> wk = formation_energy dpd e cp (snd xlim)"
    and xy3: "xy st' = xy s2"
    by blast
  from ents ents' have same: "ents' = ents" by simp
  have ys: "snd line = v0 # new @ [vk]" using line y2 l1 by simp
  have len: "length (snd line) = length org_x + 2" using ys y2 by simp
  have xs: "fst line = lower_cap # org_x @ [upper_cap]" using line x2 l1 by simp
  have first: "snd line ! 0 = v0" using ys by simp
  have p0: "snd line ! 0 = pick dpd cp ents (Max (set ties0)) lower_cap v" if "form_en st = Some v" for v
    using sel0 that first by (simp add: pick_def split: option.splits)
  have p0': "\<exists>e. selected_entry (Max (set ties0)) ents = Some e
                    \<and> snd line ! 0 = formation_energy dpd e cp lower_cap" if "form_en st = None"
    using sel0 that first by (simp split: option.splits)
  have inner: "\<exists>ties. map_of def_tl (org_x ! i) = Some ties \<and> ties \<noteq> []
               \<and> snd line ! (i + 1)
                   = pick dpd cp ents (Max (set ties)) (org_x ! i) (snd line ! i)"
    if "i < length org_x" for i
  proof -
    from mid that obtain ties entsi where
      a: "map_of def_tl (org_x ! i) = Some ties" "ties \<noteq> []"
      and b: "map_of (stable_entries dpd) def_name = Some entsi"
      and c: "snd l2 ! (length (snd l1) + i)
               = pick dpd cp entsi (Max (set ties)) (org_x ! i)
                   (snd l2 ! (length (snd l1) + i - 1))"
      by blast
    from b ents have e: "entsi = ents" by simp
    have l2: "snd l2 = v0 # new" using y2 l1 by simp
    have app: "snd line = snd l2 @ [vk]" using line by simp
    have len2: "length (snd l2) = length org_x + 1" using l2 y2 by simp
    have "snd line ! (i + 1) = snd l2 ! (i + 1)"
      using that by (simp add: app nth_append len2)
    moreover have "snd line ! i = snd l2 ! i"
      using that by (simp add: app nth_append len2)
    ultimately show ?thesis using a c e l1 by simp
  qed
  have lastv: "last (snd l2) = snd line ! length org_x"
  proof -
    have app: "snd line = snd l2 @ [vk]" using line by simp
    have len2: "length (snd l2) = length org_x + 1" using y2 l1 by simp
    then have "snd l2 \<noteq> []" by auto
    then have "last (snd l2) = snd l2 ! length org_x"
      using len2 by (simp add: last_conv_nth)
    also have "\<dots> = snd line ! length org_x"
      by (simp add: app nth_append len2)
    finally show ?thesis .
  qed
  have "snd line ! (length org_x + 1) = vk" using ys y2 by (simp add: nth_append)
  then have pk: "snd line ! (length org_x + 1)
               = pick dpd cp ents (Min (set tiesk)) upper_cap (snd line ! length org_x)"
    using selk f2 lastv same by (simp add: pick_def split: option.splits)
  have t0': "map_of def_tl (hd org_x) = Some ties0" using t0(1) ox by simp
  have xyeq: "xy st' = xy st" using xy1 xy2 xy3 by simp
  have fin: "form_en st' = Some (last (snd line))"
    using upper_bound_char [OF ub] line by auto
  show ?thesis
    using that [of ents ties0 tiesk] xs len xyeq fin ents t0' t0(2) tk p0 p0' inner pk
    unfolding org_x_def [symmetric] lorg [symmetric] by blast
qed

lemma single_state_char:
  assumes "single_state dpd cp xlim all_lines_xy def_name st = Inr (line, st')"
  shows "map_of all_lines_xy (rsplit1_head 64 def_name) = Some line \<and> xy st' = xy st
       \<and> (\<exists>e r. map_of (stable_entries dpd) def_name = Some (e # r)
              \<and> y_range_vals st' = y_range_vals st @ window_energies dpd cp xlim e)"
  using assms
  by (auto simp: single_state_def lookup_Inr window_energies_def split: sum.splits list.splits)


subsection \<open>The loop over the species\<close>

lemma in_gap_check_xy:
  "in_gap_check interp dpd def_name st = Inr st' \<Longrightarrow> xy st' = xy st \<and> form_en st' = form_en st"
  by (auto simp: in_gap_check_def Let_def split: sum.splits if_splits)

lemma species_line_xy:
  assumes "species_line dpd cp xlim al item st = Inr (line, st1)"
  shows "xy st1 = xy st"
proof (cases "snd item = []")
  case True
  with assms have "single_state dpd cp xlim al (fst item) st = Inr (line, st1)"
    by (simp add: species_line_def)
  from single_state_char [OF this] show ?thesis by blast
next
  case False
  with assms have "envelope dpd cp xlim (fst item) (snd item) st = Inr (line, st1)"
    by (simp add: species_line_def)
  from envelope_char [OF this] show ?thesis by metis
qed

lemma species_step_char:
  assumes "species_step interp dpd cp xlim al item st = Inr st'"
  shows "\<exists>line st1. species_line dpd cp xlim al item st = Inr (line, st1)
           \<and> xy st' = AList.update (fst item) line (xy st) \<and> form_en st' = form_en st1"
proof -
  obtain s tl where item: "item = (s, tl)" by (cases item)
  with assms obtain line st1 where
    a: "species_line dpd cp xlim al item st = Inr (line, st1)"
    and b: "in_gap_check interp dpd s (st1\<lparr>xy := AList.update s line (xy st1)\<rparr>) = Inr st'"
    by (auto simp: species_step_def species_line_def split: sum.splits if_splits)
  from in_gap_check_xy [OF b] species_line_xy [OF a] item a show ?thesis by simp
qed

lemma species_loop_other:
  "species_loop interp dpd cp xlim al items st = Inr st' \<Longrightarrow> s \<notin> fst ` set items \<Longrightarrow>
     map_of (xy st') s = map_of (xy st) s"
proof (induction items arbitrary: st)
  case Nil
  then show ?case by simp
next
  case (Cons item rest)
  from Cons.prems(1) obtain st1 where
    step: "species_step interp dpd cp xlim al item st = Inr st1"
    and rec: "species_loop interp dpd cp xlim al rest st1 = Inr st'"
    by (auto split: sum.splits)
  from species_step_char [OF step] obtain line where
    "xy st1 = AList.update (fst item) line (xy st)" by blast
  moreover from Cons.prems(2) have "fst item \<noteq> s" "s \<notin> fst ` set rest" by auto
  ultimately show ?case using Cons.IH [OF rec] by (simp add: update_conv')
qed

lemma species_loop_lookup:
  "species_loop interp dpd cp xlim al items st = Inr st' \<Longrightarrow> distinct (map fst items) \<Longrightarrow>
   item \<in> set items \<Longrightarrow>
     \<exists>st0 line st1. species_line dpd cp xlim al item st0 = Inr (line, st1)
        \<and> map_of (xy st') (fst item) = Some line"
proof (induction items arbitrary: st)
  case Nil
  then show ?case by simp
next
  case (Cons a rest)
  from Cons.prems(1) obtain st1 where
    step: "species_step interp dpd cp xlim al a st = Inr st1"
    and rec: "species_loop interp dpd cp xlim al rest st1 = Inr st'"
    by (auto split: sum.splits)
  show ?case
  proof (cases "item = a")
    case True
    from species_step_char [OF step] obtain line s1 where
      l: "species_line dpd cp xlim al a st = Inr (line, s1)"
      and x: "xy st1 = AList.update (fst a) line (xy st)" by blast
    from Cons.prems(2) have "fst a \<notin> fst ` set rest" by simp
    from species_loop_other [OF rec this] x
    have "map_of (xy st') (fst a) = Some line" by (simp add: update_conv')
    with l True show ?thesis by blast
  next
    case False
    with Cons.prems have "item \<in> set rest" "distinct (map fst rest)" by simp_all
    from Cons.IH [OF rec this(2) this(1)] show ?thesis .
  qed
qed

text \<open>
  A species without a transition level assigns none of the three variables of the scans,
  and the loop over several species is the loop over the first of them followed by the
  loop over the others.
\<close>

lemma in_gap_check_frame:
  "in_gap_check interp dpd def_name st = Inr st' \<Longrightarrow>
     form_en st' = form_en st \<and> fe_left st' = fe_left st \<and> fe_right st' = fe_right st"
  by (auto simp: in_gap_check_def Let_def split: sum.splits if_splits)

lemma single_state_frame:
  "single_state dpd cp xlim al def_name st = Inr (line, st') \<Longrightarrow>
     form_en st' = form_en st \<and> fe_left st' = fe_left st \<and> fe_right st' = fe_right st"
  by (auto simp: single_state_def split: sum.splits list.splits)

lemma species_step_empty_frame:
  assumes "species_step interp dpd cp xlim al (def_name, []) st = Inr st'"
  shows "form_en st' = form_en st \<and> fe_left st' = fe_left st \<and> fe_right st' = fe_right st"
proof -
  from assms obtain line st1 where
    a: "single_state dpd cp xlim al def_name st = Inr (line, st1)"
    and b: "in_gap_check interp dpd def_name (st1\<lparr>xy := AList.update def_name line (xy st1)\<rparr>) = Inr st'"
    by (auto simp: species_step_def split: sum.splits)
  from single_state_frame [OF a] in_gap_check_frame [OF b] show ?thesis by simp
qed

lemma species_loop_empty_frame:
  "species_loop interp dpd cp xlim al items st = Inr st' \<Longrightarrow> \<forall>item\<in>set items. snd item = [] \<Longrightarrow>
     form_en st' = form_en st \<and> fe_left st' = fe_left st \<and> fe_right st' = fe_right st"
proof (induction items arbitrary: st)
  case Nil
  then show ?case by simp
next
  case (Cons item rest)
  from Cons.prems(2) obtain s where item: "item = (s, [])" by (cases item) auto
  from Cons.prems(1) obtain st1 where
    step: "species_step interp dpd cp xlim al item st = Inr st1"
    and rec: "species_loop interp dpd cp xlim al rest st1 = Inr st'"
    by (auto split: sum.splits)
  from Cons.prems(2) have "\<forall>item\<in>set rest. snd item = []" by simp
  from Cons.IH [OF rec this] species_step_empty_frame [OF step [unfolded item]]
  show ?case by simp
qed

lemma species_loop_append:
  "species_loop interp dpd cp xlim al (pre @ rest) st =
     (case species_loop interp dpd cp xlim al pre st of
        Inl e \<Rightarrow> Inl e
      | Inr st' \<Rightarrow> species_loop interp dpd cp xlim al rest st')"
  by (induction pre arbitrary: st) (simp_all split: sum.splits)

lemma run_char:
  assumes "get_formation_energy_lines interp dpd cp xlim
             = Inr (((xy', yrv), (all_xy, all_yrv), ymin'), ws)"
  shows "(all_xy, all_yrv) = all_states_loop dpd cp xlim (entries dpd) ([], [])
       \<and> (\<exists>st. species_loop interp dpd cp xlim all_xy (transition_level_map dpd) initial_state
                  = Inr st \<and> xy' = xy st \<and> yrv = y_range_vals st)"
  using assms
  by (auto simp: get_formation_energy_lines_def split: prod.splits sum.splits)


subsection \<open>When the builder returns\<close>

lemma breakpoints_loop_returns:
  assumes "map_of (stable_entries dpd) def_name = Some ents"
    and "\<forall>fl\<in>set rest. \<exists>ties. map_of def_tl fl = Some ties \<and> ties \<noteq> []"
    and "form_en st = Some v"
  shows "\<exists>line' st' v'. breakpoints_loop dpd cp def_name def_tl rest (line, st) = Inr (line', st')
           \<and> form_en st' = Some v' \<and> fe_right st' = fe_right st"
  using assms(2,3)
proof (induction rest arbitrary: line st v)
  case Nil
  then show ?case by simp
next
  case (Cons fl rest)
  from Cons.prems(1) obtain ties where t: "map_of def_tl fl = Some ties" "ties \<noteq> []" by auto
  let ?st1 = "case selected_entry (Max (set ties)) ents of
                None \<Rightarrow> st
              | Some e \<Rightarrow> st\<lparr>form_en := Some (formation_energy dpd e cp fl)\<rparr>"
  obtain u where u: "form_en ?st1 = Some u"
    using Cons.prems(2) by (cases "selected_entry (Max (set ties)) ents") auto
  have r: "fe_right ?st1 = fe_right st"
    by (cases "selected_entry (Max (set ties)) ents") auto
  let ?st2 = "?st1\<lparr>y_range_vals := y_range_vals ?st1 @ [u]\<rparr>"
  have step: "breakpoints_loop dpd cp def_name def_tl (fl # rest) (line, st)
      = breakpoints_loop dpd cp def_name def_tl rest ((fst line @ [fl], snd line @ [u]), ?st2)"
    using t assms(1) u
    by (simp add: lookup_def py_max_nonempty scan_mid read_var_def Let_def)
  from Cons.prems(1) have rest: "\<forall>fl\<in>set rest. \<exists>ties. map_of def_tl fl = Some ties \<and> ties \<noteq> []"
    by simp
  have "form_en ?st2 = Some u" using u by simp
  from Cons.IH [OF rest this, of "(fst line @ [fl], snd line @ [u])"] r step
  show ?case by auto
qed

lemma envelope_returns:
  assumes "species_ok dpd (def_name, def_tl)" and "def_tl \<noteq> []"
  shows "\<exists>r. envelope dpd cp xlim def_name def_tl st = Inr r"
proof -
  let ?org = "sort (map fst def_tl)"
  from assms obtain ents tiesk where
    ents: "map_of (stable_entries dpd) def_name = Some ents"
    and all: "list_all (\<lambda>(fl, ties). ties \<noteq> []
                     \<and> Max (set ties) \<in> set (map charge_state ents)) def_tl"
    and tk: "map_of def_tl (last ?org) = Some tiesk"
      "Min (set tiesk) \<in> set (map charge_state ents)"
    by (auto simp: species_ok_def split: option.splits)
  have good: "ties \<noteq> [] \<and> Max (set ties) \<in> set (map charge_state ents)"
    if "map_of def_tl fl = Some ties" for fl ties
    using map_of_SomeD [OF that] all by (auto simp: list_all_iff)
  have keys: "\<exists>ties. map_of def_tl fl = Some ties \<and> ties \<noteq> []" if "fl \<in> set ?org" for fl
  proof -
    from that have "fl \<in> fst ` set def_tl" by simp
    then obtain ties where "map_of def_tl fl = Some ties"
      by (metis domD dom_map_of_conv_image_fst)
    with good show ?thesis by blast
  qed
  from assms(2) have "?org \<noteq> []" by (simp add: sort_nonempty)
  then obtain x0 r where ox: "?org = x0 # r" by (cases ?org) auto
  then have "x0 \<in> set ?org" by simp
  from keys [OF this] obtain ties0 where t0: "map_of def_tl x0 = Some ties0" "ties0 \<noteq> []"
    by blast
  from good [OF t0(1)] selected_entry_member obtain e0 where
    e0: "selected_entry (Max (set ties0)) ents = Some e0" by blast
  let ?st1 = "st\<lparr>form_en := Some (formation_energy dpd e0 cp lower_cap),
                  fe_left := Some (formation_energy dpd e0 cp (fst xlim))\<rparr>"
  let ?st1' = "?st1\<lparr>y_range_vals := y_range_vals ?st1 @ [formation_energy dpd e0 cp (fst xlim)]\<rparr>"
  have lb: "lower_bound dpd cp xlim def_name def_tl ?org st
      = Inr (([lower_cap], [formation_energy dpd e0 cp lower_cap]), ?st1')"
    using t0 ents e0
    by (simp add: lower_bound_def ox lookup_def py_max_nonempty scan_lower read_var_def)
  have "form_en ?st1' = Some (formation_energy dpd e0 cp lower_cap)" by simp
  from breakpoints_loop_returns [OF ents _ this, of ?org def_tl cp
      "([lower_cap], [formation_energy dpd e0 cp lower_cap])"] keys
  obtain l2 s2 v2 where
    bl: "breakpoints_loop dpd cp def_name def_tl ?org
           (([lower_cap], [formation_energy dpd e0 cp lower_cap]), ?st1') = Inr (l2, s2)"
    by blast
  from good [OF tk(1)] have tkne: "tiesk \<noteq> []" by simp
  from tk(2) selected_entry_member obtain ek where
    ek: "selected_entry (Min (set tiesk)) ents = Some ek" by blast
  have "\<exists>r. upper_bound dpd cp xlim def_name def_tl ?org (l2, s2) = Inr r"
    using tk(1) tkne ents ek \<open>?org \<noteq> []\<close>
    by (simp add: upper_bound_def lookup_def py_min_nonempty scan_upper read_var_def)
  with lb bl show ?thesis by (simp add: envelope_def)
qed

lemma single_state_returns:
  assumes "species_ok dpd (def_name, [])"
    and "all_xy = fst (all_states_loop dpd cp xlim (entries dpd) ([], []))"
  shows "\<exists>r. single_state dpd cp xlim all_xy def_name st = Inr r"
proof -
  from assms(1) obtain e r where
    ents: "map_of (stable_entries dpd) def_name = Some (e # r)"
    and key: "rsplit1_head 64 def_name \<in> entry_key ` set (entries dpd)"
    by (auto simp: species_ok_def neq_Nil_conv split: option.splits)
  from assms(2) have "all_xy = fold (\<lambda>e. AList.update (entry_key e) (all_state_line dpd cp e)) (entries dpd) []"
    by (simp add: all_states_loop_eq)
  with map_of_fold_update_some [of "rsplit1_head 64 def_name" entry_key "entries dpd" "[]"
      "all_state_line dpd cp"] key
  obtain line where "map_of all_xy (rsplit1_head 64 def_name) = Some line" by auto
  with ents show ?thesis by (simp add: single_state_def lookup_def)
qed

lemma species_step_returns:
  assumes "species_ok dpd item"
    and "all_xy = fst (all_states_loop dpd cp xlim (entries dpd) ([], []))"
  shows "\<exists>st'. species_step interp dpd cp xlim all_xy item st = Inr st'"
proof -
  obtain def_name def_tl where item: "item = (def_name, def_tl)" by (cases item)
  have "\<exists>line st1. (if def_tl \<noteq> [] then envelope dpd cp xlim def_name def_tl st
          else single_state dpd cp xlim all_xy def_name st) = Inr (line, st1)"
    using envelope_returns [of dpd def_name def_tl cp xlim st]
      single_state_returns [of dpd def_name all_xy cp xlim st] assms item
    by (cases "def_tl = []") auto
  then obtain line st1 where l: "(if def_tl \<noteq> [] then envelope dpd cp xlim def_name def_tl st
          else single_state dpd cp xlim all_xy def_name st) = Inr (line, st1)" by blast
  have "\<exists>st'. in_gap_check interp dpd def_name (st1\<lparr>xy := AList.update def_name line (xy st1)\<rparr>)
      = Inr st'"
    by (simp add: in_gap_check_def lookup_def update_conv' Let_def)
  with l item show ?thesis by (simp add: species_step_def)
qed

lemma species_loop_returns:
  assumes "all_xy = fst (all_states_loop dpd cp xlim (entries dpd) ([], []))"
  shows "list_all (species_ok dpd) items \<Longrightarrow>
     \<exists>st'. species_loop interp dpd cp xlim all_xy items st = Inr st'"
proof (induction items arbitrary: st)
  case Nil
  then show ?case by simp
next
  case (Cons item rest)
  then have "species_ok dpd item" "list_all (species_ok dpd) rest" by simp_all
  from species_step_returns [OF this(1) assms, of interp st] obtain st1 where
    "species_step interp dpd cp xlim all_xy item st = Inr st1" ..
  with Cons.IH [OF \<open>list_all (species_ok dpd) rest\<close>, of st1] show ?case by simp
qed

lemma lines_return:
  assumes "list_all (species_ok dpd) (transition_level_map dpd)"
  shows "\<exists>res. get_formation_energy_lines interp dpd cp xlim = Inr res"
proof -
  obtain all_xy all_yrv where al: "all_states_loop dpd cp xlim (entries dpd) ([], []) = (all_xy, all_yrv)"
    by (cases "all_states_loop dpd cp xlim (entries dpd) ([], [])")
  then have "all_xy = fst (all_states_loop dpd cp xlim (entries dpd) ([], []))" by simp
  from species_loop_returns [OF this assms, of interp initial_state] al
  show ?thesis by (auto simp: get_formation_energy_lines_def)
qed


subsection \<open>An unmatched charge\<close>

text \<open>
  An envelope that starts while the energy is unassigned, for a species whose first selected
  charge is unmatched; and one that starts while the energy and the energy at the right
  edge are unassigned, for a species whose last selected charge is unmatched.
\<close>

lemma envelope_unbound_lower:
  assumes "def_tl \<noteq> []"
    and "map_of (stable_entries dpd) def_name = Some ents"
    and "map_of def_tl (hd (sort (map fst def_tl))) = Some ties" and "ties \<noteq> []"
    and "\<forall>e\<in>set ents. charge_state e \<noteq> Max (set ties)"
    and "form_en st = None"
  shows "envelope dpd cp xlim def_name def_tl st = Inl UnboundLocalError"
proof -
  from assms(1) have "sort (map fst def_tl) \<noteq> []" by (simp add: sort_nonempty)
  then obtain x0 r where ox: "sort (map fst def_tl) = x0 # r" by (cases "sort (map fst def_tl)") auto
  with assms(3) have t: "map_of def_tl x0 = Some ties" by simp
  from assms(5) have none: "selected_entry (Max (set ties)) ents = None"
    by (simp add: selected_entry_None)
  have "lower_bound dpd cp xlim def_name def_tl (x0 # r) st = Inl UnboundLocalError"
    using t assms(2,4,6) none
    by (simp add: lower_bound_def lookup_def py_max_nonempty scan_lower read_var_def)
  then show ?thesis by (simp add: envelope_def ox)
qed

lemma envelope_unbound_upper:
  assumes "def_tl \<noteq> []"
    and "map_of (stable_entries dpd) def_name = Some ents"
    and "\<forall>fl\<in>set (map fst def_tl). \<exists>ties. map_of def_tl fl = Some ties \<and> ties \<noteq> []"
    and "map_of def_tl (last (sort (map fst def_tl))) = Some ties"
    and "\<forall>e\<in>set ents. charge_state e \<noteq> Min (set ties)"
    and "form_en st = None" and "fe_right st = None"
  shows "envelope dpd cp xlim def_name def_tl st = Inl UnboundLocalError"
proof -
  let ?org = "sort (map fst def_tl)"
  from assms(1) have one: "?org \<noteq> []" by (simp add: sort_nonempty)
  then obtain x0 r where ox: "?org = x0 # r" by (cases ?org) auto
  then have "x0 \<in> set (map fst def_tl)" by (metis list.set_intros(1) set_sort)
  with assms(3) obtain ties0 where t0: "map_of def_tl x0 = Some ties0" "ties0 \<noteq> []" by blast
  have keys: "\<forall>fl\<in>set ?org. \<exists>ties. map_of def_tl fl = Some ties \<and> ties \<noteq> []"
    using assms(3) by simp
  from one have "last ?org \<in> set ?org" by (rule last_in_set)
  with keys assms(4) have tne: "ties \<noteq> []" by auto
  from assms(5) have none: "selected_entry (Min (set ties)) ents = None"
    by (simp add: selected_entry_None)
  show ?thesis
  proof (cases "selected_entry (Max (set ties0)) ents")
    case None
    then have "lower_bound dpd cp xlim def_name def_tl (x0 # r) st = Inl UnboundLocalError"
      using t0 assms(2,6)
      by (simp add: lower_bound_def lookup_def py_max_nonempty scan_lower read_var_def)
    then show ?thesis by (simp add: envelope_def ox)
  next
    case (Some e0)
    let ?st1 = "st\<lparr>form_en := Some (formation_energy dpd e0 cp lower_cap),
                  fe_left := Some (formation_energy dpd e0 cp (fst xlim))\<rparr>"
    let ?st1' = "?st1\<lparr>y_range_vals := y_range_vals ?st1 @ [formation_energy dpd e0 cp (fst xlim)]\<rparr>"
    let ?l1 = "([lower_cap], [formation_energy dpd e0 cp lower_cap])"
    have lb: "lower_bound dpd cp xlim def_name def_tl ?org st = Inr (?l1, ?st1')"
      using t0 assms(2) Some
      by (simp add: lower_bound_def ox lookup_def py_max_nonempty scan_lower read_var_def)
    have f1: "form_en ?st1' = Some (formation_energy dpd e0 cp lower_cap)" by simp
    from breakpoints_loop_returns [OF assms(2) keys f1, of cp ?l1]
    obtain l2 s2 v2 where
      bl: "breakpoints_loop dpd cp def_name def_tl ?org (?l1, ?st1') = Inr (l2, s2)"
      and f2: "form_en s2 = Some v2" and r2: "fe_right s2 = fe_right ?st1'"
      by blast
    from r2 assms(7) have r2': "fe_right s2 = None" by simp
    have "upper_bound dpd cp xlim def_name def_tl ?org (l2, s2) = Inl UnboundLocalError"
      using assms(2,4) tne none one f2 r2'
      by (simp add: upper_bound_def lookup_def py_min_nonempty scan_upper read_var_def)
    with lb bl show ?thesis by (simp add: envelope_def)
  qed
qed

lemma envelope_stale_first:
  assumes "envelope dpd cp xlim def_name def_tl st = Inr (line, st')"
    and "map_of (stable_entries dpd) def_name = Some ents"
    and "map_of def_tl (hd (sort (map fst def_tl))) = Some ties"
    and "\<forall>e\<in>set ents. charge_state e \<noteq> Max (set ties)"
  shows "form_en st = Some (snd line ! 0)"
  using assms(1)
proof (cases rule: envelope_char)
  case (env ents' ties0 tiesk)
  from env(5) assms(2) have same: "ents' = ents" by simp
  from env(6) assms(3) have ties: "ties0 = ties" by simp
  from assms(4) have none: "selected_entry (Max (set ties)) ents = None"
    by (simp add: selected_entry_None)
  show ?thesis
  proof (cases "form_en st")
    case None
    from env(11) [OF None] none same ties show ?thesis by simp
  next
    case (Some v)
    from env(10) [OF Some] assms(4) same ties have "snd line ! 0 = v"
      by (simp add: pick_no_match)
    with Some show ?thesis by simp
  qed
qed

text \<open>
  The species before which only species without a transition level stand, each meeting
  its precondition: the loop reaches it with the three variables unassigned, and an
  exception of its envelope there is the exception of the function.
\<close>

lemma raises_after_empty_species:
  assumes "transition_level_map dpd = pre @ (def_name, def_tl) # rest"
    and "\<forall>item\<in>set pre. snd item = [] \<and> species_ok dpd item"
    and "def_tl \<noteq> []"
    and "\<And>st. form_en st = None \<Longrightarrow> fe_right st = None \<Longrightarrow>
           envelope dpd cp xlim def_name def_tl st = Inl err"
  shows "get_formation_energy_lines interp dpd cp xlim = Inl err"
proof -
  obtain all_xy all_yrv where al: "all_states_loop dpd cp xlim (entries dpd) ([], []) = (all_xy, all_yrv)"
    by (cases "all_states_loop dpd cp xlim (entries dpd) ([], [])")
  then have f: "all_xy = fst (all_states_loop dpd cp xlim (entries dpd) ([], []))" by simp
  from assms(2) have ok: "list_all (species_ok dpd) pre" by (simp add: list_all_iff)
  from species_loop_returns [OF f ok, of interp initial_state] obtain st where
    pre: "species_loop interp dpd cp xlim all_xy pre initial_state = Inr st" ..
  from assms(2) have "\<forall>item\<in>set pre. snd item = []" by simp
  from species_loop_empty_frame [OF pre this]
  have none: "form_en st = None" "fe_right st = None" by (simp_all add: initial_state_def)
  from assms(4) [OF none]
  have "species_step interp dpd cp xlim all_xy (def_name, def_tl) st = Inl err"
    using assms(3) by (simp add: species_step_def)
  then have "species_loop interp dpd cp xlim all_xy (transition_level_map dpd) initial_state
      = Inl err"
    by (simp add: assms(1) species_loop_append pre)
  then show ?thesis by (simp add: get_formation_energy_lines_def al)
qed

lemma unbound_lower_after_empty_species:
  assumes "transition_level_map dpd = pre @ (def_name, def_tl) # rest"
    and "\<forall>item\<in>set pre. snd item = [] \<and> species_ok dpd item"
    and "def_tl \<noteq> []"
    and "map_of (stable_entries dpd) def_name = Some ents"
    and "map_of def_tl (hd (sort (map fst def_tl))) = Some ties" and "ties \<noteq> []"
    and "\<forall>e\<in>set ents. charge_state e \<noteq> Max (set ties)"
  shows "get_formation_energy_lines interp dpd cp xlim = Inl UnboundLocalError"
  by (rule raises_after_empty_species [OF assms(1,2,3)])
     (rule envelope_unbound_lower [OF assms(3,4,5,6,7)])

lemma unbound_upper_after_empty_species:
  assumes "transition_level_map dpd = pre @ (def_name, def_tl) # rest"
    and "\<forall>item\<in>set pre. snd item = [] \<and> species_ok dpd item"
    and "def_tl \<noteq> []"
    and "map_of (stable_entries dpd) def_name = Some ents"
    and "\<forall>fl\<in>set (map fst def_tl). \<exists>ties. map_of def_tl fl = Some ties \<and> ties \<noteq> []"
    and "map_of def_tl (last (sort (map fst def_tl))) = Some ties"
    and "\<forall>e\<in>set ents. charge_state e \<noteq> Min (set ties)"
  shows "get_formation_energy_lines interp dpd cp xlim = Inl UnboundLocalError"
  by (rule raises_after_empty_species [OF assms(1,2,3)])
     (rule envelope_unbound_upper [OF assms(3,4,5,6,7)])

lemma stale_within_species:
  assumes "get_formation_energy_lines interp dpd cp xlim
             = Inr (((xy', yrv), (all_xy, all_yrv), ymin'), ws)"
    and "distinct (map fst (transition_level_map dpd))"
    and "(def_name, def_tl) \<in> set (transition_level_map dpd)"
    and "def_tl \<noteq> []"
    and "map_of (stable_entries dpd) def_name = Some ents"
    and "map_of xy' def_name = Some (xs, ys)"
  shows "(\<forall>i ties. i < length def_tl \<and> map_of def_tl (sort (map fst def_tl) ! i) = Some ties
              \<and> (\<forall>e\<in>set ents. charge_state e \<noteq> Max (set ties))
            \<longrightarrow> ys ! (i + 1) = ys ! i)
       \<and> (\<forall>ties. map_of def_tl (last (sort (map fst def_tl))) = Some ties
              \<and> (\<forall>e\<in>set ents. charge_state e \<noteq> Min (set ties))
            \<longrightarrow> ys ! (length def_tl + 1) = ys ! length def_tl)"
proof -
  from run_char [OF assms(1)] obtain st where
    loop: "species_loop interp dpd cp xlim all_xy (transition_level_map dpd) initial_state = Inr st"
    and xy: "xy' = xy st" by blast
  from species_loop_lookup [OF loop assms(2,3)] obtain st0 line st1 where
    l: "species_line dpd cp xlim all_xy (def_name, def_tl) st0 = Inr (line, st1)"
    and m: "map_of (xy st) def_name = Some line" by auto
  from m xy assms(6) have line: "snd line = ys" by auto
  from l assms(4) have "envelope dpd cp xlim def_name def_tl st0 = Inr (line, st1)"
    by (simp add: species_line_def)
  then show ?thesis
  proof (cases rule: envelope_char)
    case (env ents' ties0 tiesk)
    from env(5) assms(5) have same: "ents' = ents" by simp
    have a: "ys ! (i + 1) = ys ! i"
      if "i < length def_tl" "map_of def_tl (sort (map fst def_tl) ! i) = Some ties"
        "\<forall>e\<in>set ents. charge_state e \<noteq> Max (set ties)" for i ties
      using env(12) [OF that(1)] that(2,3) same line by (auto simp: pick_no_match)
    have b: "ys ! (length def_tl + 1) = ys ! length def_tl"
      if "map_of def_tl (last (sort (map fst def_tl))) = Some ties"
        "\<forall>e\<in>set ents. charge_state e \<noteq> Min (set ties)" for ties
      using env(13) env(8) that same line by (auto simp: pick_no_match)
    from a b show ?thesis by blast
  qed
qed

lemma stale_across_species:
  assumes "get_formation_energy_lines interp dpd cp xlim
             = Inr (((xy', yrv), (all_xy, all_yrv), ymin'), ws)"
    and "distinct (map fst (transition_level_map dpd))"
    and "transition_level_map dpd = pre @ (name1, tl1) # mid @ (name2, tl2) # rest"
    and "tl1 \<noteq> []" and "\<forall>item\<in>set mid. snd item = []" and "tl2 \<noteq> []"
    and "map_of (stable_entries dpd) name2 = Some ents"
    and "map_of tl2 (hd (sort (map fst tl2))) = Some ties"
    and "\<forall>e\<in>set ents. charge_state e \<noteq> Max (set ties)"
    and "map_of xy' name1 = Some (xs1, ys1)" and "map_of xy' name2 = Some (xs2, ys2)"
  shows "ys2 ! 0 = last ys1"
proof -
  let ?tail = "mid @ (name2, tl2) # rest"
  from run_char [OF assms(1)] obtain st where
    loop: "species_loop interp dpd cp xlim all_xy (transition_level_map dpd) initial_state = Inr st"
    and xy: "xy' = xy st" by blast
  from loop obtain stP where
    l1: "species_loop interp dpd cp xlim all_xy ((name1, tl1) # ?tail) stP = Inr st"
    unfolding assms(3) species_loop_append [of _ _ _ _ _ pre]
    by (auto split: sum.splits)
  from l1 obtain stA where
    sA: "species_step interp dpd cp xlim all_xy (name1, tl1) stP = Inr stA"
    and l2: "species_loop interp dpd cp xlim all_xy ?tail stA = Inr st"
    by (auto split: sum.splits)
  from l2 obtain stM where
    m: "species_loop interp dpd cp xlim all_xy mid stA = Inr stM"
    and l3: "species_loop interp dpd cp xlim all_xy ((name2, tl2) # rest) stM = Inr st"
    unfolding species_loop_append [of _ _ _ _ _ mid]
    by (auto split: sum.splits)
  from l3 obtain stB where
    sB: "species_step interp dpd cp xlim all_xy (name2, tl2) stM = Inr stB"
    and l4: "species_loop interp dpd cp xlim all_xy rest stB = Inr st"
    by (auto split: sum.splits)
  from assms(2,3) have d1: "name1 \<notin> fst ` set ?tail" and d2: "name2 \<notin> fst ` set rest"
    by auto
  from species_step_char [OF sA] assms(4) obtain line1 s1 where
    e1: "envelope dpd cp xlim name1 tl1 stP = Inr (line1, s1)"
    and x1: "xy stA = AList.update name1 line1 (xy stP)"
    and f1: "form_en stA = form_en s1"
    by (auto simp: species_line_def)
  from species_step_char [OF sB] assms(6) obtain line2 s2 where
    e2: "envelope dpd cp xlim name2 tl2 stM = Inr (line2, s2)"
    and x2: "xy stB = AList.update name2 line2 (xy stM)"
    by (auto simp: species_line_def)
  from species_loop_other [OF l2 d1] x1 xy assms(10)
  have y1: "snd line1 = ys1" by (auto simp: update_conv')
  from species_loop_other [OF l4 d2] x2 xy assms(11)
  have y2: "snd line2 = ys2" by (auto simp: update_conv')
  from e1 have "form_en s1 = Some (last (snd line1))"
    by (cases rule: envelope_char)
  with f1 y1 have "form_en stA = Some (last ys1)" by simp
  with species_loop_empty_frame [OF m assms(5)]
  have fM: "form_en stM = Some (last ys1)" by simp
  from e2 show ?thesis
  proof (cases rule: envelope_char)
    case (env ents' ties0 tiesk)
    from env(5) assms(7) have "ents' = ents" by simp
    moreover from env(6) assms(8) have "ties0 = ties" by simp
    ultimately show ?thesis
      using env(10) [OF fM] assms(9) y2 by (simp add: pick_no_match)
  qed
qed

lemma strictly_increasing_caps:
  assumes "distinct ks" and "ks \<noteq> []"
  shows "sorted_wrt (<) (a # sort ks @ [b]) \<longleftrightarrow> (\<forall>k\<in>set ks. a < k \<and> k < (b::real))"
proof -
  have s: "sorted_wrt (<) (sort ks)"
    using assms(1) by (simp add: strict_sorted_iff)
  from assms(2) obtain k where k: "k \<in> set ks" by (cases ks) auto
  show ?thesis
  proof
    assume "sorted_wrt (<) (a # sort ks @ [b])"
    then show "\<forall>k\<in>set ks. a < k \<and> k < b"
      by (auto simp: sorted_wrt_append)
  next
    assume r: "\<forall>k\<in>set ks. a < k \<and> k < b"
    with k have "a < b" by fastforce
    with r s show "sorted_wrt (<) (a # sort ks @ [b])"
      by (auto simp: sorted_wrt_append)
  qed
qed

subsection \<open>The sample diagrams, run\<close>

text \<open>
  The first of the hundred abscissae inside the gap is zero; where the envelope is not
  negative there, no warning is issued, and the other ninety-nine are not needed.
\<close>

lemma upt_first: "[0..<numeral n] = 0 # [Suc 0..<numeral n]"
  by (simp add: upt_conv_Cons)

lemmas lines_eval = get_formation_energy_lines_def species_step_def envelope_def lower_bound_def
  upper_bound_def single_state_def in_gap_check_def get_in_gap_yvals_def linspace_def
  all_states_entry_def entry_key_def str_int_def str_nat.simps lookup_def read_var_def
  py_max_def py_min_def rsplit1_head_def initial_state_def lower_cap_def upper_cap_def
  sample_energy_def linear_interp_def py_def Let_def upt_first

lemma sample_run:
  "get_formation_energy_lines linear_interp sample_dpd () (- 0.3, 2.3) =
     Inr ((([(py ''vac_1_Cd_1@0'', ([- 100, 1, 100], [- 99.5, 1.5, - 97.5])),
             (py ''Int_Te_3_0@1'', ([- 100, 100], [3, 3]))],
            [0.2, 1.5, 0.2, 3, 3]),
           ([(py ''vac_1_Cd_1'', ([- 100, 100], [- 99.5, 100.5])),
             (py ''vac_1_Cd_-1'', ([- 100, 100], [102.5, - 97.5])),
             (py ''Int_Te_3_0'', ([- 100, 100], [3, 3]))],
            [0.2, 2.8, 0.2, 2.8, 2.8, 0.2, 2.8, 0.2, 3, 3, 3, 3]), 0), [])"
  by (simp add: lines_eval sample_dpd_def vac_plus_def vac_minus_def int_te_def)

lemma far_run:
  "get_formation_energy_lines linear_interp far_dpd () (- 0.3, 2.3) =
     Inr ((([(py ''vac_1_Cd_1@0'', ([- 100, 150, 100], [- 100, 150, 200]))],
            [- 0.3, 150, 297.7]),
           ([(py ''vac_1_Cd_1'', ([- 100, 100], [- 100, 100])),
             (py ''vac_1_Cd_-1'', ([- 100, 100], [400, 200]))],
            [- 0.3, 2.3, - 0.3, 2.3, 300.3, 297.7, 300.3, 297.7]), 0), [])"
  by (simp add: lines_eval far_dpd_def far_plus_def far_minus_def)

lemma stale_run:
  "get_formation_energy_lines linear_interp stale_dpd () (- 0.3, 2.3) =
     Inr ((([(py ''vac_1_Cd_2@0'', ([- 100, 1, 2, 100], [- 200, 2, 2, 3])),
             (py ''Int_Te_3_0@1'', ([- 100, 1, 100], [3, 3, 4]))],
            [- 0.6, 2, 2, 3, - 0.6, 3, 4]),
           ([(py ''vac_1_Cd_2'', ([- 100, 100], [- 200, 200])),
             (py ''vac_1_Cd_0'', ([- 100, 100], [3, 3])),
             (py ''Int_Te_3_0'', ([- 100, 100], [4, 4]))],
            [- 0.6, 4.6, - 0.6, 4.6, 3, 3, 3, 3, 4, 4, 4, 4]), 0), [])"
  by (simp add: lines_eval stale_dpd_def vac_two_def vac_zero_def int_zero_def)

lemma dup_run:
  "get_formation_energy_lines linear_interp dup_dpd () (- 0.3, 2.3) =
     Inr ((([(py ''Int_Te_3_0@0'', ([- 100, 100], [5, 5]))],
            [3, 3]),
           ([(py ''Int_Te_3_0'', ([- 100, 100], [5, 5]))],
            [3, 3, 3, 3, 5, 5, 5, 5]), 0), [])"
  by (simp add: lines_eval dup_dpd_def int_te_def int_te_again_def)

lemma between_run:
  "get_formation_energy_lines linear_interp between_dpd () (- 0.3, 2.3) =
     Inr ((([(py ''vac_1_Cd_2@0'', ([- 100, 1, 2, 100], [- 200, 2, 2, 3])),
             (py ''Int_Cd_1_0@1'', ([- 100, 100], [6, 6])),
             (py ''Int_Te_3_0@2'', ([- 100, 1, 100], [3, 3, 4]))],
            [- 0.6, 2, 2, 3, 6, 6, - 0.6, 3, 4]),
           ([(py ''vac_1_Cd_2'', ([- 100, 100], [- 200, 200])),
             (py ''vac_1_Cd_0'', ([- 100, 100], [3, 3])),
             (py ''Int_Cd_1_0'', ([- 100, 100], [6, 6])),
             (py ''Int_Te_3_0'', ([- 100, 100], [4, 4]))],
            [- 0.6, 4.6, - 0.6, 4.6, 3, 3, 3, 3, 6, 6, 6, 6, 4, 4, 4, 4]), 0), [])"
  by (simp add: lines_eval between_dpd_def vac_two_def vac_zero_def int_zero_def int_cd_def)

lemma sample_keys:
  "distinct (map fst (transition_level_map sample_dpd))"
  "(py ''vac_1_Cd_1@0'', [(1, [1, - 1])]) \<in> set (transition_level_map sample_dpd)"
  "(py ''Int_Te_3_0@1'', []) \<in> set (transition_level_map sample_dpd)"
  "map_of (stable_entries sample_dpd) (py ''vac_1_Cd_1@0'') = Some [vac_plus, vac_minus]"
  by (simp_all add: sample_dpd_def py_def)

lemma stale_keys:
  "distinct (map fst (transition_level_map stale_dpd))"
  "transition_level_map stale_dpd
     = (py ''vac_1_Cd_2@0'', [(1, [2, 1]), (2, [1, 0])]) # (py ''Int_Te_3_0@1'', [(1, [1, 0])]) # []"
  "map_of (stable_entries stale_dpd) (py ''vac_1_Cd_2@0'') = Some [vac_two, vac_zero]"
  "map_of (stable_entries stale_dpd) (py ''Int_Te_3_0@1'') = Some [int_zero]"
  by (simp_all add: stale_dpd_def py_def)

lemma between_keys:
  "distinct (map fst (transition_level_map between_dpd))"
  "transition_level_map between_dpd
     = [] @ (py ''vac_1_Cd_2@0'', [(1, [2, 1]), (2, [1, 0])])
          # [(py ''Int_Cd_1_0@1'', [])] @ (py ''Int_Te_3_0@2'', [(1, [1, 0])]) # []"
  "map_of (stable_entries between_dpd) (py ''Int_Te_3_0@2'') = Some [int_zero]"
  by (simp_all add: between_dpd_def py_def)

subsection \<open>The statements about the builder\<close>

text \<open>
  C9, as the code has it. Whenever \<^verbatim>\<open>_get_formation_energy_lines\<close> returns: the range
  values of all entries are, entry by entry, the formation energy at the left and at the
  right edge of the window, each pair twice (once per cap); an entry that no later entry
  shares its key \<^verbatim>\<open>name_charge\<close> with has under that key the two-point line from the lower
  cap, with the formation energy there, to the upper cap, with the formation energy there;
  and every line of the dictionary is such a line of an entry with that key.
\<close>

theorem all_states_lines:
  assumes "get_formation_energy_lines interp dpd cp xlim
             = Inr (((xy', yrv), (all_xy, all_yrv), ymin'), ws)"
  shows "all_yrv = concat (map (\<lambda>e. [formation_energy dpd e cp (fst xlim),
                                      formation_energy dpd e cp (snd xlim),
                                      formation_energy dpd e cp (fst xlim),
                                      formation_energy dpd e cp (snd xlim)]) (entries dpd))
       \<and> (\<forall>pre e post. entries dpd = pre @ e # post
              \<and> (\<forall>e'\<in>set post. entry_key e' \<noteq> entry_key e)
            \<longrightarrow> map_of all_xy (entry_key e)
                  = Some ([lower_cap, upper_cap],
                          [formation_energy dpd e cp lower_cap,
                           formation_energy dpd e cp upper_cap]))
       \<and> (\<forall>k line. map_of all_xy k = Some line
            \<longrightarrow> (\<exists>e\<in>set (entries dpd). entry_key e = k
                   \<and> line = ([lower_cap, upper_cap],
                             [formation_energy dpd e cp lower_cap,
                              formation_energy dpd e cp upper_cap])))"
proof -
  from run_char [OF assms(1)]
  have al: "(all_xy, all_yrv) = all_states_loop dpd cp xlim (entries dpd) ([], [])" by blast
  then have lines: "all_xy = fold (\<lambda>e. AList.update (entry_key e) (all_state_line dpd cp e)) (entries dpd) []"
    and vals: "all_yrv = concat (map (\<lambda>e. window_energies dpd cp xlim e @ window_energies dpd cp xlim e) (entries dpd))"
    by (simp_all add: all_states_loop_eq)
  have 1: "all_yrv = concat (map (\<lambda>e. [formation_energy dpd e cp (fst xlim),
                                      formation_energy dpd e cp (snd xlim),
                                      formation_energy dpd e cp (fst xlim),
                                      formation_energy dpd e cp (snd xlim)]) (entries dpd))"
    using vals by (simp add: window_energies_def)
  have 2: "map_of all_xy (entry_key e)
                  = Some ([lower_cap, upper_cap],
                          [formation_energy dpd e cp lower_cap,
                           formation_energy dpd e cp upper_cap])"
    if "entries dpd = pre @ e # post" "\<forall>e'\<in>set post. entry_key e' \<noteq> entry_key e" for pre e post
    using map_of_fold_update_last [OF that(2), of "all_state_line dpd cp" pre "[]"] that(1) lines
    by (simp add: all_state_line_def)
  have 3: "\<exists>e\<in>set (entries dpd). entry_key e = k
                   \<and> line = ([lower_cap, upper_cap],
                             [formation_energy dpd e cp lower_cap,
                              formation_energy dpd e cp upper_cap])"
    if "map_of all_xy k = Some line" for k line
    using map_of_fold_update_dom [of entry_key "all_state_line dpd cp" "entries dpd" "[]" k line]
      that lines by (auto simp: all_state_line_def)
  from 1 2 3 show ?thesis by blast
qed

theorem all_states_lines_witness:
  "\<exists>xy' yrv all_xy all_yrv ymin' ws.
     get_formation_energy_lines linear_interp sample_dpd () (- 0.3, 2.3)
       = Inr (((xy', yrv), (all_xy, all_yrv), ymin'), ws)
   \<and> all_yrv = [0.2, 2.8, 0.2, 2.8, 2.8, 0.2, 2.8, 0.2, 3, 3, 3, 3]
   \<and> map_of all_xy (py ''vac_1_Cd_-1'') = Some ([- 100, 100], [102.5, - 97.5])"
proof -
  from sample_run obtain xy' yrv all_xy all_yrv ymin' ws where
    run: "get_formation_energy_lines linear_interp sample_dpd () (- 0.3, 2.3)
       = Inr (((xy', yrv), (all_xy, all_yrv), ymin'), ws)" by blast
  note t = all_states_lines [OF run]
  from t have "all_yrv = [0.2, 2.8, 0.2, 2.8, 2.8, 0.2, 2.8, 0.2, 3, 3, 3, 3]"
    by (simp add: sample_dpd_def sample_energy_def vac_plus_def vac_minus_def int_te_def)
  moreover have e: "entries sample_dpd = [vac_plus] @ vac_minus # [int_te]
      \<and> (\<forall>e'\<in>set [int_te]. entry_key e' \<noteq> entry_key vac_minus)"
    by (simp add: sample_dpd_def entry_key_def int_te_def vac_minus_def py_def)
  from t [THEN conjunct2, THEN conjunct1, rule_format, OF e]
  have "map_of all_xy (py ''vac_1_Cd_-1'') = Some ([- 100, 100], [102.5, - 97.5])"
    by (simp add: entry_key_def str_int_def str_nat.simps vac_minus_def py_def
        sample_dpd_def sample_energy_def lower_cap_def upper_cap_def)
  ultimately show ?thesis using run by blast
qed

text \<open>
  The statement C9 has a line for every entry. The dictionary of the lines is keyed by name
  and charge, and a later entry of the same name and charge takes the place of an earlier
  one: of two such entries with the energies 3 eV and 5 eV, the line of the first, at
  3 eV, is not in the dictionary that is returned.
\<close>

theorem all_states_lines_overwritten_counterexample:
  "get_formation_energy_lines linear_interp dup_dpd () (- 0.3, 2.3) =
     Inr ((([(py ''Int_Te_3_0@0'', ([- 100, 100], [5, 5]))],
            [3, 3]),
           ([(py ''Int_Te_3_0'', ([- 100, 100], [5, 5]))],
            [3, 3, 3, 3, 5, 5, 5, 5]), 0), [])
   \<and> entries dup_dpd = [int_te, int_te_again]
   \<and> ([lower_cap, upper_cap],
       [formation_energy dup_dpd int_te () lower_cap, formation_energy dup_dpd int_te () upper_cap])
      = ([- 100, 100], [3, 3])"
  by (simp add: dup_run)
     (simp add: dup_dpd_def int_te_def sample_energy_def lower_cap_def upper_cap_def)

text \<open>
  C3, as the code has it. Whenever the function returns, a species whose transition-level
  map is empty has as its envelope the very line that the dictionary of all lines holds
  under the species name up to its last \<^verbatim>\<open>@\<close>: the two-point line of the last entry of the
  diagram with that key. The species has a first stable entry, the entry of the statement;
  the envelope is the two-point line of this entry when it is an entry of the diagram, its
  key is the species name up to the last \<^verbatim>\<open>@\<close>, and no later entry of the diagram has the
  same key. The keys of the transition-level map are distinct, as the keys of a dictionary
  are.
\<close>

theorem single_state_reuses_all_states_line:
  assumes "get_formation_energy_lines interp dpd cp xlim
             = Inr (((xy', yrv), (all_xy, all_yrv), ymin'), ws)"
    and "distinct (map fst (transition_level_map dpd))"
    and "(def_name, []) \<in> set (transition_level_map dpd)"
  shows "\<exists>line e0 others.
             map_of xy' def_name = Some line
           \<and> map_of all_xy (rsplit1_head 64 def_name) = Some line
           \<and> map_of (stable_entries dpd) def_name = Some (e0 # others)
           \<and> (\<forall>pre post. entries dpd = pre @ e0 # post
                  \<and> entry_key e0 = rsplit1_head 64 def_name
                  \<and> (\<forall>e'\<in>set post. entry_key e' \<noteq> entry_key e0)
                \<longrightarrow> line = ([lower_cap, upper_cap],
                             [formation_energy dpd e0 cp lower_cap,
                              formation_energy dpd e0 cp upper_cap]))
           \<and> (\<exists>e\<in>set (entries dpd). entry_key e = rsplit1_head 64 def_name
                  \<and> line = ([lower_cap, upper_cap],
                             [formation_energy dpd e cp lower_cap,
                              formation_energy dpd e cp upper_cap]))
           \<and> (\<forall>pre e post. entries dpd = pre @ e # post
                  \<and> entry_key e = rsplit1_head 64 def_name
                  \<and> (\<forall>e'\<in>set post. entry_key e' \<noteq> entry_key e)
                \<longrightarrow> line = ([lower_cap, upper_cap],
                             [formation_energy dpd e cp lower_cap,
                              formation_energy dpd e cp upper_cap]))"
proof -
  from run_char [OF assms(1)] obtain st where
    al: "(all_xy, all_yrv) = all_states_loop dpd cp xlim (entries dpd) ([], [])"
    and loop: "species_loop interp dpd cp xlim all_xy (transition_level_map dpd) initial_state = Inr st"
    and xy: "xy' = xy st" by blast
  from species_loop_lookup [OF loop assms(2,3)] obtain st0 line st1 where
    l: "species_line dpd cp xlim all_xy (def_name, []) st0 = Inr (line, st1)"
    and m: "map_of (xy st) def_name = Some line" by auto
  from l have "single_state dpd cp xlim all_xy def_name st0 = Inr (line, st1)"
    by (simp add: species_line_def)
  from single_state_char [OF this] obtain e0 others where
    a: "map_of all_xy (rsplit1_head 64 def_name) = Some line"
    and s: "map_of (stable_entries dpd) def_name = Some (e0 # others)" by blast
  from al have lines: "all_xy = fold (\<lambda>e. AList.update (entry_key e) (all_state_line dpd cp e)) (entries dpd) []"
    by (simp add: all_states_loop_eq)
  with a map_of_fold_update_dom [of entry_key "all_state_line dpd cp" "entries dpd" "[]"
      "rsplit1_head 64 def_name" line]
  have some: "\<exists>e\<in>set (entries dpd). entry_key e = rsplit1_head 64 def_name
      \<and> line = all_state_line dpd cp e" by auto
  have the_last: "line = all_state_line dpd cp e"
    if "entries dpd = pre @ e # post" "entry_key e = rsplit1_head 64 def_name"
      "\<forall>e'\<in>set post. entry_key e' \<noteq> entry_key e" for pre e post
    using map_of_fold_update_last [OF that(3), of "all_state_line dpd cp" pre "[]"] that(1,2) lines a
    by simp
  have own: "\<forall>pre post. entries dpd = pre @ e0 # post
                  \<and> entry_key e0 = rsplit1_head 64 def_name
                  \<and> (\<forall>e'\<in>set post. entry_key e' \<noteq> entry_key e0)
                \<longrightarrow> line = all_state_line dpd cp e0"
    using the_last by blast
  have every: "\<forall>pre e post. entries dpd = pre @ e # post
                  \<and> entry_key e = rsplit1_head 64 def_name
                  \<and> (\<forall>e'\<in>set post. entry_key e' \<noteq> entry_key e)
                \<longrightarrow> line = all_state_line dpd cp e"
    using the_last by blast
  have "map_of xy' def_name = Some line" using m xy by simp
  with a s own some every show ?thesis unfolding all_state_line_def by blast
qed

theorem single_state_reuses_all_states_line_witness:
  "\<exists>xy' yrv all_xy all_yrv ymin' ws line.
     get_formation_energy_lines linear_interp sample_dpd () (- 0.3, 2.3)
       = Inr (((xy', yrv), (all_xy, all_yrv), ymin'), ws)
   \<and> map_of xy' (py ''Int_Te_3_0@1'') = Some line
   \<and> map_of all_xy (py ''Int_Te_3_0'') = Some line
   \<and> map_of (stable_entries sample_dpd) (py ''Int_Te_3_0@1'') = Some [int_te]
   \<and> line = ([- 100, 100], [sample_energy int_te () (- 100), sample_energy int_te () 100])"
proof -
  from sample_run obtain xy' yrv all_xy all_yrv ymin' ws where
    run: "get_formation_energy_lines linear_interp sample_dpd () (- 0.3, 2.3)
       = Inr (((xy', yrv), (all_xy, all_yrv), ymin'), ws)" by blast
  have key: "rsplit1_head 64 (py ''Int_Te_3_0@1'') = py ''Int_Te_3_0''"
    by (simp add: rsplit1_head_def py_def)
  have st: "map_of (stable_entries sample_dpd) (py ''Int_Te_3_0@1'') = Some [int_te]"
    by (simp add: sample_dpd_def py_def)
  from single_state_reuses_all_states_line [OF run sample_keys(1) sample_keys(3)]
  obtain line e0 others where
    a: "map_of xy' (py ''Int_Te_3_0@1'') = Some line"
    and b: "map_of all_xy (rsplit1_head 64 (py ''Int_Te_3_0@1'')) = Some line"
    and c: "map_of (stable_entries sample_dpd) (py ''Int_Te_3_0@1'') = Some (e0 # others)"
    and d: "\<forall>pre post. entries sample_dpd = pre @ e0 # post
                  \<and> entry_key e0 = rsplit1_head 64 (py ''Int_Te_3_0@1'')
                  \<and> (\<forall>e'\<in>set post. entry_key e' \<noteq> entry_key e0)
                \<longrightarrow> line = ([lower_cap, upper_cap],
                             [formation_energy sample_dpd e0 () lower_cap,
                              formation_energy sample_dpd e0 () upper_cap])"
    by blast
  from c st have e0: "e0 = int_te" by simp
  have "entries sample_dpd = [vac_plus, vac_minus] @ int_te # []
      \<and> entry_key int_te = rsplit1_head 64 (py ''Int_Te_3_0@1'')
      \<and> (\<forall>e'\<in>set []. entry_key e' \<noteq> entry_key int_te)"
    by (simp add: sample_dpd_def rsplit1_head_def entry_key_def int_te_def str_int_def
        str_nat.simps py_def)
  with d e0 have "line = ([lower_cap, upper_cap],
                             [formation_energy sample_dpd int_te () lower_cap,
                              formation_energy sample_dpd int_te () upper_cap])"
    by blast
  then have "line = ([- 100, 100], [sample_energy int_te () (- 100), sample_energy int_te () 100])"
    by (simp add: sample_dpd_def lower_cap_def upper_cap_def)
  with run a b st key show ?thesis by auto
qed

text \<open>
  The statement C3 has the line of the species' single entry for every species without a
  transition level. The line is looked up by name and charge: when the diagram has two
  entries of that name and charge, with the energies 3 eV and 5 eV, and the entry of the
  species is the first, at 3 eV, the envelope of the species is the line of the other, at
  5 eV.
\<close>

theorem single_state_other_entry_counterexample:
  "get_formation_energy_lines linear_interp dup_dpd () (- 0.3, 2.3) =
     Inr ((([(py ''Int_Te_3_0@0'', ([- 100, 100], [5, 5]))],
            [3, 3]),
           ([(py ''Int_Te_3_0'', ([- 100, 100], [5, 5]))],
            [3, 3, 3, 3, 5, 5, 5, 5]), 0), [])
   \<and> map_of (stable_entries dup_dpd) (py ''Int_Te_3_0@0'') = Some [int_te]
   \<and> all_state_line dup_dpd () int_te = ([- 100, 100], [3, 3])"
  by (simp add: dup_run)
     (simp add: dup_dpd_def int_te_def sample_energy_def all_state_line_def lower_cap_def
        upper_cap_def py_def)

text \<open>
  C1, as the code has it. Whenever the function returns, a species whose transition-level
  map has \<open>k > 0\<close> breakpoints has an envelope of exactly \<open>k + 2\<close> points: its abscissae are
  the lower cap, the breakpoints in ascending order and the upper cap. They are strictly
  increasing if and only if every breakpoint lies strictly between the caps -100 and 100.
\<close>

theorem envelope_point_count:
  assumes "get_formation_energy_lines interp dpd cp xlim
             = Inr (((xy', yrv), (all_xy, all_yrv), ymin'), ws)"
    and "distinct (map fst (transition_level_map dpd))"
    and "(def_name, def_tl) \<in> set (transition_level_map dpd)"
    and "def_tl \<noteq> []" and "distinct (map fst def_tl)"
  shows "\<exists>xs ys. map_of xy' def_name = Some (xs, ys)
           \<and> xs = lower_cap # sort (map fst def_tl) @ [upper_cap]
           \<and> length xs = length def_tl + 2 \<and> length ys = length def_tl + 2
           \<and> (sorted_wrt (<) xs \<longleftrightarrow> (\<forall>fl\<in>set (map fst def_tl). lower_cap < fl \<and> fl < upper_cap))"
proof -
  from run_char [OF assms(1)] obtain st where
    loop: "species_loop interp dpd cp xlim all_xy (transition_level_map dpd) initial_state = Inr st"
    and xy: "xy' = xy st" by blast
  from species_loop_lookup [OF loop assms(2,3)] obtain st0 line st1 where
    l: "species_line dpd cp xlim all_xy (def_name, def_tl) st0 = Inr (line, st1)"
    and m: "map_of (xy st) def_name = Some line" by auto
  from l assms(4) have "envelope dpd cp xlim def_name def_tl st0 = Inr (line, st1)"
    by (simp add: species_line_def)
  from envelope_char [OF this]
  have xs: "fst line = lower_cap # sort (map fst def_tl) @ [upper_cap]"
    and ys: "length (snd line) = length def_tl + 2"
    by metis+
  have ne: "map fst def_tl \<noteq> []" using assms(4) by simp
  have "map_of xy' def_name = Some (fst line, snd line)" using m xy by simp
  moreover have "length (fst line) = length def_tl + 2" using xs by simp
  moreover have "length (snd line) = length def_tl + 2" by (rule ys)
  moreover have "sorted_wrt (<) (fst line)
      \<longleftrightarrow> (\<forall>fl\<in>set (map fst def_tl). lower_cap < fl \<and> fl < upper_cap)"
    unfolding xs by (rule strictly_increasing_caps [OF assms(5) ne])
  ultimately show ?thesis using xs by blast
qed

theorem envelope_point_count_witness:
  "\<exists>xy' yrv all_xy all_yrv ymin' ws xs ys.
     get_formation_energy_lines linear_interp sample_dpd () (- 0.3, 2.3)
       = Inr (((xy', yrv), (all_xy, all_yrv), ymin'), ws)
   \<and> map_of xy' (py ''vac_1_Cd_1@0'') = Some (xs, ys)
   \<and> xs = [- 100, 1, 100] \<and> length ys = 3 \<and> sorted_wrt (<) xs"
proof -
  from sample_run obtain xy' yrv all_xy all_yrv ymin' ws where
    run: "get_formation_energy_lines linear_interp sample_dpd () (- 0.3, 2.3)
       = Inr (((xy', yrv), (all_xy, all_yrv), ymin'), ws)" by blast
  have ne: "[(1::real, [1, - 1 :: int])] \<noteq> []" and d: "distinct (map fst [(1::real, [1, - 1 :: int])])"
    by simp_all
  from envelope_point_count [OF run sample_keys(1) sample_keys(2) ne d]
  obtain xs ys where
    m: "map_of xy' (py ''vac_1_Cd_1@0'') = Some (xs, ys)"
    and xs: "xs = lower_cap # sort (map fst [(1::real, [1, - 1 :: int])]) @ [upper_cap]"
    and len: "length ys = length [(1::real, [1, - 1 :: int])] + 2"
    and inc: "sorted_wrt (<) xs
       \<longleftrightarrow> (\<forall>fl\<in>set (map fst [(1::real, [1, - 1 :: int])]). lower_cap < fl \<and> fl < upper_cap)"
    by blast
  have "\<forall>fl\<in>set (map fst [(1::real, [1, - 1 :: int])]). lower_cap < fl \<and> fl < upper_cap"
    by (simp add: lower_cap_def upper_cap_def)
  with inc have "sorted_wrt (<) xs" by blast
  moreover from xs have "xs = [- 100, 1, 100]" by (simp add: lower_cap_def upper_cap_def)
  moreover from len have "length ys = 3" by simp
  ultimately show ?thesis using run m by blast
qed

text \<open>
  The statement C1 has the abscissae strictly increasing for every species. A transition
  level at 150 eV lies beyond the upper cap, which is appended after it.
\<close>

theorem envelope_beyond_cap_counterexample:
  "get_formation_energy_lines linear_interp far_dpd () (- 0.3, 2.3) =
     Inr ((([(py ''vac_1_Cd_1@0'', ([- 100, 150, 100], [- 100, 150, 200]))],
            [- 0.3, 150, 297.7]),
           ([(py ''vac_1_Cd_1'', ([- 100, 100], [- 100, 100])),
             (py ''vac_1_Cd_-1'', ([- 100, 100], [400, 200]))],
            [- 0.3, 2.3, - 0.3, 2.3, 300.3, 297.7, 300.3, 297.7]), 0), [])
   \<and> \<not> sorted_wrt (<) [- 100, 150, 100 :: real]"
  by (simp add: far_run)

text \<open>
  C2, as the code has it. Whenever the function returns, for a species with a non-empty
  transition-level map, all of whose selected charges are charges of its stable entries:
  the first point is the lower cap with the formation energy there of the entry selected
  for the largest charge tied at the first breakpoint; the point of every breakpoint is the
  breakpoint with the formation energy there of the entry selected for the largest charge
  tied at it; the last point is the upper cap with the formation energy there of the entry
  selected for the smallest charge tied at the last breakpoint. The entry selected for a
  charge is the last stable entry of that charge.
\<close>

theorem envelope_tie_break:
  assumes "get_formation_energy_lines interp dpd cp xlim
             = Inr (((xy', yrv), (all_xy, all_yrv), ymin'), ws)"
    and "distinct (map fst (transition_level_map dpd))"
    and "(def_name, def_tl) \<in> set (transition_level_map dpd)"
    and "def_tl \<noteq> []"
    and "map_of (stable_entries dpd) def_name = Some ents"
    and "\<forall>fl ties. map_of def_tl fl = Some ties \<longrightarrow> (\<exists>e\<in>set ents. charge_state e = Max (set ties))"
    and "\<forall>ties. map_of def_tl (last (sort (map fst def_tl))) = Some ties
            \<longrightarrow> (\<exists>e\<in>set ents. charge_state e = Min (set ties))"
  shows "\<exists>xs ys. map_of xy' def_name = Some (xs, ys)
       \<and> (\<exists>ties e. map_of def_tl (hd (sort (map fst def_tl))) = Some ties
             \<and> selected_entry (Max (set ties)) ents = Some e
             \<and> xs ! 0 = lower_cap \<and> ys ! 0 = formation_energy dpd e cp lower_cap)
       \<and> (\<forall>i<length def_tl. \<exists>ties e.
               map_of def_tl (sort (map fst def_tl) ! i) = Some ties
             \<and> selected_entry (Max (set ties)) ents = Some e
             \<and> xs ! (i + 1) = sort (map fst def_tl) ! i
             \<and> ys ! (i + 1) = formation_energy dpd e cp (sort (map fst def_tl) ! i))
       \<and> (\<exists>ties e. map_of def_tl (last (sort (map fst def_tl))) = Some ties
             \<and> selected_entry (Min (set ties)) ents = Some e
             \<and> xs ! (length def_tl + 1) = upper_cap
             \<and> ys ! (length def_tl + 1) = formation_energy dpd e cp upper_cap)"
proof -
  let ?org = "sort (map fst def_tl)"
  have len: "length ?org = length def_tl" by simp
  from run_char [OF assms(1)] obtain st where
    loop: "species_loop interp dpd cp xlim all_xy (transition_level_map dpd) initial_state = Inr st"
    and xy: "xy' = xy st" by blast
  from species_loop_lookup [OF loop assms(2,3)] obtain st0 line st1 where
    l: "species_line dpd cp xlim all_xy (def_name, def_tl) st0 = Inr (line, st1)"
    and m: "map_of (xy st) def_name = Some line" by auto
  from l assms(4) have "envelope dpd cp xlim def_name def_tl st0 = Inr (line, st1)"
    by (simp add: species_line_def)
  then show ?thesis
  proof (cases rule: envelope_char)
    case (env ents' ties0 tiesk)
    note xs = env(1) and t0 = env(6) and tk = env(8) and y0a = env(10) and y0b = env(11)
      and mid = env(12) and yk = env(13)
    from env(5) assms(5) have same: "ents' = ents" by simp
    from assms(6) t0 selected_entry_exists obtain e0 where
      e0: "selected_entry (Max (set ties0)) ents = Some e0" by blast
    have y0: "snd line ! 0 = formation_energy dpd e0 cp lower_cap"
    proof (cases "form_en st0")
      case None
      with y0b e0 same show ?thesis by auto
    next
      case (Some v)
      with y0a [of v] e0 same show ?thesis by (simp add: pick_match)
    qed
    have first: "\<exists>ties e. map_of def_tl (hd ?org) = Some ties
               \<and> selected_entry (Max (set ties)) ents = Some e
               \<and> fst line ! 0 = lower_cap \<and> snd line ! 0 = formation_energy dpd e cp lower_cap"
      using t0 e0 y0 xs by auto
    have inner: "\<exists>ties e.
                 map_of def_tl (?org ! i) = Some ties
               \<and> selected_entry (Max (set ties)) ents = Some e
               \<and> fst line ! (i + 1) = ?org ! i
               \<and> snd line ! (i + 1) = formation_energy dpd e cp (?org ! i)"
      if "i < length def_tl" for i
    proof -
      from mid [OF that] obtain ties where
        a: "map_of def_tl (?org ! i) = Some ties"
        and b: "snd line ! (i + 1) = pick dpd cp ents' (Max (set ties)) (?org ! i) (snd line ! i)"
        by auto
      from assms(6) a selected_entry_exists obtain e where
        e: "selected_entry (Max (set ties)) ents = Some e" by blast
      have "fst line ! (i + 1) = ?org ! i"
        using that len by (simp add: xs nth_append)
      with a b e same show ?thesis by (simp add: pick_match)
    qed
    from assms(7) tk selected_entry_exists obtain ek where
      ek: "selected_entry (Min (set tiesk)) ents = Some ek" by blast
    have "fst line ! (length def_tl + 1) = upper_cap"
      using len by (simp add: xs nth_append)
    with tk ek yk same
    have final: "\<exists>ties e. map_of def_tl (last ?org) = Some ties
               \<and> selected_entry (Min (set ties)) ents = Some e
               \<and> fst line ! (length def_tl + 1) = upper_cap
               \<and> snd line ! (length def_tl + 1) = formation_energy dpd e cp upper_cap"
      by (simp add: pick_match)
    have "map_of xy' def_name = Some (fst line, snd line)" using m xy by simp
    with first inner final show ?thesis by blast
  qed
qed

theorem envelope_tie_break_witness:
  "\<exists>xy' yrv all_xy all_yrv ymin' ws xs ys.
     get_formation_energy_lines linear_interp sample_dpd () (- 0.3, 2.3)
       = Inr (((xy', yrv), (all_xy, all_yrv), ymin'), ws)
   \<and> map_of xy' (py ''vac_1_Cd_1@0'') = Some (xs, ys)
   \<and> ys ! 0 = sample_energy vac_plus () lower_cap
   \<and> xs ! 1 = 1 \<and> ys ! 1 = sample_energy vac_plus () 1
   \<and> ys ! 2 = sample_energy vac_minus () upper_cap"
proof -
  let ?lv = "[(1::real, [1, - 1 :: int])]"
  let ?es = "[vac_plus, vac_minus]"
  from sample_run obtain xy' yrv all_xy all_yrv ymin' ws where
    run: "get_formation_energy_lines linear_interp sample_dpd () (- 0.3, 2.3)
       = Inr (((xy', yrv), (all_xy, all_yrv), ymin'), ws)" by blast
  have ne: "?lv \<noteq> []" by simp
  have h1: "\<forall>fl ties. map_of ?lv fl = Some ties
              \<longrightarrow> (\<exists>e\<in>set ?es. charge_state e = Max (set ties))"
    by (auto simp: vac_plus_def split: if_splits)
  have h2: "\<forall>ties. map_of ?lv (last (sort (map fst ?lv))) = Some ties
              \<longrightarrow> (\<exists>e\<in>set ?es. charge_state e = Min (set ties))"
    by (auto simp: vac_minus_def)
  have sel_max: "selected_entry (Max (set [1, - 1])) ?es = Some vac_plus"
    and sel_min: "selected_entry (Min (set [1, - 1])) ?es = Some vac_minus"
    by (simp_all add: selected_entry_def vac_plus_def vac_minus_def)
  have fe: "formation_energy sample_dpd = sample_energy" by (simp add: sample_dpd_def)
  from envelope_tie_break [OF run sample_keys(1) sample_keys(2) ne sample_keys(4) h1 h2]
  obtain xs ys where
    m: "map_of xy' (py ''vac_1_Cd_1@0'') = Some (xs, ys)"
    and first: "\<exists>ties e. map_of ?lv (hd (sort (map fst ?lv))) = Some ties
             \<and> selected_entry (Max (set ties)) ?es = Some e
             \<and> xs ! 0 = lower_cap \<and> ys ! 0 = formation_energy sample_dpd e () lower_cap"
    and mid: "\<forall>i<length ?lv. \<exists>ties e.
               map_of ?lv (sort (map fst ?lv) ! i) = Some ties
             \<and> selected_entry (Max (set ties)) ?es = Some e
             \<and> xs ! (i + 1) = sort (map fst ?lv) ! i
             \<and> ys ! (i + 1) = formation_energy sample_dpd e () (sort (map fst ?lv) ! i)"
    and final: "\<exists>ties e. map_of ?lv (last (sort (map fst ?lv))) = Some ties
             \<and> selected_entry (Min (set ties)) ?es = Some e
             \<and> xs ! (length ?lv + 1) = upper_cap
             \<and> ys ! (length ?lv + 1) = formation_energy sample_dpd e () upper_cap"
    by blast
  from first sel_max have y0: "ys ! 0 = sample_energy vac_plus () lower_cap"
    by (auto simp: fe)
  from mid have "\<exists>ties e.
               map_of ?lv (sort (map fst ?lv) ! 0) = Some ties
             \<and> selected_entry (Max (set ties)) ?es = Some e
             \<and> xs ! (0 + 1) = sort (map fst ?lv) ! 0
             \<and> ys ! (0 + 1) = formation_energy sample_dpd e () (sort (map fst ?lv) ! 0)"
    by simp
  with sel_max have y1: "xs ! 1 = 1 \<and> ys ! 1 = sample_energy vac_plus () 1"
    by (auto simp: fe)
  from final sel_min have y2: "ys ! 2 = sample_energy vac_minus () upper_cap"
    by (auto simp: fe numeral_2_eq_2)
  from run m y0 y1 y2 show ?thesis by blast
qed

text \<open>
  The statement C2 is about every species with a non-empty transition-level map. The first
  species of \<open>stale_dpd\<close> has the stable entries of charge +2 and 0, and the charges +1 and
  0 are tied at its breakpoint 2 eV. The largest of them is +1, the charge of no entry. The
  function returns, and the point of that breakpoint has the energy 2 eV, which is the
  energy of the point before it and the energy at 2 eV of no stable entry: those are 4 eV
  and 3 eV.
\<close>

theorem envelope_unmatched_breakpoint_counterexample:
  "get_formation_energy_lines linear_interp stale_dpd () (- 0.3, 2.3) =
     Inr ((([(py ''vac_1_Cd_2@0'', ([- 100, 1, 2, 100], [- 200, 2, 2, 3])),
             (py ''Int_Te_3_0@1'', ([- 100, 1, 100], [3, 3, 4]))],
            [- 0.6, 2, 2, 3, - 0.6, 3, 4]),
           ([(py ''vac_1_Cd_2'', ([- 100, 100], [- 200, 200])),
             (py ''vac_1_Cd_0'', ([- 100, 100], [3, 3])),
             (py ''Int_Te_3_0'', ([- 100, 100], [4, 4]))],
            [- 0.6, 4.6, - 0.6, 4.6, 3, 3, 3, 3, 4, 4, 4, 4]), 0), [])
   \<and> map_of (transition_level_map stale_dpd) (py ''vac_1_Cd_2@0'') = Some [(1, [2, 1]), (2, [1, 0])]
   \<and> map_of (stable_entries stale_dpd) (py ''vac_1_Cd_2@0'') = Some [vac_two, vac_zero]
   \<and> Max (set [1, 0 :: int]) = 1
   \<and> charge_state vac_two = 2 \<and> formation_energy stale_dpd vac_two () 2 = 4
   \<and> charge_state vac_zero = 0 \<and> formation_energy stale_dpd vac_zero () 2 = 3"
  by (simp add: stale_run)
     (simp add: stale_dpd_def vac_two_def vac_zero_def sample_energy_def py_def)

text \<open>
  C10. A selected charge that no stable entry of the species has leaves the variables
  of the scan as they were.

  Every species, in whatever state of the variables the loop reaches it. When the map of
  the species is not empty and its first selected charge is unmatched, an envelope that
  starts with the energy unassigned raises \<^verbatim>\<open>UnboundLocalError\<close>, and an envelope that is
  built has as the energy of its first point the value the variable held before.

  The error. Take any species with a non-empty map before which, in the order of the map,
  only species with an empty map stand, each meeting its precondition: these assign none of
  the variables. When the first selected charge of the species is unmatched, the energy was
  never assigned and the function raises \<^verbatim>\<open>UnboundLocalError\<close>; it does so too when no tie
  set of the species is empty and the charge selected for the upper cap is unmatched.

  The value carried over. Whenever the function returns: in every species, the point of a
  breakpoint whose selected charge is unmatched repeats the energy of the point before it,
  and so does the last point when the charge selected for the upper cap is unmatched; and
  for every species with a non-empty map whose first selected charge is unmatched, and the
  species with a non-empty map that last precedes it (only species with an empty map stand
  between the two), the first point of the one carries the energy of the last point of the
  other.

  The precondition. When every species meets \<open>species_ok\<close>, in which every selected charge
  is matched, the function returns.
\<close>

theorem unmatched_charge_unbound_or_stale:
  "(def_tl \<noteq> []
      \<and> map_of (stable_entries dpd) def_name = Some ents
      \<and> map_of def_tl (hd (sort (map fst def_tl))) = Some ties \<and> ties \<noteq> []
      \<and> (\<forall>e\<in>set ents. charge_state e \<noteq> Max (set ties))
    \<longrightarrow> (form_en st = None
           \<longrightarrow> envelope dpd cp xlim def_name def_tl st = Inl UnboundLocalError)
       \<and> (\<forall>line st'. envelope dpd cp xlim def_name def_tl st = Inr (line, st')
           \<longrightarrow> form_en st = Some (snd line ! 0)))
   \<and> (transition_level_map dpd = before @ (def_name, def_tl) # rest
      \<and> (\<forall>item\<in>set before. snd item = [] \<and> species_ok dpd item)
      \<and> def_tl \<noteq> []
      \<and> map_of (stable_entries dpd) def_name = Some ents
      \<and> map_of def_tl (hd (sort (map fst def_tl))) = Some ties \<and> ties \<noteq> []
      \<and> (\<forall>e\<in>set ents. charge_state e \<noteq> Max (set ties))
    \<longrightarrow> get_formation_energy_lines interp dpd cp xlim = Inl UnboundLocalError)
   \<and> (transition_level_map dpd = before @ (def_name, def_tl) # rest
      \<and> (\<forall>item\<in>set before. snd item = [] \<and> species_ok dpd item)
      \<and> def_tl \<noteq> []
      \<and> map_of (stable_entries dpd) def_name = Some ents
      \<and> (\<forall>fl\<in>set (map fst def_tl). \<exists>t. map_of def_tl fl = Some t \<and> t \<noteq> [])
      \<and> map_of def_tl (last (sort (map fst def_tl))) = Some ties
      \<and> (\<forall>e\<in>set ents. charge_state e \<noteq> Min (set ties))
    \<longrightarrow> get_formation_energy_lines interp dpd cp xlim = Inl UnboundLocalError)
   \<and> (get_formation_energy_lines interp dpd cp xlim
          = Inr (((xy', yrv), (all_xy, all_yrv), ymin'), ws)
      \<and> distinct (map fst (transition_level_map dpd))
      \<and> (sp, lv) \<in> set (transition_level_map dpd) \<and> lv \<noteq> []
      \<and> map_of (stable_entries dpd) sp = Some es
      \<and> map_of xy' sp = Some (xs, ys)
    \<longrightarrow> (\<forall>i t. i < length lv \<and> map_of lv (sort (map fst lv) ! i) = Some t
              \<and> (\<forall>e\<in>set es. charge_state e \<noteq> Max (set t))
            \<longrightarrow> ys ! (i + 1) = ys ! i)
       \<and> (\<forall>t. map_of lv (last (sort (map fst lv))) = Some t
              \<and> (\<forall>e\<in>set es. charge_state e \<noteq> Min (set t))
            \<longrightarrow> ys ! (length lv + 1) = ys ! length lv))
   \<and> (get_formation_energy_lines interp dpd cp xlim
          = Inr (((xy', yrv), (all_xy, all_yrv), ymin'), ws)
      \<and> distinct (map fst (transition_level_map dpd))
      \<and> transition_level_map dpd = earlier @ (name1, tl1) # between @ (name2, tl2) # others
      \<and> tl1 \<noteq> [] \<and> (\<forall>item\<in>set between. snd item = []) \<and> tl2 \<noteq> []
      \<and> map_of (stable_entries dpd) name2 = Some es2
      \<and> map_of tl2 (hd (sort (map fst tl2))) = Some t2
      \<and> (\<forall>e\<in>set es2. charge_state e \<noteq> Max (set t2))
      \<and> map_of xy' name1 = Some (xs1, ys1) \<and> map_of xy' name2 = Some (xs2, ys2)
    \<longrightarrow> ys2 ! 0 = last ys1)
   \<and> (list_all (species_ok dpd) (transition_level_map dpd)
    \<longrightarrow> (\<exists>res. get_formation_energy_lines interp dpd cp xlim = Inr res))"
proof (intro conjI impI)
  assume "def_tl \<noteq> []
      \<and> map_of (stable_entries dpd) def_name = Some ents
      \<and> map_of def_tl (hd (sort (map fst def_tl))) = Some ties \<and> ties \<noteq> []
      \<and> (\<forall>e\<in>set ents. charge_state e \<noteq> Max (set ties))"
    and "form_en st = None"
  then show "envelope dpd cp xlim def_name def_tl st = Inl UnboundLocalError"
    by (elim conjE) (rule envelope_unbound_lower)
next
  assume a: "def_tl \<noteq> []
      \<and> map_of (stable_entries dpd) def_name = Some ents
      \<and> map_of def_tl (hd (sort (map fst def_tl))) = Some ties \<and> ties \<noteq> []
      \<and> (\<forall>e\<in>set ents. charge_state e \<noteq> Max (set ties))"
  show "\<forall>line st'. envelope dpd cp xlim def_name def_tl st = Inr (line, st')
           \<longrightarrow> form_en st = Some (snd line ! 0)"
  proof (intro allI impI)
    fix line st'
    assume "envelope dpd cp xlim def_name def_tl st = Inr (line, st')"
    with a show "form_en st = Some (snd line ! 0)"
      by (elim conjE) (rule envelope_stale_first)
  qed
next
  assume "transition_level_map dpd = before @ (def_name, def_tl) # rest
      \<and> (\<forall>item\<in>set before. snd item = [] \<and> species_ok dpd item)
      \<and> def_tl \<noteq> []
      \<and> map_of (stable_entries dpd) def_name = Some ents
      \<and> map_of def_tl (hd (sort (map fst def_tl))) = Some ties \<and> ties \<noteq> []
      \<and> (\<forall>e\<in>set ents. charge_state e \<noteq> Max (set ties))"
  then show "get_formation_energy_lines interp dpd cp xlim = Inl UnboundLocalError"
    by (elim conjE) (rule unbound_lower_after_empty_species)
next
  assume "transition_level_map dpd = before @ (def_name, def_tl) # rest
      \<and> (\<forall>item\<in>set before. snd item = [] \<and> species_ok dpd item)
      \<and> def_tl \<noteq> []
      \<and> map_of (stable_entries dpd) def_name = Some ents
      \<and> (\<forall>fl\<in>set (map fst def_tl). \<exists>t. map_of def_tl fl = Some t \<and> t \<noteq> [])
      \<and> map_of def_tl (last (sort (map fst def_tl))) = Some ties
      \<and> (\<forall>e\<in>set ents. charge_state e \<noteq> Min (set ties))"
  then show "get_formation_energy_lines interp dpd cp xlim = Inl UnboundLocalError"
    by (elim conjE) (rule unbound_upper_after_empty_species)
next
  assume a: "get_formation_energy_lines interp dpd cp xlim
          = Inr (((xy', yrv), (all_xy, all_yrv), ymin'), ws)
      \<and> distinct (map fst (transition_level_map dpd))
      \<and> (sp, lv) \<in> set (transition_level_map dpd) \<and> lv \<noteq> []
      \<and> map_of (stable_entries dpd) sp = Some es
      \<and> map_of xy' sp = Some (xs, ys)"
  then have b: "(\<forall>i t. i < length lv \<and> map_of lv (sort (map fst lv) ! i) = Some t
              \<and> (\<forall>e\<in>set es. charge_state e \<noteq> Max (set t))
            \<longrightarrow> ys ! (i + 1) = ys ! i)
       \<and> (\<forall>t. map_of lv (last (sort (map fst lv))) = Some t
              \<and> (\<forall>e\<in>set es. charge_state e \<noteq> Min (set t))
            \<longrightarrow> ys ! (length lv + 1) = ys ! length lv)"
    by (elim conjE) (rule stale_within_species)
  from b show "\<forall>i t. i < length lv \<and> map_of lv (sort (map fst lv) ! i) = Some t
              \<and> (\<forall>e\<in>set es. charge_state e \<noteq> Max (set t))
            \<longrightarrow> ys ! (i + 1) = ys ! i" ..
  from b show "\<forall>t. map_of lv (last (sort (map fst lv))) = Some t
              \<and> (\<forall>e\<in>set es. charge_state e \<noteq> Min (set t))
            \<longrightarrow> ys ! (length lv + 1) = ys ! length lv" ..
next
  assume "get_formation_energy_lines interp dpd cp xlim
          = Inr (((xy', yrv), (all_xy, all_yrv), ymin'), ws)
      \<and> distinct (map fst (transition_level_map dpd))
      \<and> transition_level_map dpd = earlier @ (name1, tl1) # between @ (name2, tl2) # others
      \<and> tl1 \<noteq> [] \<and> (\<forall>item\<in>set between. snd item = []) \<and> tl2 \<noteq> []
      \<and> map_of (stable_entries dpd) name2 = Some es2
      \<and> map_of tl2 (hd (sort (map fst tl2))) = Some t2
      \<and> (\<forall>e\<in>set es2. charge_state e \<noteq> Max (set t2))
      \<and> map_of xy' name1 = Some (xs1, ys1) \<and> map_of xy' name2 = Some (xs2, ys2)"
  then show "ys2 ! 0 = last ys1"
    by (elim conjE) (rule stale_across_species)
next
  assume "list_all (species_ok dpd) (transition_level_map dpd)"
  then show "\<exists>res. get_formation_energy_lines interp dpd cp xlim = Inr res"
    by (rule lines_return)
qed

theorem unmatched_charge_unbound_or_stale_witness:
  "envelope unmatched_dpd () (- 0.3, 2.3) (py ''vac_1_Cd_1@0'') [(1, [1, - 1])] initial_state
     = Inl UnboundLocalError
   \<and> (\<exists>line st'.
         envelope stale_dpd () (- 0.3, 2.3) (py ''Int_Te_3_0@1'') [(1, [1, 0])]
           (initial_state\<lparr>form_en := Some 7, fe_left := Some 8\<rparr>) = Inr (line, st')
       \<and> snd line ! 0 = 7)
   \<and> get_formation_energy_lines linear_interp unmatched_dpd () (- 0.3, 2.3) = Inl UnboundLocalError
   \<and> get_formation_energy_lines linear_interp gap_dpd () (- 0.3, 2.3) = Inl UnboundLocalError
   \<and> get_formation_energy_lines linear_interp no_minus_dpd () (- 0.3, 2.3) = Inl UnboundLocalError
   \<and> (\<exists>res. get_formation_energy_lines linear_interp sample_dpd () (- 0.3, 2.3) = Inr res)
   \<and> (\<exists>xy' yrv all_xy all_yrv ymin' ws xs1 ys1 xs2 ys2.
         get_formation_energy_lines linear_interp stale_dpd () (- 0.3, 2.3)
           = Inr (((xy', yrv), (all_xy, all_yrv), ymin'), ws)
       \<and> map_of xy' (py ''vac_1_Cd_2@0'') = Some (xs1, ys1)
       \<and> map_of xy' (py ''Int_Te_3_0@1'') = Some (xs2, ys2)
       \<and> ys1 ! 2 = ys1 ! 1 \<and> ys2 ! 1 = ys2 ! 0)
   \<and> (\<exists>xy' yrv all_xy all_yrv ymin' ws xs1 ys1 xs2 ys2.
         get_formation_energy_lines linear_interp between_dpd () (- 0.3, 2.3)
           = Inr (((xy', yrv), (all_xy, all_yrv), ymin'), ws)
       \<and> map_of xy' (py ''vac_1_Cd_2@0'') = Some (xs1, ys1)
       \<and> map_of xy' (py ''Int_Te_3_0@2'') = Some (xs2, ys2)
       \<and> ys2 ! 0 = last ys1)"
proof -
  note thm1 = unmatched_charge_unbound_or_stale
  \<comment> \<open>a species reached with the energy unassigned, and one reached with the energy 7\<close>
  have preS: "[(1::real, [1, - 1 :: int])] \<noteq> []
      \<and> map_of (stable_entries unmatched_dpd) (py ''vac_1_Cd_1@0'') = Some [vac_minus]
      \<and> map_of [(1::real, [1, - 1 :: int])] (hd (sort (map fst [(1::real, [1, - 1 :: int])])))
          = Some [1, - 1]
      \<and> [1, - 1 :: int] \<noteq> []
      \<and> (\<forall>e\<in>set [vac_minus]. charge_state e \<noteq> Max (set [1, - 1]))"
    by (simp add: unmatched_dpd_def py_def vac_minus_def)
  have unassigned: "form_en initial_state = None" by (simp add: initial_state_def)
  from thm1 [THEN conjunct1, THEN mp, OF preS, THEN conjunct1, THEN mp, OF unassigned]
  have S1: "envelope unmatched_dpd () (- 0.3, 2.3) (py ''vac_1_Cd_1@0'') [(1, [1, - 1])] initial_state
     = Inl UnboundLocalError" .
  let ?seven = "initial_state\<lparr>form_en := Some 7, fe_left := Some 8\<rparr>"
  have preT: "[(1::real, [1, 0 :: int])] \<noteq> []
      \<and> map_of (stable_entries stale_dpd) (py ''Int_Te_3_0@1'') = Some [int_zero]
      \<and> map_of [(1::real, [1, 0 :: int])] (hd (sort (map fst [(1::real, [1, 0 :: int])])))
          = Some [1, 0]
      \<and> [1, 0 :: int] \<noteq> []
      \<and> (\<forall>e\<in>set [int_zero]. charge_state e \<noteq> Max (set [1, 0]))"
    by (simp add: stale_dpd_def py_def int_zero_def)
  have "\<exists>line st'. envelope stale_dpd () (- 0.3, 2.3) (py ''Int_Te_3_0@1'') [(1, [1, 0])] ?seven
      = Inr (line, st')"
    by (simp add: lines_eval stale_dpd_def int_zero_def)
  then obtain line7 st7 where
    ev: "envelope stale_dpd () (- 0.3, 2.3) (py ''Int_Te_3_0@1'') [(1, [1, 0])] ?seven
      = Inr (line7, st7)" by blast
  from thm1 [THEN conjunct1, THEN mp, OF preT, THEN conjunct2, rule_format, OF ev]
  have "snd line7 ! 0 = 7" by simp
  with ev have S2: "\<exists>line st'.
         envelope stale_dpd () (- 0.3, 2.3) (py ''Int_Te_3_0@1'') [(1, [1, 0])] ?seven
           = Inr (line, st')
       \<and> snd line ! 0 = 7" by blast
  \<comment> \<open>the first species, its first charge unmatched\<close>
  have preA: "transition_level_map unmatched_dpd = [] @ (py ''vac_1_Cd_1@0'', [(1, [1, - 1])]) # []
      \<and> (\<forall>item\<in>set []. snd item = [] \<and> species_ok unmatched_dpd item)
      \<and> [(1::real, [1, - 1 :: int])] \<noteq> []
      \<and> map_of (stable_entries unmatched_dpd) (py ''vac_1_Cd_1@0'') = Some [vac_minus]
      \<and> map_of [(1::real, [1, - 1 :: int])] (hd (sort (map fst [(1::real, [1, - 1 :: int])])))
          = Some [1, - 1]
      \<and> [1, - 1 :: int] \<noteq> []
      \<and> (\<forall>e\<in>set [vac_minus]. charge_state e \<noteq> Max (set [1, - 1]))"
    by (simp add: unmatched_dpd_def py_def vac_minus_def)
  from thm1 [THEN conjunct2, THEN conjunct1, THEN mp, OF preA]
  have A: "get_formation_energy_lines linear_interp unmatched_dpd () (- 0.3, 2.3)
      = Inl UnboundLocalError" .
  \<comment> \<open>the same species after a species without a transition level\<close>
  have ok: "species_ok gap_dpd (py ''Int_Te_3_0@0'', [])"
    by (simp add: species_ok_def gap_dpd_def py_def vac_plus_def vac_minus_def int_te_def
        entry_key_def str_int_def str_nat.simps rsplit1_head_def)
  have preG: "transition_level_map gap_dpd
          = [(py ''Int_Te_3_0@0'', [])] @ (py ''vac_1_Cd_1@1'', [(1, [1, - 1])]) # []
      \<and> (\<forall>item\<in>set [(py ''Int_Te_3_0@0'', [])]. snd item = [] \<and> species_ok gap_dpd item)
      \<and> [(1::real, [1, - 1 :: int])] \<noteq> []
      \<and> map_of (stable_entries gap_dpd) (py ''vac_1_Cd_1@1'') = Some [vac_minus]
      \<and> map_of [(1::real, [1, - 1 :: int])] (hd (sort (map fst [(1::real, [1, - 1 :: int])])))
          = Some [1, - 1]
      \<and> [1, - 1 :: int] \<noteq> []
      \<and> (\<forall>e\<in>set [vac_minus]. charge_state e \<noteq> Max (set [1, - 1]))"
    using ok by (simp add: gap_dpd_def py_def vac_minus_def)
  from thm1 [THEN conjunct2, THEN conjunct1, THEN mp, OF preG]
  have G: "get_formation_energy_lines linear_interp gap_dpd () (- 0.3, 2.3)
      = Inl UnboundLocalError" .
  \<comment> \<open>the first species, its last charge unmatched\<close>
  have preA2: "transition_level_map no_minus_dpd = [] @ (py ''vac_1_Cd_1@0'', [(1, [1, - 1])]) # []
      \<and> (\<forall>item\<in>set []. snd item = [] \<and> species_ok no_minus_dpd item)
      \<and> [(1::real, [1, - 1 :: int])] \<noteq> []
      \<and> map_of (stable_entries no_minus_dpd) (py ''vac_1_Cd_1@0'') = Some [vac_plus]
      \<and> (\<forall>fl\<in>set (map fst [(1::real, [1, - 1 :: int])]).
            \<exists>t. map_of [(1::real, [1, - 1 :: int])] fl = Some t \<and> t \<noteq> [])
      \<and> map_of [(1::real, [1, - 1 :: int])] (last (sort (map fst [(1::real, [1, - 1 :: int])])))
          = Some [1, - 1]
      \<and> (\<forall>e\<in>set [vac_plus]. charge_state e \<noteq> Min (set [1, - 1]))"
    by (simp add: no_minus_dpd_def py_def vac_plus_def)
  from thm1 [THEN conjunct2, THEN conjunct2, THEN conjunct1, THEN mp, OF preA2]
  have A2: "get_formation_energy_lines linear_interp no_minus_dpd () (- 0.3, 2.3)
      = Inl UnboundLocalError" .
  \<comment> \<open>the precondition holds\<close>
  have preD: "list_all (species_ok sample_dpd) (transition_level_map sample_dpd)"
    by (simp add: species_ok_def sample_dpd_def py_def vac_plus_def vac_minus_def int_te_def
        entry_key_def str_int_def str_nat.simps rsplit1_head_def)
  from thm1 [THEN conjunct2, THEN conjunct2, THEN conjunct2, THEN conjunct2, THEN conjunct2, THEN mp, OF preD]
  have D: "\<exists>res. get_formation_energy_lines linear_interp sample_dpd () (- 0.3, 2.3) = Inr res" .
  \<comment> \<open>values carried over inside a species\<close>
  from stale_run obtain xy' yrv all_xy all_yrv ymin' ws where
    run: "get_formation_energy_lines linear_interp stale_dpd () (- 0.3, 2.3)
       = Inr (((xy', yrv), (all_xy, all_yrv), ymin'), ws)"
    and xy: "xy' = [(py ''vac_1_Cd_2@0'', ([- 100, 1, 2, 100], [- 200, 2, 2, 3])),
             (py ''Int_Te_3_0@1'', ([- 100, 1, 100], [3, 3, 4]))]"
    by blast
  obtain xs1 ys1 xs2 ys2 where
    m1: "map_of xy' (py ''vac_1_Cd_2@0'') = Some (xs1, ys1)"
    and m2: "map_of xy' (py ''Int_Te_3_0@1'') = Some (xs2, ys2)"
    by (simp add: xy py_def)
  let ?lv1 = "[(1::real, [2, 1 :: int]), (2, [1, 0])]"
  let ?lv2 = "[(1::real, [1, 0 :: int])]"
  have preB1: "get_formation_energy_lines linear_interp stale_dpd () (- 0.3, 2.3)
          = Inr (((xy', yrv), (all_xy, all_yrv), ymin'), ws)
      \<and> distinct (map fst (transition_level_map stale_dpd))
      \<and> (py ''vac_1_Cd_2@0'', ?lv1) \<in> set (transition_level_map stale_dpd) \<and> ?lv1 \<noteq> []
      \<and> map_of (stable_entries stale_dpd) (py ''vac_1_Cd_2@0'') = Some [vac_two, vac_zero]
      \<and> map_of xy' (py ''vac_1_Cd_2@0'') = Some (xs1, ys1)"
    using run m1 stale_keys by simp
  have uB1: "1 < length ?lv1 \<and> map_of ?lv1 (sort (map fst ?lv1) ! 1) = Some [1, 0]
      \<and> (\<forall>e\<in>set [vac_two, vac_zero]. charge_state e \<noteq> Max (set [1, 0]))"
    by (simp add: vac_two_def vac_zero_def)
  from thm1 [THEN conjunct2, THEN conjunct2, THEN conjunct2, THEN conjunct1, THEN mp, OF preB1, THEN conjunct1, rule_format, OF uB1]
  have B1: "ys1 ! 2 = ys1 ! 1" by (simp add: numeral_2_eq_2)
  have preB2: "get_formation_energy_lines linear_interp stale_dpd () (- 0.3, 2.3)
          = Inr (((xy', yrv), (all_xy, all_yrv), ymin'), ws)
      \<and> distinct (map fst (transition_level_map stale_dpd))
      \<and> (py ''Int_Te_3_0@1'', ?lv2) \<in> set (transition_level_map stale_dpd) \<and> ?lv2 \<noteq> []
      \<and> map_of (stable_entries stale_dpd) (py ''Int_Te_3_0@1'') = Some [int_zero]
      \<and> map_of xy' (py ''Int_Te_3_0@1'') = Some (xs2, ys2)"
    using run m2 stale_keys by simp
  have uB2: "0 < length ?lv2 \<and> map_of ?lv2 (sort (map fst ?lv2) ! 0) = Some [1, 0]
      \<and> (\<forall>e\<in>set [int_zero]. charge_state e \<noteq> Max (set [1, 0]))"
    by (simp add: int_zero_def)
  from thm1 [THEN conjunct2, THEN conjunct2, THEN conjunct2, THEN conjunct1, THEN mp, OF preB2, THEN conjunct1, rule_format, OF uB2]
  have B2: "ys2 ! 1 = ys2 ! 0" by simp
  from run m1 m2 B1 B2 have B: "\<exists>xy' yrv all_xy all_yrv ymin' ws xs1 ys1 xs2 ys2.
         get_formation_energy_lines linear_interp stale_dpd () (- 0.3, 2.3)
           = Inr (((xy', yrv), (all_xy, all_yrv), ymin'), ws)
       \<and> map_of xy' (py ''vac_1_Cd_2@0'') = Some (xs1, ys1)
       \<and> map_of xy' (py ''Int_Te_3_0@1'') = Some (xs2, ys2)
       \<and> ys1 ! 2 = ys1 ! 1 \<and> ys2 ! 1 = ys2 ! 0"
    by blast
  \<comment> \<open>a value carried over from the species with a non-empty map before\<close>
  from between_run obtain bxy byrv ball_xy ball_yrv bymin bws where
    brun: "get_formation_energy_lines linear_interp between_dpd () (- 0.3, 2.3)
       = Inr (((bxy, byrv), (ball_xy, ball_yrv), bymin), bws)"
    and bxy: "bxy = [(py ''vac_1_Cd_2@0'', ([- 100, 1, 2, 100], [- 200, 2, 2, 3])),
             (py ''Int_Cd_1_0@1'', ([- 100, 100], [6, 6])),
             (py ''Int_Te_3_0@2'', ([- 100, 1, 100], [3, 3, 4]))]"
    by blast
  obtain bxs1 bys1 bxs2 bys2 where
    bm1: "map_of bxy (py ''vac_1_Cd_2@0'') = Some (bxs1, bys1)"
    and bm2: "map_of bxy (py ''Int_Te_3_0@2'') = Some (bxs2, bys2)"
    by (simp add: bxy py_def)
  have preC: "get_formation_energy_lines linear_interp between_dpd () (- 0.3, 2.3)
          = Inr (((bxy, byrv), (ball_xy, ball_yrv), bymin), bws)
      \<and> distinct (map fst (transition_level_map between_dpd))
      \<and> transition_level_map between_dpd
           = [] @ (py ''vac_1_Cd_2@0'', ?lv1) # [(py ''Int_Cd_1_0@1'', [])]
               @ (py ''Int_Te_3_0@2'', ?lv2) # []
      \<and> ?lv1 \<noteq> [] \<and> (\<forall>item\<in>set [(py ''Int_Cd_1_0@1'', [])]. snd item = []) \<and> ?lv2 \<noteq> []
      \<and> map_of (stable_entries between_dpd) (py ''Int_Te_3_0@2'') = Some [int_zero]
      \<and> map_of ?lv2 (hd (sort (map fst ?lv2))) = Some [1, 0]
      \<and> (\<forall>e\<in>set [int_zero]. charge_state e \<noteq> Max (set [1, 0]))
      \<and> map_of bxy (py ''vac_1_Cd_2@0'') = Some (bxs1, bys1)
      \<and> map_of bxy (py ''Int_Te_3_0@2'') = Some (bxs2, bys2)"
    using brun bm1 bm2 between_keys by (simp add: int_zero_def)
  from thm1 [THEN conjunct2, THEN conjunct2, THEN conjunct2, THEN conjunct2, THEN conjunct1, THEN mp, OF preC]
  have "bys2 ! 0 = last bys1" .
  with brun bm1 bm2 have C: "\<exists>xy' yrv all_xy all_yrv ymin' ws xs1 ys1 xs2 ys2.
         get_formation_energy_lines linear_interp between_dpd () (- 0.3, 2.3)
           = Inr (((xy', yrv), (all_xy, all_yrv), ymin'), ws)
       \<and> map_of xy' (py ''vac_1_Cd_2@0'') = Some (xs1, ys1)
       \<and> map_of xy' (py ''Int_Te_3_0@2'') = Some (xs2, ys2)
       \<and> ys2 ! 0 = last ys1"
    by blast
  from S1 S2 A G A2 D B C show ?thesis by blast
qed

end
